theory Spec2Isabelle
  imports Complex_Main "HOL-Library.Sublist" "HOL-Library.AList"
begin

section \<open>Python values, errors and the random source\<close>

text \<open>
  The generator script \<^verbatim>\<open>scripts/generate_functiongemma_training.py\<close> is embedded
  function by function. A Python string is a list of code points below 256; an exception
  is a value of \<open>py_error\<close>, and a function that can raise returns \<open>py_error + 'a\<close>
  (\<open>Inl\<close> the exception).
\<close>

datatype py_error = KeyError string | IndexError | ValueError | ZeroDivisionError

text \<open>Sequencing of two computations that can raise: the first exception wins.\<close>

definition ebind :: "py_error + 'a \<Rightarrow> ('a \<Rightarrow> py_error + 'b) \<Rightarrow> py_error + 'b" where
  "ebind m f = (case m of Inl e \<Rightarrow> Inl e | Inr x \<Rightarrow> f x)"

text \<open>
  The module-level random source is threaded through every function that draws from it.
  Its state is the sequence of raw draws still to come; a finite list stands for the
  sequence that continues with zeros, so every run (which makes finitely many draws) of
  every source is covered by some list.
\<close>

type_synonym rng = "nat list"

fun draw :: "rng \<Rightarrow> nat \<times> rng" where
  "draw [] = (0, [])"
| "draw (r # rs) = (r, rs)"

text \<open>
  \<^verbatim>\<open>random.random()\<close>: a double \<open>k / 2^53\<close> with \<open>0 \<le> k < 2^53\<close>. Doubles are
  modelled by the rationals they denote, so comparisons are exact.
\<close>

definition random_random :: "rng \<Rightarrow> rat \<times> rng" where
  "random_random rs = (case draw rs of (r, rs') \<Rightarrow> (of_nat (r mod 2 ^ 53) / 2 ^ 53, rs'))"

text \<open>\<^verbatim>\<open>random.choice(seq)\<close>: IndexError on an empty sequence.\<close>

definition random_choice :: "rng \<Rightarrow> 'a list \<Rightarrow> py_error + ('a \<times> rng)" where
  "random_choice rs xs =
     (if xs = [] then Inl IndexError
      else case draw rs of (r, rs') \<Rightarrow> Inr (xs ! (r mod length xs), rs'))"

text \<open>
  \<^verbatim>\<open>random.sample(population, k)\<close>: \<open>k\<close> elements at distinct positions of the
  population, in the order drawn; ValueError when \<open>k\<close> exceeds the population. Each
  element is selected by one draw among the positions not selected yet.
\<close>

fun sample_from :: "rng \<Rightarrow> 'a list \<Rightarrow> nat \<Rightarrow> 'a list \<times> rng" where
  "sample_from rs pool 0 = ([], rs)"
| "sample_from rs pool (Suc k) =
     (case draw rs of (r, rs1) \<Rightarrow>
        let j = r mod length pool in
        case sample_from rs1 (take j pool @ drop (Suc j) pool) k of
          (ys, rs2) \<Rightarrow> (pool ! j # ys, rs2))"

definition random_sample :: "rng \<Rightarrow> 'a list \<Rightarrow> nat \<Rightarrow> py_error + ('a list \<times> rng)" where
  "random_sample rs population k =
     (if length population < k then Inl ValueError else Inr (sample_from rs population k))"

section \<open>String methods\<close>

text \<open>\<^verbatim>\<open>str.isspace\<close> on one code point below 256.\<close>

definition is_space :: "char \<Rightarrow> bool" where
  "is_space c =
     (let n = (of_char c :: nat) in (9 \<le> n \<and> n \<le> 13) \<or> (28 \<le> n \<and> n \<le> 32) \<or> n = 133 \<or> n = 160)"

text \<open>\<^verbatim>\<open>str.lower\<close>: A-Z and the capital letters of Latin-1 move up by 32.\<close>

definition lower_char :: "char \<Rightarrow> char" where
  "lower_char c =
     (let n = (of_char c :: nat) in
      if (65 \<le> n \<and> n \<le> 90) \<or> (192 \<le> n \<and> n \<le> 222 \<and> n \<noteq> 215) then char_of (n + 32) else c)"

definition str_lower :: "string \<Rightarrow> string" where
  "str_lower s = map lower_char s"

text \<open>\<^verbatim>\<open>str.strip()\<close>: whitespace removed at both ends.\<close>

definition str_strip :: "string \<Rightarrow> string" where
  "str_strip s = rev (dropWhile is_space (rev (dropWhile is_space s)))"

text \<open>
  \<^verbatim>\<open>str.split()\<close>: the maximal runs of non-whitespace, in order. The second argument
  is the word being read.
\<close>

fun split_words :: "string \<Rightarrow> string \<Rightarrow> string list" where
  "split_words [] w = (if w = [] then [] else [w])"
| "split_words (c # cs) w =
     (if is_space c then (if w = [] then split_words cs [] else w # split_words cs [])
      else split_words cs (w @ [c]))"

definition str_split :: "string \<Rightarrow> string list" where
  "str_split s = split_words s []"

text \<open>\<^verbatim>\<open>sep.join(words)\<close>.\<close>

fun str_join :: "string \<Rightarrow> string list \<Rightarrow> string" where
  "str_join sep [] = []"
| "str_join sep [w] = w"
| "str_join sep (w # ws) = w @ sep @ str_join sep ws"

section \<open>The data model: tool specifications, messages, examples\<close>

record prop_spec =
  ptype :: string
  pdescription :: string
  penum :: "string list option"
  pitems :: "string option"

record param_schema =
  stype :: string
  properties :: "(string \<times> prop_spec) list"
  required :: "string list"

record tool_spec =
  name :: string
  description :: string
  parameters :: param_schema

text \<open>Argument values of the script are strings, integers and booleans.\<close>

datatype jvalue = JStr string | JInt int | JBool bool

text \<open>A dict with string keys keeps its insertion order: an association list.\<close>

type_synonym arg_dict = "(string \<times> jvalue) list"

record function_call =
  fn_name :: string
  arguments :: arg_dict

record tool_call =
  call_type :: string
  func :: function_call

text \<open>A message dict; \<open>tool_calls = None\<close> is a dict without the key.\<close>

record message =
  role :: string
  content :: string
  tool_calls :: "tool_call list option"

record example =
  messages :: "message list"
  tools :: "tool_spec list"

definition developer_message :: message where
  "developer_message =
     \<lparr>role = ''developer'',
      content = ''You are a model that can do function calling with the following functions'',
      tool_calls = None\<rparr>"

definition make_example :: "string \<Rightarrow> string \<Rightarrow> arg_dict \<Rightarrow> tool_spec list \<Rightarrow> string \<Rightarrow> example" where
  "make_example user_msg tool_name args tls thinking =
     \<lparr>messages =
        [developer_message,
         \<lparr>role = ''user'', content = user_msg, tool_calls = None\<rparr>,
         \<lparr>role = ''assistant'', content = ''<think>'' @ thinking @ ''</think>'',
          tool_calls = Some [\<lparr>call_type = ''function'',
                               func = \<lparr>fn_name = tool_name, arguments = args\<rparr>\<rparr>]\<rparr>],
      tools = tls\<rparr>"

definition make_no_tool :: "string \<Rightarrow> string \<Rightarrow> tool_spec list \<Rightarrow> example" where
  "make_no_tool user_msg response tls =
     \<lparr>messages =
        [developer_message,
         \<lparr>role = ''user'', content = user_msg, tool_calls = None\<rparr>,
         \<lparr>role = ''assistant'', content = response, tool_calls = None\<rparr>],
      tools = tls\<rparr>"

definition make_multi_tool :: "string \<Rightarrow> (string \<times> arg_dict) list \<Rightarrow> tool_spec list \<Rightarrow> string \<Rightarrow> example" where
  "make_multi_tool user_msg calls tls thinking =
     \<lparr>messages =
        [developer_message,
         \<lparr>role = ''user'', content = user_msg, tool_calls = None\<rparr>,
         \<lparr>role = ''assistant'', content = ''<think>'' @ thinking @ ''</think>'',
          tool_calls = Some (map (\<lambda>(n, a). \<lparr>call_type = ''function'',
                                               func = \<lparr>fn_name = n, arguments = a\<rparr>\<rparr>) calls)\<rparr>],
      tools = tls\<rparr>"

section \<open>vary\_message\<close>

definition prefixes :: "string list" where
  "prefixes = ['''', ''hey '', ''hi '', ''luna '', ''hey luna '', ''yo '', ''um '', ''ok '', ''please '']"

definition suffixes :: "string list" where
  "suffixes = ['''', '' please'', '' pls'', '' plz'', '' thanks'', '' thx'', '' ty'']"

text \<open>The inner loop over the sampled suffixes, for one prefix \<open>p\<close>.\<close>

fun vary_suffixes :: "string \<Rightarrow> string \<Rightarrow> string \<Rightarrow> string list \<Rightarrow> string list \<Rightarrow> string list" where
  "vary_suffixes msg lower p [] variations = variations"
| "vary_suffixes msg lower p (s # ss) variations =
     (let v = p @ lower @ s in
      vary_suffixes msg lower p ss
        (if v \<noteq> msg \<and> v \<notin> set variations then variations @ [str_strip v] else variations))"

text \<open>The outer loop over the sampled prefixes; the suffixes are sampled anew for each.\<close>

fun vary_prefixes :: "rng \<Rightarrow> string \<Rightarrow> string \<Rightarrow> string list \<Rightarrow> string list \<Rightarrow> py_error + (string list \<times> rng)" where
  "vary_prefixes rs msg lower [] variations = Inr (variations, rs)"
| "vary_prefixes rs msg lower (p # ps) variations =
     ebind (random_sample rs suffixes 2)
       (\<lambda>(ss, rs1). vary_prefixes rs1 msg lower ps (vary_suffixes msg lower p ss variations))"

definition vary_message :: "rng \<Rightarrow> string \<Rightarrow> py_error + (string list \<times> rng)" where
  "vary_message rs msg =
     ebind (random_sample rs prefixes 3)
       (\<lambda>(ps, rs1). ebind (vary_prefixes rs1 msg (str_lower msg) ps [msg])
          (\<lambda>(variations, rs2). Inr (take 5 variations, rs2)))"

section \<open>add\_typos\<close>

definition typo_map :: "(string \<times> string list) list" where
  "typo_map =
     [(''what'', [''wat'', ''waht'']), (''the'', [''teh'', ''hte'']), (''check'', [''chekc'']),
      (''show'', [''shwo'']), (''search'', [''serach'']), (''play'', [''paly'']),
      (''create'', [''crate''])]"

text \<open>
  The loop over the words of the user message. The random source is asked only for a
  word whose lower-cased form is a key of \<open>typo_map\<close>, and a second time only when the
  first draw is below one half.
\<close>

fun typo_words :: "rng \<Rightarrow> string list \<Rightarrow> py_error + (string list \<times> rng)" where
  "typo_words rs [] = Inr ([], rs)"
| "typo_words rs (w # ws) =
     (case map_of typo_map (str_lower w) of
        None \<Rightarrow> ebind (typo_words rs ws) (\<lambda>(new_words, rs'). Inr (w # new_words, rs'))
      | Some typos \<Rightarrow>
          (case random_random rs of (r, rs1) \<Rightarrow>
             if r < 1 / 2 then
               ebind (random_choice rs1 typos)
                 (\<lambda>(t, rs2). ebind (typo_words rs2 ws) (\<lambda>(new_words, rs'). Inr (t # new_words, rs')))
             else ebind (typo_words rs1 ws) (\<lambda>(new_words, rs'). Inr (w # new_words, rs'))))"

text \<open>\<^verbatim>\<open>xs[i]\<close> for a non-negative literal index.\<close>

definition list_at :: "'a list \<Rightarrow> nat \<Rightarrow> py_error + 'a" where
  "list_at xs i = (if i < length xs then Inr (xs ! i) else Inl IndexError)"

text \<open>
  The body of the loop over the examples: what one example appends to \<open>augmented\<close>,
  the example itself and, when it is selected and its text changes, one copy.
\<close>

definition typo_body :: "rng \<Rightarrow> example \<Rightarrow> rat \<Rightarrow> py_error + (example list \<times> rng)" where
  "typo_body rs ex rate =
     (case random_random rs of (r, rs1) \<Rightarrow>
        if r < rate then
          ebind (list_at (messages ex) 1) (\<lambda>m1.
            let user_msg = content m1 in
            ebind (typo_words rs1 (str_split user_msg)) (\<lambda>(new_words, rs2).
              let new_msg = str_join '' '' new_words in
              if new_msg \<noteq> user_msg then
                ebind (list_at (messages ex) 0) (\<lambda>m0.
                  ebind (list_at (messages ex) 2) (\<lambda>m2.
                    Inr ([ex,
                          \<lparr>messages = [m0, \<lparr>role = ''user'', content = new_msg, tool_calls = None\<rparr>, m2],
                           tools = tools ex\<rparr>], rs2)))
              else Inr ([ex], rs2)))
        else Inr ([ex], rs1))"

fun add_typos_loop :: "rng \<Rightarrow> example list \<Rightarrow> rat \<Rightarrow> example list \<Rightarrow> py_error + (example list \<times> rng)" where
  "add_typos_loop rs [] rate augmented = Inr (augmented, rs)"
| "add_typos_loop rs (ex # exs) rate augmented =
     ebind (typo_body rs ex rate) (\<lambda>(new, rs'). add_typos_loop rs' exs rate (augmented @ new))"

definition add_typos :: "rng \<Rightarrow> example list \<Rightarrow> rat \<Rightarrow> py_error + (example list \<times> rng)" where
  "add_typos rs examples rate = add_typos_loop rs examples rate []"

text \<open>
  The float literals of the script, as the rationals their doubles denote:
  \<^verbatim>\<open>0.1\<close> (the default of \<open>rate\<close>) and \<^verbatim>\<open>0.15\<close> (the rate \<open>main\<close> passes).
\<close>

definition float_0_1 :: rat where
  "float_0_1 = 3602879701896397 / 36028797018963968"

definition float_0_15 :: rat where
  "float_0_15 = 5404319552844595 / 36028797018963968"

text \<open>\<^verbatim>\<open>add_typos(examples)\<close>: the call that leaves \<open>rate\<close> to its default.\<close>

definition add_typos_default :: "rng \<Rightarrow> example list \<Rightarrow> py_error + (example list \<times> rng)" where
  "add_typos_default rs examples = add_typos rs examples float_0_1"

section \<open>The tool catalog\<close>

definition TOOLS :: "(string \<times> tool_spec) list" where
  "TOOLS =
     [(''research'',
       \<lparr>name = ''research'',
        description = ''Conduct in-depth research using Claude Opus 4.5. Can search the web, analyze code, process documents, and perform data analysis.'',
        parameters =
          \<lparr>stype = ''object'',
           properties = [
            (''query'', \<lparr>ptype = ''string'', pdescription = ''The research question or topic to investigate thoroughly'',
             penum = None, pitems = None\<rparr>),
            (''depth'', \<lparr>ptype = ''string'', pdescription = ''Research depth'',
             penum = Some [''quick'', ''thorough''], pitems = None\<rparr>),
            (''save_to_file'', \<lparr>ptype = ''string'', pdescription = ''Optional filename to save results'',
             penum = None, pitems = None\<rparr>)],
           required = [''query'']\<rparr>\<rparr>),
      (''search_knowledge'',
       \<lparr>name = ''search_knowledge'',
        description = ''Semantic search through user's knowledge base using embeddings'',
        parameters =
          \<lparr>stype = ''object'',
           properties = [
            (''query'', \<lparr>ptype = ''string'', pdescription = ''Search query'',
             penum = None, pitems = None\<rparr>),
            (''limit'', \<lparr>ptype = ''integer'', pdescription = ''Maximum results'',
             penum = None, pitems = None\<rparr>)],
           required = [''query'']\<rparr>\<rparr>),
      (''create_knowledge'',
       \<lparr>name = ''create_knowledge'',
        description = ''Save knowledge to the user's knowledge base'',
        parameters =
          \<lparr>stype = ''object'',
           properties = [
            (''title'', \<lparr>ptype = ''string'', pdescription = ''Title'',
             penum = None, pitems = None\<rparr>),
            (''content'', \<lparr>ptype = ''string'', pdescription = ''Content to save'',
             penum = None, pitems = None\<rparr>),
            (''category'', \<lparr>ptype = ''string'', pdescription = ''Category'',
             penum = None, pitems = None\<rparr>),
            (''tags'', \<lparr>ptype = ''array'', pdescription = ''Tags'',
             penum = None, pitems = Some ''string''\<rparr>)],
           required = [''title'', ''content'']\<rparr>\<rparr>),
      (''get_user_facts'',
       \<lparr>name = ''get_user_facts'',
        description = ''Retrieve stored facts about the user'',
        parameters =
          \<lparr>stype = ''object'',
           properties = [],
           required = []\<rparr>\<rparr>),
      (''create_task'',
       \<lparr>name = ''create_task'',
        description = ''Create a new task or todo item'',
        parameters =
          \<lparr>stype = ''object'',
           properties = [
            (''title'', \<lparr>ptype = ''string'', pdescription = ''Task title'',
             penum = None, pitems = None\<rparr>),
            (''description'', \<lparr>ptype = ''string'', pdescription = ''Task description'',
             penum = None, pitems = None\<rparr>),
            (''due_at'', \<lparr>ptype = ''string'', pdescription = ''Due date ISO format'',
             penum = None, pitems = None\<rparr>),
            (''priority'', \<lparr>ptype = ''string'', pdescription = ''Priority'',
             penum = Some [''low'', ''medium'', ''high''], pitems = None\<rparr>)],
           required = [''title'']\<rparr>\<rparr>),
      (''get_tasks'',
       \<lparr>name = ''get_tasks'',
        description = ''Get user's tasks with optional filtering'',
        parameters =
          \<lparr>stype = ''object'',
           properties = [
            (''status'', \<lparr>ptype = ''string'', pdescription = ''Status filter'',
             penum = Some [''pending'', ''completed''], pitems = None\<rparr>),
            (''priority'', \<lparr>ptype = ''string'', pdescription = ''Priority filter'',
             penum = Some [''low'', ''medium'', ''high''], pitems = None\<rparr>),
            (''upcoming'', \<lparr>ptype = ''boolean'', pdescription = ''Only upcoming tasks'',
             penum = None, pitems = None\<rparr>)],
           required = []\<rparr>\<rparr>),
      (''complete_task'',
       \<lparr>name = ''complete_task'',
        description = ''Mark a task as completed'',
        parameters =
          \<lparr>stype = ''object'',
           properties = [
            (''task_id'', \<lparr>ptype = ''string'', pdescription = ''Task ID'',
             penum = None, pitems = None\<rparr>)],
           required = [''task_id'']\<rparr>\<rparr>),
      (''delete_task'',
       \<lparr>name = ''delete_task'',
        description = ''Delete a task'',
        parameters =
          \<lparr>stype = ''object'',
           properties = [
            (''task_id'', \<lparr>ptype = ''string'', pdescription = ''Task ID'',
             penum = None, pitems = None\<rparr>)],
           required = [''task_id'']\<rparr>\<rparr>),
      (''get_calendar_events'',
       \<lparr>name = ''get_calendar_events'',
        description = ''Get upcoming calendar events'',
        parameters =
          \<lparr>stype = ''object'',
           properties = [
            (''days_ahead'', \<lparr>ptype = ''integer'', pdescription = ''Days ahead to look'',
             penum = None, pitems = None\<rparr>),
            (''limit'', \<lparr>ptype = ''integer'', pdescription = ''Max events'',
             penum = None, pitems = None\<rparr>)],
           required = []\<rparr>\<rparr>),
      (''create_calendar_event'',
       \<lparr>name = ''create_calendar_event'',
        description = ''Create a calendar event'',
        parameters =
          \<lparr>stype = ''object'',
           properties = [
            (''title'', \<lparr>ptype = ''string'', pdescription = ''Event title'',
             penum = None, pitems = None\<rparr>),
            (''start_at'', \<lparr>ptype = ''string'', pdescription = ''Start time ISO'',
             penum = None, pitems = None\<rparr>),
            (''end_at'', \<lparr>ptype = ''string'', pdescription = ''End time ISO'',
             penum = None, pitems = None\<rparr>),
            (''location'', \<lparr>ptype = ''string'', pdescription = ''Location'',
             penum = None, pitems = None\<rparr>)],
           required = [''title'', ''start_at'', ''end_at'']\<rparr>\<rparr>),
      (''get_emails'',
       \<lparr>name = ''get_emails'',
        description = ''Get user's emails'',
        parameters =
          \<lparr>stype = ''object'',
           properties = [
            (''unread_only'', \<lparr>ptype = ''boolean'', pdescription = ''Only unread'',
             penum = None, pitems = None\<rparr>),
            (''limit'', \<lparr>ptype = ''integer'', pdescription = ''Max emails'',
             penum = None, pitems = None\<rparr>)],
           required = []\<rparr>\<rparr>),
      (''search_emails'',
       \<lparr>name = ''search_emails'',
        description = ''Search emails'',
        parameters =
          \<lparr>stype = ''object'',
           properties = [
            (''query'', \<lparr>ptype = ''string'', pdescription = ''Search query'',
             penum = None, pitems = None\<rparr>),
            (''limit'', \<lparr>ptype = ''integer'', pdescription = ''Max results'',
             penum = None, pitems = None\<rparr>)],
           required = [''query'']\<rparr>\<rparr>),
      (''send_email'',
       \<lparr>name = ''send_email'',
        description = ''Send an email'',
        parameters =
          \<lparr>stype = ''object'',
           properties = [
            (''to'', \<lparr>ptype = ''string'', pdescription = ''Recipient'',
             penum = None, pitems = None\<rparr>),
            (''subject'', \<lparr>ptype = ''string'', pdescription = ''Subject'',
             penum = None, pitems = None\<rparr>),
            (''body'', \<lparr>ptype = ''string'', pdescription = ''Body'',
             penum = None, pitems = None\<rparr>)],
           required = [''to'', ''subject'', ''body'']\<rparr>\<rparr>),
      (''play_music'',
       \<lparr>name = ''play_music'',
        description = ''Play music on Spotify'',
        parameters =
          \<lparr>stype = ''object'',
           properties = [
            (''query'', \<lparr>ptype = ''string'', pdescription = ''Search query or URI'',
             penum = None, pitems = None\<rparr>),
            (''type'', \<lparr>ptype = ''string'', pdescription = ''Content type'',
             penum = Some [''track'', ''album'', ''artist'', ''playlist''], pitems = None\<rparr>),
            (''shuffle'', \<lparr>ptype = ''boolean'', pdescription = ''Enable shuffle'',
             penum = None, pitems = None\<rparr>)],
           required = [''query'']\<rparr>\<rparr>),
      (''pause_music'',
       \<lparr>name = ''pause_music'',
        description = ''Pause Spotify playback'',
        parameters =
          \<lparr>stype = ''object'',
           properties = [],
           required = []\<rparr>\<rparr>),
      (''skip_track'',
       \<lparr>name = ''skip_track'',
        description = ''Skip to next track'',
        parameters =
          \<lparr>stype = ''object'',
           properties = [],
           required = []\<rparr>\<rparr>),
      (''previous_track'',
       \<lparr>name = ''previous_track'',
        description = ''Go to previous track'',
        parameters =
          \<lparr>stype = ''object'',
           properties = [],
           required = []\<rparr>\<rparr>),
      (''get_currently_playing'',
       \<lparr>name = ''get_currently_playing'',
        description = ''Get currently playing track info'',
        parameters =
          \<lparr>stype = ''object'',
           properties = [],
           required = []\<rparr>\<rparr>),
      (''search_music'',
       \<lparr>name = ''search_music'',
        description = ''Search Spotify'',
        parameters =
          \<lparr>stype = ''object'',
           properties = [
            (''query'', \<lparr>ptype = ''string'', pdescription = ''Search query'',
             penum = None, pitems = None\<rparr>),
            (''limit'', \<lparr>ptype = ''integer'', pdescription = ''Max results'',
             penum = None, pitems = None\<rparr>)],
           required = [''query'']\<rparr>\<rparr>),
      (''set_volume'',
       \<lparr>name = ''set_volume'',
        description = ''Set Spotify volume'',
        parameters =
          \<lparr>stype = ''object'',
           properties = [
            (''volume_percent'', \<lparr>ptype = ''integer'', pdescription = ''Volume 0-100'',
             penum = None, pitems = None\<rparr>)],
           required = [''volume_percent'']\<rparr>\<rparr>),
      (''navigate'',
       \<lparr>name = ''navigate'',
        description = ''Navigate browser to URL'',
        parameters =
          \<lparr>stype = ''object'',
           properties = [
            (''url'', \<lparr>ptype = ''string'', pdescription = ''Target URL'',
             penum = None, pitems = None\<rparr>)],
           required = [''url'']\<rparr>\<rparr>),
      (''screenshot'',
       \<lparr>name = ''screenshot'',
        description = ''Take browser screenshot'',
        parameters =
          \<lparr>stype = ''object'',
           properties = [
            (''full_page'', \<lparr>ptype = ''boolean'', pdescription = ''Full page capture'',
             penum = None, pitems = None\<rparr>)],
           required = []\<rparr>\<rparr>),
      (''click'',
       \<lparr>name = ''click'',
        description = ''Click element by selector'',
        parameters =
          \<lparr>stype = ''object'',
           properties = [
            (''selector'', \<lparr>ptype = ''string'', pdescription = ''CSS selector'',
             penum = None, pitems = None\<rparr>)],
           required = [''selector'']\<rparr>\<rparr>),
      (''fill'',
       \<lparr>name = ''fill'',
        description = ''Fill form input'',
        parameters =
          \<lparr>stype = ''object'',
           properties = [
            (''selector'', \<lparr>ptype = ''string'', pdescription = ''CSS selector'',
             penum = None, pitems = None\<rparr>),
            (''text'', \<lparr>ptype = ''string'', pdescription = ''Text to fill'',
             penum = None, pitems = None\<rparr>)],
           required = [''selector'', ''text'']\<rparr>\<rparr>),
      (''get_page_content'',
       \<lparr>name = ''get_page_content'',
        description = ''Get page content'',
        parameters =
          \<lparr>stype = ''object'',
           properties = [
            (''url'', \<lparr>ptype = ''string'', pdescription = ''URL'',
             penum = None, pitems = None\<rparr>)],
           required = [''url'']\<rparr>\<rparr>),
      (''execute_python'',
       \<lparr>name = ''execute_python'',
        description = ''Execute Python code'',
        parameters =
          \<lparr>stype = ''object'',
           properties = [
            (''code'', \<lparr>ptype = ''string'', pdescription = ''Python code'',
             penum = None, pitems = None\<rparr>)],
           required = [''code'']\<rparr>\<rparr>),
      (''execute_javascript'',
       \<lparr>name = ''execute_javascript'',
        description = ''Execute JavaScript code'',
        parameters =
          \<lparr>stype = ''object'',
           properties = [
            (''code'', \<lparr>ptype = ''string'', pdescription = ''JavaScript code'',
             penum = None, pitems = None\<rparr>)],
           required = [''code'']\<rparr>\<rparr>),
      (''create_reminder'',
       \<lparr>name = ''create_reminder'',
        description = ''Create a reminder'',
        parameters =
          \<lparr>stype = ''object'',
           properties = [
            (''message'', \<lparr>ptype = ''string'', pdescription = ''Reminder message'',
             penum = None, pitems = None\<rparr>),
            (''delay_minutes'', \<lparr>ptype = ''integer'', pdescription = ''Minutes until reminder'',
             penum = None, pitems = None\<rparr>)],
           required = [''message'', ''delay_minutes'']\<rparr>\<rparr>),
      (''list_reminders'',
       \<lparr>name = ''list_reminders'',
        description = ''Get pending reminders'',
        parameters =
          \<lparr>stype = ''object'',
           properties = [],
           required = []\<rparr>\<rparr>),
      (''write_file'',
       \<lparr>name = ''write_file'',
        description = ''Write file to workspace'',
        parameters =
          \<lparr>stype = ''object'',
           properties = [
            (''filename'', \<lparr>ptype = ''string'', pdescription = ''Filename'',
             penum = None, pitems = None\<rparr>),
            (''content'', \<lparr>ptype = ''string'', pdescription = ''Content'',
             penum = None, pitems = None\<rparr>)],
           required = [''filename'', ''content'']\<rparr>\<rparr>),
      (''read_file'',
       \<lparr>name = ''read_file'',
        description = ''Read file from workspace'',
        parameters =
          \<lparr>stype = ''object'',
           properties = [
            (''filename'', \<lparr>ptype = ''string'', pdescription = ''Filename'',
             penum = None, pitems = None\<rparr>)],
           required = [''filename'']\<rparr>\<rparr>),
      (''list_files'',
       \<lparr>name = ''list_files'',
        description = ''List workspace files'',
        parameters =
          \<lparr>stype = ''object'',
           properties = [],
           required = []\<rparr>\<rparr>),
      (''delete_file'',
       \<lparr>name = ''delete_file'',
        description = ''Delete workspace file'',
        parameters =
          \<lparr>stype = ''object'',
           properties = [
            (''filename'', \<lparr>ptype = ''string'', pdescription = ''Filename'',
             penum = None, pitems = None\<rparr>)],
           required = [''filename'']\<rparr>\<rparr>),
      (''generate_image'',
       \<lparr>name = ''generate_image'',
        description = ''Generate image using AI'',
        parameters =
          \<lparr>stype = ''object'',
           properties = [
            (''prompt'', \<lparr>ptype = ''string'', pdescription = ''Image prompt'',
             penum = None, pitems = None\<rparr>)],
           required = [''prompt'']\<rparr>\<rparr>),
      (''search_youtube'',
       \<lparr>name = ''search_youtube'',
        description = ''Search YouTube videos'',
        parameters =
          \<lparr>stype = ''object'',
           properties = [
            (''query'', \<lparr>ptype = ''string'', pdescription = ''Search query'',
             penum = None, pitems = None\<rparr>),
            (''limit'', \<lparr>ptype = ''integer'', pdescription = ''Max results'',
             penum = None, pitems = None\<rparr>)],
           required = [''query'']\<rparr>\<rparr>),
      (''system_cpu_usage'',
       \<lparr>name = ''system_cpu_usage'',
        description = ''Get CPU usage'',
        parameters =
          \<lparr>stype = ''object'',
           properties = [],
           required = []\<rparr>\<rparr>),
      (''system_memory'',
       \<lparr>name = ''system_memory'',
        description = ''Get memory usage'',
        parameters =
          \<lparr>stype = ''object'',
           properties = [],
           required = []\<rparr>\<rparr>),
      (''system_disk'',
       \<lparr>name = ''system_disk'',
        description = ''Get disk usage'',
        parameters =
          \<lparr>stype = ''object'',
           properties = [],
           required = []\<rparr>\<rparr>),
      (''system_uptime'',
       \<lparr>name = ''system_uptime'',
        description = ''Get system uptime'',
        parameters =
          \<lparr>stype = ''object'',
           properties = [],
           required = []\<rparr>\<rparr>),
      (''system_load'',
       \<lparr>name = ''system_load'',
        description = ''Get system load'',
        parameters =
          \<lparr>stype = ''object'',
           properties = [],
           required = []\<rparr>\<rparr>),
      (''docker_containers'',
       \<lparr>name = ''docker_containers'',
        description = ''Get Docker containers'',
        parameters =
          \<lparr>stype = ''object'',
           properties = [
            (''only_running'', \<lparr>ptype = ''boolean'', pdescription = ''Only running'',
             penum = None, pitems = None\<rparr>)],
           required = []\<rparr>\<rparr>),
      (''docker_logs'',
       \<lparr>name = ''docker_logs'',
        description = ''Get Docker container logs'',
        parameters =
          \<lparr>stype = ''object'',
           properties = [
            (''container_id'', \<lparr>ptype = ''string'', pdescription = ''Container ID'',
             penum = None, pitems = None\<rparr>),
            (''lines'', \<lparr>ptype = ''integer'', pdescription = ''Log lines'',
             penum = None, pitems = None\<rparr>)],
           required = [''container_id'']\<rparr>\<rparr>),
      (''docker_stats'',
       \<lparr>name = ''docker_stats'',
        description = ''Get Docker container stats'',
        parameters =
          \<lparr>stype = ''object'',
           properties = [
            (''container_id'', \<lparr>ptype = ''string'', pdescription = ''Container ID'',
             penum = None, pitems = None\<rparr>)],
           required = [''container_id'']\<rparr>\<rparr>),
      (''analyze_mood'',
       \<lparr>name = ''analyze_mood'',
        description = ''Analyze mood in text'',
        parameters =
          \<lparr>stype = ''object'',
           properties = [
            (''message'', \<lparr>ptype = ''string'', pdescription = ''Text to analyze'',
             penum = None, pitems = None\<rparr>)],
           required = [''message'']\<rparr>\<rparr>),
      (''get_mood_history'',
       \<lparr>name = ''get_mood_history'',
        description = ''Get mood history'',
        parameters =
          \<lparr>stype = ''object'',
           properties = [],
           required = []\<rparr>\<rparr>),
      (''search_documents'',
       \<lparr>name = ''search_documents'',
        description = ''Search uploaded documents'',
        parameters =
          \<lparr>stype = ''object'',
           properties = [
            (''query'', \<lparr>ptype = ''string'', pdescription = ''Search query'',
             penum = None, pitems = None\<rparr>),
            (''limit'', \<lparr>ptype = ''integer'', pdescription = ''Max results'',
             penum = None, pitems = None\<rparr>)],
           required = [''query'']\<rparr>\<rparr>),
      (''get_documents'',
       \<lparr>name = ''get_documents'',
        description = ''List uploaded documents'',
        parameters =
          \<lparr>stype = ''object'',
           properties = [],
           required = []\<rparr>\<rparr>),
      (''generate_background'',
       \<lparr>name = ''generate_background'',
        description = ''Generate desktop background'',
        parameters =
          \<lparr>stype = ''object'',
           properties = [
            (''prompt'', \<lparr>ptype = ''string'', pdescription = ''Background description'',
             penum = None, pitems = None\<rparr>),
            (''style'', \<lparr>ptype = ''string'', pdescription = ''Style'',
             penum = Some [''abstract'', ''nature'', ''artistic''], pitems = None\<rparr>)],
           required = [''prompt'']\<rparr>\<rparr>),
      (''get_backgrounds'',
       \<lparr>name = ''get_backgrounds'',
        description = ''Get saved backgrounds'',
        parameters =
          \<lparr>stype = ''object'',
           properties = [],
           required = []\<rparr>\<rparr>),
      (''create_project'',
       \<lparr>name = ''create_project'',
        description = ''Create a project'',
        parameters =
          \<lparr>stype = ''object'',
           properties = [
            (''name'', \<lparr>ptype = ''string'', pdescription = ''Project name'',
             penum = None, pitems = None\<rparr>),
            (''type'', \<lparr>ptype = ''string'', pdescription = ''Project type'',
             penum = None, pitems = None\<rparr>),
            (''description'', \<lparr>ptype = ''string'', pdescription = ''Description'',
             penum = None, pitems = None\<rparr>)],
           required = [''name'', ''type'']\<rparr>\<rparr>),
      (''get_projects'',
       \<lparr>name = ''get_projects'',
        description = ''Get user's projects'',
        parameters =
          \<lparr>stype = ''object'',
           properties = [],
           required = []\<rparr>\<rparr>),
      (''analyze_image'',
       \<lparr>name = ''analyze_image'',
        description = ''Analyze an image'',
        parameters =
          \<lparr>stype = ''object'',
           properties = [
            (''image_url'', \<lparr>ptype = ''string'', pdescription = ''Image URL'',
             penum = None, pitems = None\<rparr>),
            (''prompt'', \<lparr>ptype = ''string'', pdescription = ''Analysis prompt'',
             penum = None, pitems = None\<rparr>)],
           required = [''image_url'']\<rparr>\<rparr>)]"

text \<open>\<^verbatim>\<open>TOOLS[key]\<close>: KeyError for a key the dict does not have.\<close>

definition TOOLS_at :: "string \<Rightarrow> py_error + tool_spec" where
  "TOOLS_at key = (case map_of TOOLS key of None \<Rightarrow> Inl (KeyError key) | Some t \<Rightarrow> Inr t)"

section \<open>Helpers of the generators\<close>

text \<open>\<^verbatim>\<open>str(n)\<close> for an integer: decimal digits, with a minus sign when negative.\<close>

fun str_of_nat :: "nat \<Rightarrow> string" where
  "str_of_nat n =
     (if n < 10 then [char_of (48 + n)] else str_of_nat (n div 10) @ [char_of (48 + n mod 10)])"

definition str_of_int :: "int \<Rightarrow> string" where
  "str_of_int i = (if i < 0 then CHR ''-'' # str_of_nat (nat (- i)) else str_of_nat (nat i))"

text \<open>
  \<^verbatim>\<open>str.title()\<close> on ASCII text (the script applies it to ASCII literals): a letter
  that follows a letter is lower-cased, every other letter is upper-cased. The first
  argument says whether the previous character is a letter.
\<close>

definition is_ascii_letter :: "char \<Rightarrow> bool" where
  "is_ascii_letter c =
     (let n = (of_char c :: nat) in (65 \<le> n \<and> n \<le> 90) \<or> (97 \<le> n \<and> n \<le> 122))"

definition upper_char :: "char \<Rightarrow> char" where
  "upper_char c =
     (let n = (of_char c :: nat) in if 97 \<le> n \<and> n \<le> 122 then char_of (n - 32) else c)"

fun title_from :: "bool \<Rightarrow> string \<Rightarrow> string" where
  "title_from prev [] = []"
| "title_from prev (c # cs) =
     (if is_ascii_letter c
      then (if prev then lower_char c else upper_char c) # title_from True cs
      else c # title_from False cs)"

definition str_title :: "string \<Rightarrow> string" where
  "str_title s = title_from False s"

text \<open>
  \<^verbatim>\<open>pattern.format(**kwargs)\<close> with string values, for replacement fields that are
  plain names (all the fields of the script): \<open>{name}\<close> is replaced by the value of
  \<open>name\<close>, KeyError when there is none; \<open>{{\<close> and \<open>}}\<close> stand for one brace; a brace
  that is left open, or a single closing brace, is a ValueError; an empty or numeric
  field asks for a positional argument, of which there are none (IndexError). The third
  argument is the field name read so far, when inside a field.
\<close>

fun format_scan :: "(string \<times> string) list \<Rightarrow> string \<Rightarrow> string option \<Rightarrow> py_error + string" where
  "format_scan kw [] None = Inr []"
| "format_scan kw [] (Some nm) = Inl ValueError"
| "format_scan kw (c # cs) None =
     (if c = CHR ''{'' then
        (case cs of
           [] \<Rightarrow> Inl ValueError
         | c' # cs' \<Rightarrow>
             if c' = CHR ''{'' then ebind (format_scan kw cs' None) (\<lambda>r. Inr (CHR ''{'' # r))
             else format_scan kw cs (Some []))
      else if c = CHR ''}'' then
        (case cs of
           [] \<Rightarrow> Inl ValueError
         | c' # cs' \<Rightarrow>
             if c' = CHR ''}'' then ebind (format_scan kw cs' None) (\<lambda>r. Inr (CHR ''}'' # r))
             else Inl ValueError)
      else ebind (format_scan kw cs None) (\<lambda>r. Inr (c # r)))"
| "format_scan kw (c # cs) (Some nm) =
     (if c = CHR ''}'' then
        (if nm = [] \<or> (\<forall>d\<in>set nm. 48 \<le> (of_char d :: nat) \<and> (of_char d :: nat) \<le> 57)
         then Inl IndexError
         else case map_of kw nm of
                None \<Rightarrow> Inl (KeyError nm)
              | Some v \<Rightarrow> ebind (format_scan kw cs None) (\<lambda>r. Inr (v @ r)))
      else format_scan kw cs (Some (nm @ [c])))"

definition py_format :: "string \<Rightarrow> (string \<times> string) list \<Rightarrow> py_error + string" where
  "py_format pattern kw = format_scan kw pattern None"

text \<open>A list display of catalog lookups, \<^verbatim>\<open>[TOOLS[k1], TOOLS[k2], ...]\<close>, left to right.\<close>

fun tools_list :: "string list \<Rightarrow> py_error + tool_spec list" where
  "tools_list [] = Inr []"
| "tools_list (k # ks) = ebind (TOOLS_at k) (\<lambda>t. ebind (tools_list ks) (\<lambda>ts. Inr (t # ts)))"

text \<open>
  A \<^verbatim>\<open>for\<close> loop whose body appends to \<open>examples\<close> and may draw from the random
  source or raise: the loop returns what its passes appended, in order.
\<close>

fun for_each :: "('a \<Rightarrow> rng \<Rightarrow> py_error + ('b list \<times> rng)) \<Rightarrow> 'a list \<Rightarrow> rng \<Rightarrow> py_error + ('b list \<times> rng)" where
  "for_each body [] rs = Inr ([], rs)"
| "for_each body (x # xs) rs =
     ebind (body x rs) (\<lambda>(new, rs1).
       ebind (for_each body xs rs1) (\<lambda>(rest, rs2). Inr (new @ rest, rs2)))"

text \<open>Truthiness of an optional string: \<^verbatim>\<open>None\<close> and the empty string are false.\<close>

definition truthy :: "string option \<Rightarrow> bool" where
  "truthy v = (case v of None \<Rightarrow> False | Some s \<Rightarrow> s \<noteq> [])"

section \<open>The value tables of the generators\<close>

text \<open>
  Each table is a local list of one generator; its name here is the generator's name
  followed by the name of the local variable.
\<close>

definition research_topics :: "string list" where
  "research_topics =
     [''quantum computing'', ''SpaceX Starship'', ''climate change'', ''Python async'',
      ''machine learning'', ''AI regulation'', ''James Webb telescope'', ''mRNA vaccines'',
      ''Internet history'', ''dark matter'', ''blockchain'', ''React best practices'',
      ''cryptocurrency'', ''healthy eating'', ''space exploration'', ''renewable energy'',
      ''neural networks'', ''web3'', ''rust programming'', ''kubernetes'', ''CRISPR'',
      ''electric vehicles'', ''5G networks'', ''cybersecurity'', ''quantum cryptography'',
      ''AGI'', ''fusion energy'', ''Mars colonization'', ''brain computer interface'',
      ''NVIDIA AI'', ''transformers architecture'', ''GPT models'', ''diffusion models'',
      ''reinforcement learning'', ''LLM fine-tuning'', ''RAG systems'', ''vector databases'',
      ''prompt engineering'', ''AI safety'', ''autonomous vehicles'', ''drone technology'',
      ''robotics'', ''IoT security'', ''edge computing'', ''microservices'', ''serverless'',
      ''GraphQL'', ''WebAssembly'', ''progressive web apps'']"

definition research_patterns :: "string list" where
  "research_patterns =
     [''Research {t}'', ''Look up {t}'', ''Research {t} for me'', ''Tell me about {t}'',
      ''What do we know about {t}?'', ''Find out about {t}'', ''Investigate {t}'',
      ''I'm curious about {t}'', ''Deep dive into {t}'', ''What's the latest on {t}?'',
      ''research {t}'', ''look into {t}'', ''whats going on with {t}'', ''info on {t}'']"

definition knowledge_search_terms :: "string list" where
  "knowledge_search_terms =
     [''Python'', ''Luna project'', ''databases'', ''transformers'', ''consciousness'',
      ''API endpoints'', ''training'', ''agent architecture'', ''memory'', ''embeddings'',
      ''Docker'', ''security'', ''async'', ''vector databases'', ''OpenAI API'',
      ''React hooks'', ''TypeScript'', ''testing'', ''deployment'', ''monitoring'',
      ''authentication'', ''caching'', ''performance'', ''debugging'', ''logging'',
      ''error handling'', ''git workflow'', ''code review'', ''refactoring'',
      ''design patterns'']"

definition knowledge_patterns :: "string list" where
  "knowledge_patterns =
     [''Search my notes for {t}'', ''Find {t} in my knowledge'',
      ''What did I write about {t}?'', ''Do I have notes on {t}?'', ''Look up {t} notes'',
      ''Search for {t}'', ''find {t} stuff'', ''search knowledge for {t}'',
      ''check my notes about {t}'', ''anything about {t}?'', ''{t} notes'', ''look for {t}'']"

definition knowledge_creates :: "(string \<times> string \<times> string \<times> string) list" where
  "knowledge_creates =
     [(''Save this: {c}'', ''Saved Note'', ''{c}'', ''notes''),
      (''Remember that {c}'', ''Reminder'', ''{c}'', ''reminders''),
      (''Note: {c}'', ''Note'', ''{c}'', ''notes'')]"

definition knowledge_contents :: "string list" where
  "knowledge_contents =
     [''Python list comprehensions are faster'', ''API key expires March 15'',
      ''Server IP is 192.168.1.100'', ''React hooks at top level'',
      ''TypeScript strict mode always'', ''Redis port 6379'',
      ''JWT tokens expire 15 minutes'', ''Use semantic versioning'',
      ''Always handle errors properly'', ''Cache frequently accessed data'']"

definition knowledge_fact_queries :: "string list" where
  "knowledge_fact_queries =
     [''What do you know about me?'', ''Show my preferences'', ''My profile'',
      ''What have you learned about me?'', ''my facts'', ''user facts'']"

definition tasks_tasks :: "(string \<times> string \<times> string option \<times> string option) list" where
  "tasks_tasks =
     [(''review the code'', ''Review code'', None, None),
      (''finish the report'', ''Finish report'', Some ''Complete report'', Some ''high''),
      (''call mom'', ''Call mom'', None, None),
      (''deploy to production'', ''Deploy'', Some ''Deploy to prod'', Some ''high''),
      (''buy groceries'', ''Buy groceries'', None, Some ''low''),
      (''update documentation'', ''Update docs'', None, Some ''medium''),
      (''fix the login bug'', ''Fix login bug'', Some ''Fix auth issue'', Some ''high''),
      (''send invoice'', ''Send invoice'', None, Some ''medium''),
      (''review PRs'', ''Review PRs'', Some ''Review pull requests'', Some ''medium''),
      (''clean up database'', ''Clean DB'', Some ''Remove old entries'', Some ''low''),
      (''write unit tests'', ''Write tests'', Some ''Add unit tests'', Some ''medium''),
      (''backup server'', ''Backup server'', None, Some ''high''),
      (''update dependencies'', ''Update deps'', Some ''Update npm packages'', Some ''medium''),
      (''schedule meeting'', ''Schedule meeting'', None, Some ''low''),
      (''prepare presentation'', ''Prepare presentation'', Some ''Create slides'', Some ''high''),
      (''respond to emails'', ''Respond emails'', None, Some ''medium''),
      (''refactor auth module'', ''Refactor auth'', Some ''Improve auth code'', Some ''medium''),
      (''set up monitoring'', ''Setup monitoring'', Some ''Configure alerts'', Some ''high''),
      (''document API'', ''Document API'', Some ''Write API docs'', Some ''medium''),
      (''run performance tests'', ''Perf tests'', Some ''Run load tests'', Some ''high''),
      (''fix broken tests'', ''Fix tests'', Some ''Debug failing tests'', Some ''high''),
      (''optimize queries'', ''Optimize queries'', Some ''Improve DB queries'', Some ''medium''),
      (''review security'', ''Security review'', Some ''Check vulnerabilities'', Some ''high''),
      (''update README'', ''Update README'', None, Some ''low''),
      (''merge branches'', ''Merge branches'', Some ''Merge feature to main'', Some ''medium'')]"

definition tasks_create_patterns :: "string list" where
  "tasks_create_patterns =
     [''Add a task to {t}'', ''Create a todo: {t}'', ''Remind me to {t}'', ''Task: {t}'',
      ''I need to {t}'', ''todo: {t}'', ''add task {t}'', ''new task: {t}'',
      ''remember to {t}'', ''add to my list: {t}'', ''make a task {t}'']"

definition tasks_get_patterns :: "(string \<times> arg_dict) list" where
  "tasks_get_patterns =
     [(''What are my tasks?'', []),
      (''Show my todo list'', []),
      (''What do I need to do?'', []),
      (''Show pending tasks'', [(''status'', JStr ''pending'')]),
      (''What have I completed?'', [(''status'', JStr ''completed'')]),
      (''High priority tasks'', [(''priority'', JStr ''high'')]),
      (''What's coming up?'', [(''upcoming'', JBool True)]),
      (''list my todos'', []),
      (''my task list'', []),
      (''tasks please'', []),
      (''pending items'', [(''status'', JStr ''pending'')]),
      (''medium priority'', [(''priority'', JStr ''medium'')]),
      (''low priority stuff'', [(''priority'', JStr ''low'')])]"

definition calendar_get_patterns :: "(string \<times> arg_dict) list" where
  "calendar_get_patterns =
     [(''What's on my calendar?'', []),
      (''Show my schedule'', []),
      (''Any meetings today?'', [(''days_ahead'', JInt 1)]),
      (''What's coming up this week?'', [(''days_ahead'', JInt 7)]),
      (''Calendar for tomorrow'', [(''days_ahead'', JInt 2)]),
      (''do i have appointments'', []),
      (''whats my schedule'', []),
      (''events this month'', [(''days_ahead'', JInt 30)]),
      (''upcoming meetings'', [(''days_ahead'', JInt 7)]),
      (''calendar please'', []),
      (''my schedule today'', [(''days_ahead'', JInt 1)]),
      (''meetings today'', [(''days_ahead'', JInt 1)]),
      (''schedule this week'', [(''days_ahead'', JInt 7)]),
      (''any events'', []),
      (''check calendar'', [])]"

definition calendar_events :: "string list" where
  "calendar_events =
     [''meeting with Henke'', ''dentist appointment'', ''lunch with Sarah'', ''team standup'',
      ''client call'', ''doctor appointment'', ''interview'', ''team lunch'',
      ''1:1 with manager'', ''project review'', ''demo presentation'', ''training session'',
      ''planning meeting'']"

definition email_get_patterns :: "(string \<times> arg_dict) list" where
  "email_get_patterns =
     [(''Check my email'', []),
      (''Any new emails?'', [(''unread_only'', JBool True)]),
      (''Show my inbox'', []),
      (''Unread messages?'', [(''unread_only'', JBool True)]),
      (''show emails'', []),
      (''check mail'', [(''unread_only'', JBool True)]),
      (''any messages?'', []),
      (''inbox please'', []),
      (''email inbox'', []),
      (''new mail?'', [(''unread_only'', JBool True)])]"

definition email_searches :: "string list" where
  "email_searches =
     [''Henke'', ''project'', ''invoice'', ''meeting'', ''contract'', ''deployment'',
      ''Amazon'', ''shipping'', ''password reset'', ''order'', ''receipt'', ''support'']"

definition email_sends :: "(string \<times> string \<times> string) list" where
  "email_sends =
     [(''henke@example.com'', ''Report Ready'', ''The report is ready.''),
      (''sarah@company.com'', ''Meeting'', ''Reminder about meeting.''),
      (''support@vendor.com'', ''Order'', ''Order status inquiry.''),
      (''team@company.com'', ''Deadline'', ''Reminder: deadline Friday.'')]"

definition music_items :: "(string \<times> string) list" where
  "music_items =
     [(''jazz'', ''playlist''),
      (''Bohemian Rhapsody'', ''track''),
      (''Taylor Swift'', ''artist''),
      (''Abbey Road'', ''album''),
      (''lo-fi beats'', ''playlist''),
      (''chill'', ''playlist''),
      (''Beethoven'', ''artist''),
      (''workout'', ''playlist''),
      (''classical'', ''playlist''),
      (''relaxing music'', ''playlist''),
      (''Daft Punk'', ''artist''),
      (''rock'', ''playlist''),
      (''hip hop'', ''playlist''),
      (''EDM'', ''playlist''),
      (''pop hits'', ''playlist''),
      (''80s music'', ''playlist''),
      (''country'', ''playlist''),
      (''indie'', ''playlist''),
      (''metal'', ''playlist''),
      (''R&B'', ''playlist''),
      (''Blinding Lights'', ''track''),
      (''Hotel California'', ''track''),
      (''Stairway to Heaven'', ''track''),
      (''Drake'', ''artist''),
      (''The Beatles'', ''artist''),
      (''Coldplay'', ''artist''),
      (''Pink Floyd'', ''artist''),
      (''Eminem'', ''artist''),
      (''Dark Side of the Moon'', ''album''),
      (''Thriller'', ''album''),
      (''focus music'', ''playlist''),
      (''study music'', ''playlist''),
      (''party music'', ''playlist''),
      (''ambient'', ''playlist''),
      (''acoustic'', ''playlist''),
      (''piano music'', ''playlist'')]"

definition music_patterns :: "string list" where
  "music_patterns =
     [''Play {i}'', ''Put on {i}'', ''play {i}'', ''i want to listen to {i}'',
      ''play me {i}'', ''lets hear {i}'', ''queue up {i}'', ''start {i}'']"

definition music_volumes :: "(int \<times> string) list" where
  "music_volumes =
     [(70, ''Turn up''),
      (30, ''Turn down''),
      (50, ''Set to 50''),
      (80, ''Louder''),
      (25, ''Quieter''),
      (100, ''Max''),
      (0, ''Mute'')]"

definition code_python_examples :: "(string \<times> string) list" where
  "code_python_examples =
     [(''Calculate 2+2'', ''print(2 + 2)''),
      (''print hello'', ''print('hello')''),
      (''Fibonacci sequence'', ''def fib(n):\<newline>    a, b = 0, 1\<newline>    for _ in range(n):\<newline>        print(a)\<newline>        a, b = b, a + b\<newline>fib(10)''),
      (''Factorial of 5'', ''import math\<newline>print(math.factorial(5))''),
      (''Sort a list'', ''nums = [3, 1, 4, 1, 5]\<newline>print(sorted(nums))''),
      (''100 divided by 7'', ''print(100 / 7)''),
      (''Random number'', ''import random\<newline>print(random.randint(1, 100))''),
      (''Current date'', ''from datetime import datetime\<newline>print(datetime.now())''),
      (''List comprehension'', ''print([x**2 for x in range(10)])''),
      (''String reverse'', ''print('hello'[::-1])''),
      (''Is 17 prime'', ''print(all(17 % i != 0 for i in range(2, int(17**0.5)+1)))''),
      (''Sum of 1-5'', ''print(sum([1,2,3,4,5]))''),
      (''Max in list'', ''print(max([3, 7, 2, 9]))''),
      (''Celsius to Fahrenheit 25C'', ''print(25 * 9/5 + 32)'')]"

definition code_js_examples :: "(string \<times> string) list" where
  "code_js_examples =
     [(''console.log hi'', ''console.log('hi')''),
      (''Reverse string'', (''console.log('hello'.split('' @ [CHR 0x27, CHR 0x27] @ '').reverse().join('' @ [CHR 0x27, CHR 0x27] @ ''))'')),
      (''Array sum'', ''console.log([1,2,3,4,5].reduce((a,b)=>a+b,0))''),
      (''Current timestamp'', ''console.log(Date.now())'')]"

definition reminders_reminders :: "(string \<times> int) list" where
  "reminders_reminders =
     [(''take a break'', 30),
      (''check the oven'', 60),
      (''call Henke'', 15),
      (''Timer'', 5),
      (''review PR'', 120),
      (''team meeting'', 45),
      (''stretch'', 10),
      (''pick up laundry'', 180),
      (''the call'', 20),
      (''lunch'', 90),
      (''drink water'', 30),
      (''take medicine'', 240),
      (''check email'', 60),
      (''stand up'', 25),
      (''save work'', 30)]"

definition reminders_patterns :: "string list" where
  "reminders_patterns =
     [''Remind me to {m} in {t} minutes'', ''Set reminder {t} min: {m}'',
      ''reminder in {t} mins {m}'', ''remind me in {t} minutes to {m}'']"

definition files_writes :: "(string \<times> string) list" where
  \<open>files_writes =
     [(''main.py'', ''print('hello')''),
      (''notes.txt'', ''Meeting notes''),
      (''config.json'', ''{"debug": true}''),
      (''greeting.txt'', ''hello world''),
      (''script.py'', ''import os''),
      (''data.csv'', ''name,age''),
      (''README.md'', ''# Project''),
      (''.env'', ''DEBUG=true'')]\<close>

definition files_files :: "string list" where
  "files_files =
     [''main.py'', ''notes.txt'', ''config.json'', ''readme.md'', ''log.txt'', ''data.csv'',
      ''script.py'', ''settings.json'', ''.env'', ''package.json'']"

definition images_prompts :: "(string \<times> string) list" where
  "images_prompts =
     [(''sunset over mountains'', ''Beautiful sunset over mountain peaks''),
      (''cute cat'', ''Adorable fluffy cat with big eyes''),
      (''futuristic city'', ''Cyberpunk city at night with neon lights''),
      (''robot'', ''Friendly humanoid robot''),
      (''space scene'', ''Deep space with colorful nebulas''),
      (''abstract art'', ''Abstract modern art''),
      (''forest'', ''Mystical forest with sunlight''),
      (''dragon'', ''Majestic dragon breathing fire''),
      (''beach'', ''Tropical beach with palm trees''),
      (''castle'', ''Medieval castle at sunset''),
      (''winter scene'', ''Snowy mountain cabin''),
      (''aurora borealis'', ''Northern lights over frozen lake''),
      (''steampunk'', ''Steampunk airship''),
      (''garden'', ''Japanese zen garden''),
      (''coffee shop'', ''Cozy coffee shop interior''),
      (''spaceship'', ''Futuristic spaceship''),
      (''waterfall'', ''Majestic waterfall in jungle''),
      (''underwater'', ''Colorful coral reef''),
      (''city skyline'', ''City skyline at night''),
      (''landscape'', ''Rolling hills at golden hour'')]"

definition images_patterns :: "string list" where
  "images_patterns =
     [''Generate image of {s}'', ''Create picture of {s}'', ''Make {s}'', ''Draw {s}'',
      ''generate {s}'', ''picture of {s}'', ''image of {s}'']"

definition youtube_searches :: "string list" where
  "youtube_searches =
     [''Python tutorials'', ''machine learning'', ''cooking recipes'', ''guitar lessons'',
      ''workout routines'', ''React tutorial'', ''funny cats'', ''space documentary'',
      ''music videos'', ''ted talks'', ''how to tie a tie'', ''gaming highlights'',
      ''photography tips'', ''meditation'', ''tech unboxing'', ''learn Spanish'',
      ''science experiments'', ''travel vlogs'', ''DIY projects'', ''coding tutorials'']"

definition youtube_patterns :: "string list" where
  "youtube_patterns =
     [''Search YouTube for {s}'', ''Find {s} videos'', ''youtube {s}'',
      ''look up {s} on youtube'', ''youtube search {s}'']"

definition system_containers :: "string list" where
  "system_containers =
     [''luna-api'', ''redis'', ''postgres'', ''nginx'', ''memorycore'', ''frontend'']"

definition browser_sites :: "(string \<times> string) list" where
  "browser_sites =
     [(''google.com'', ''https://google.com''),
      (''github.com'', ''https://github.com''),
      (''reddit'', ''https://reddit.com''),
      (''example.com'', ''https://example.com''),
      (''anthropic.com'', ''https://anthropic.com''),
      (''stackoverflow'', ''https://stackoverflow.com''),
      (''twitter'', ''https://twitter.com''),
      (''youtube'', ''https://youtube.com''),
      (''wikipedia'', ''https://wikipedia.org''),
      (''amazon'', ''https://amazon.com'')]"

definition browser_patterns :: "string list" where
  "browser_patterns =
     [''Go to {s}'', ''Open {s}'', ''Navigate to {s}'', ''browse {s}'', ''visit {s}'']"

definition browser_clicks :: "(string \<times> string) list" where
  "browser_clicks =
     [(''submit button'', ''button[type='submit']''),
      (''login link'', ''a.login''),
      (''Sign In'', ''button:contains('Sign In')'')]"

definition browser_fills :: "(string \<times> string \<times> string) list" where
  "browser_fills =
     [(''search box'', ''input[type='search']'', ''hello''),
      (''email field'', ''input[name='email']'', ''user@example.com'')]"

definition documents_searches :: "string list" where
  "documents_searches =
     [''project specs'', ''contract'', ''API docs'', ''meeting notes'', ''invoice'',
      ''budget'', ''report'', ''presentation'', ''proposal'', ''design'', ''requirements'']"

definition mood_texts :: "string list" where
  "mood_texts =
     [''I'm feeling stressed about work'', ''This is the best day ever!'',
      ''I'm so frustrated'', ''feeling great today'', ''worried about tomorrow'',
      ''excited about the project'', ''tired but happy'']"

definition background_bgs :: "(string \<times> string \<times> string) list" where
  "background_bgs =
     [(''mountains'', ''Mountain landscape'', ''nature''),
      (''abstract'', ''Abstract flowing shapes'', ''abstract''),
      (''space'', ''Deep space nebulas'', ''artistic''),
      (''forest'', ''Mystical forest'', ''nature''),
      (''minimalist'', ''Clean minimalist design'', ''abstract''),
      (''ocean'', ''Calm ocean waves'', ''nature''),
      (''city skyline'', ''City at night'', ''artistic''),
      (''geometric'', ''Geometric patterns'', ''abstract''),
      (''sunset'', ''Beautiful sunset'', ''nature''),
      (''aurora'', ''Northern lights'', ''nature'')]"

definition projects_projects :: "(string \<times> string \<times> string) list" where
  "projects_projects =
     [(''Website Redesign'', ''web'', ''Redesign company website''),
      (''API Migration'', ''development'', ''Migrate to new API''),
      (''Mobile App'', ''mobile'', ''Develop mobile app''),
      (''Data Pipeline'', ''data'', ''Build ETL pipeline''),
      (''Security Audit'', ''security'', ''Security review''),
      (''Performance Optimization'', ''optimization'', ''Improve performance''),
      (''Documentation'', ''docs'', ''Update documentation''),
      (''Testing Framework'', ''testing'', ''Implement tests'')]"

definition negative_no_tool :: "(string \<times> string) list" where
  "negative_no_tool =
     [(''What is the capital of France?'', ''Paris is the capital of France.''),
      (''How many planets in solar system?'', ''There are 8 planets in our solar system.''),
      (''Who wrote Romeo and Juliet?'', ''William Shakespeare wrote Romeo and Juliet.''),
      (''What is 2 + 2?'', ''2 + 2 equals 4.''),
      (''Tell me a joke'', ''Why don't scientists trust atoms? They make up everything!''),
      (''Hello!'', ''Hello! How can I help you?''),
      (''Thanks'', ''You're welcome!''),
      (''Good morning'', ''Good morning! How are you?''),
      (''What does Python mean?'', ''Python is a programming language named after Monty Python.''),
      (''Explain machine learning'', ''Machine learning is AI that learns from data.''),
      (''How do I cook pasta?'', ''Boil water, add pasta, cook 8-12 minutes, drain.''),
      (''What is love?'', ''Love is deep affection and care for someone.''),
      (''Bye'', ''Goodbye! Have a great day!''),
      (''What's your name?'', ''I'm Luna, your AI assistant.''),
      (''How are you?'', ''I'm doing well, thank you!''),
      (''What can you do?'', ''I can help with tasks, research, music, and more.''),
      (''Hi there'', ''Hi! What can I help you with?''),
      (''Thank you'', ''You're welcome!''),
      (''That's interesting'', ''Glad you find it interesting!''),
      (''I see'', ''Let me know if you have questions.''),
      (''Okay'', ''What would you like to do next?''),
      (''Sure'', ''Great, how can I assist you?''),
      (''Never mind'', ''No problem! Let me know if you need anything.''),
      (''Just checking'', ''I'm here if you need me.''),
      (''What's 15% of 80?'', ''15% of 80 is 12.''),
      (''Spell necessary'', ''necessary: N-E-C-E-S-S-A-R-Y''),
      (''Square root of 144?'', ''The square root of 144 is 12.''),
      (''Define ephemeral'', ''Ephemeral means lasting a very short time.''),
      (''What year is it?'', ''It's 2024.''),
      (''How old is the Earth?'', ''Earth is about 4.5 billion years old.'')]"

definition multi_tool_multi :: "(string \<times> (string \<times> arg_dict) list \<times> string list \<times> string) list" where
  "multi_tool_multi =
     [(''Play music and show tasks'', [(''play_music'', [(''query'', JStr ''music''), (''type'', JStr ''playlist'')]), (''get_tasks'', [])], [''play_music'', ''get_tasks''], ''Music and tasks.''),
      (''Check email and calendar'', [(''get_emails'', []), (''get_calendar_events'', [])], [''get_emails'', ''get_calendar_events''], ''Email and calendar.''),
      (''System status CPU memory disk'', [(''system_cpu_usage'', []), (''system_memory'', []), (''system_disk'', [])], [''system_cpu_usage'', ''system_memory'', ''system_disk''], ''Full system status.''),
      (''Tasks and calendar today'', [(''get_tasks'', []), (''get_calendar_events'', [(''days_ahead'', JInt 1)])], [''get_tasks'', ''get_calendar_events''], ''Tasks and calendar.''),
      (''Search knowledge and documents for API'', [(''search_knowledge'', [(''query'', JStr ''API'')]), (''search_documents'', [(''query'', JStr ''API'')])], [''search_knowledge'', ''search_documents''], ''Search both.''),
      (''Show files and reminders'', [(''list_files'', []), (''list_reminders'', [])], [''list_files'', ''list_reminders''], ''Files and reminders.''),
      (''Docker logs and stats for luna-api'', [(''docker_logs'', [(''container_id'', JStr ''luna-api'')]), (''docker_stats'', [(''container_id'', JStr ''luna-api'')])], [''docker_logs'', ''docker_stats''], ''Docker logs and stats.''),
      (''Show backgrounds and projects'', [(''get_backgrounds'', []), (''get_projects'', [])], [''get_backgrounds'', ''get_projects''], ''Backgrounds and projects.'')]"

section \<open>The generators\<close>

text \<open>
  The statements that recur in the generators: the example for a message is appended,
  and after it one example, with the same call, for each of the first \<open>k\<close> elements
  of \<open>vary_message(user_msg)\<close>.
\<close>

definition with_variations :: "nat \<Rightarrow> (string \<Rightarrow> example) \<Rightarrow> string \<Rightarrow> rng \<Rightarrow> py_error + (example list \<times> rng)" where
  "with_variations k mk user_msg rs =
     ebind (vary_message rs user_msg) (\<lambda>(vars, rs'). Inr (mk user_msg # map mk (take k vars), rs'))"

subsection \<open>gen\_research\<close>

text \<open>The body of the loop over the sampled patterns. Only here the variations that
  equal the message are skipped.\<close>

definition research_body :: "tool_spec list \<Rightarrow> string \<Rightarrow> string \<Rightarrow> rng \<Rightarrow> py_error + (example list \<times> rng)" where
  "research_body tls topic pattern rs =
     ebind (py_format pattern [(''t'', topic)]) (\<lambda>user_msg.
       let query = topic @ '' latest developments'' in
       ebind (random_choice rs [''quick'', ''thorough'']) (\<lambda>(depth, rs1).
         let args = (if depth = ''thorough''
                     then AList.update ''depth'' (JStr depth) [(''query'', JStr query)]
                     else [(''query'', JStr query)]);
             thinking = ''User wants research on '' @ topic @ ''. Using research tool.'' in
         ebind (vary_message rs1 user_msg) (\<lambda>(vars, rs2).
           Inr (make_example user_msg ''research'' args tls thinking #
                map (\<lambda>var. make_example var ''research'' args tls thinking)
                  (filter (\<lambda>var. var \<noteq> user_msg) (take 2 vars)),
                rs2))))"

definition gen_research :: "rng \<Rightarrow> py_error + (example list \<times> rng)" where
  "gen_research rs =
     ebind (tools_list [''research'', ''search_knowledge'']) (\<lambda>tls.
       for_each (\<lambda>topic rs1.
           ebind (random_sample rs1 research_patterns 4) (\<lambda>(patterns, rs2).
             for_each (research_body tls topic) patterns rs2))
         research_topics rs)"

subsection \<open>gen\_knowledge\<close>

definition knowledge_search_body :: "tool_spec list \<Rightarrow> string \<Rightarrow> string \<Rightarrow> rng \<Rightarrow> py_error + (example list \<times> rng)" where
  "knowledge_search_body tls term pattern rs =
     ebind (py_format pattern [(''t'', term)]) (\<lambda>user_msg.
       let thinking = ''User wants to search knowledge for: '' @ term in
       with_variations 2
         (\<lambda>m. make_example m ''search_knowledge'' [(''query'', JStr term)] tls thinking)
         user_msg rs)"

definition knowledge_create_body :: "tool_spec list \<Rightarrow> string \<times> string \<times> string \<times> string \<Rightarrow> string \<Rightarrow> rng \<Rightarrow> py_error + (example list \<times> rng)" where
  "knowledge_create_body tls create cont rs =
     (case create of (pattern, title, _, cat) \<Rightarrow>
        ebind (py_format pattern [(''c'', cont)]) (\<lambda>user_msg.
          let thinking = ''User wants to save knowledge.'' in
          Inr ([make_example user_msg ''create_knowledge''
                  [(''title'', JStr title), (''content'', JStr cont), (''category'', JStr cat)]
                  tls thinking], rs)))"

definition gen_knowledge :: "rng \<Rightarrow> py_error + (example list \<times> rng)" where
  "gen_knowledge rs =
     ebind (tools_list [''search_knowledge'', ''create_knowledge'', ''get_user_facts'']) (\<lambda>tls.
       ebind (for_each (\<lambda>term rs1.
                  ebind (random_sample rs1 knowledge_patterns 3) (\<lambda>(patterns, rs2).
                    for_each (knowledge_search_body tls term) patterns rs2))
                knowledge_search_terms rs) (\<lambda>(searches, rs3).
         ebind (for_each (\<lambda>create rs4.
                    for_each (knowledge_create_body tls create) (take 5 knowledge_contents) rs4)
                  knowledge_creates rs3) (\<lambda>(created, rs5).
           Inr (searches @ created @
                map (\<lambda>q. make_example q ''get_user_facts'' [] tls ''User wants their facts.'')
                  knowledge_fact_queries,
                rs5))))"

subsection \<open>gen\_tasks\<close>

definition tasks_create_body :: "tool_spec list \<Rightarrow> string \<times> string \<times> string option \<times> string option \<Rightarrow> string \<Rightarrow> rng \<Rightarrow> py_error + (example list \<times> rng)" where
  "tasks_create_body tls task pattern rs =
     (case task of (task_desc, title, desc, priority) \<Rightarrow>
        ebind (py_format pattern [(''t'', task_desc)]) (\<lambda>user_msg.
          let args0 = [(''title'', JStr title)];
              args1 = (if truthy desc then AList.update ''description'' (JStr (the desc)) args0 else args0);
              args = (if truthy priority then AList.update ''priority'' (JStr (the priority)) args1 else args1);
              thinking = ''User wants to create task: '' @ title in
          with_variations 2 (\<lambda>m. make_example m ''create_task'' args tls thinking) user_msg rs))"

definition tasks_get_body :: "tool_spec list \<Rightarrow> string \<times> arg_dict \<Rightarrow> rng \<Rightarrow> py_error + (example list \<times> rng)" where
  "tasks_get_body tls p rs =
     (case p of (user_msg, args) \<Rightarrow>
        with_variations 3 (\<lambda>m. make_example m ''get_tasks'' args tls ''User wants their tasks.'')
          user_msg rs)"

definition gen_tasks :: "rng \<Rightarrow> py_error + (example list \<times> rng)" where
  "gen_tasks rs =
     ebind (tools_list [''create_task'', ''get_tasks'', ''complete_task'', ''delete_task'']) (\<lambda>tls.
       ebind (for_each (\<lambda>task rs1.
                  ebind (random_sample rs1 tasks_create_patterns 4) (\<lambda>(patterns, rs2).
                    for_each (tasks_create_body tls task) patterns rs2))
                tasks_tasks rs) (\<lambda>(created, rs3).
         ebind (for_each (tasks_get_body tls) tasks_get_patterns rs3) (\<lambda>(got, rs4).
           Inr (created @ got, rs4))))"

subsection \<open>gen\_calendar\<close>

definition calendar_get_body :: "tool_spec list \<Rightarrow> string \<times> arg_dict \<Rightarrow> rng \<Rightarrow> py_error + (example list \<times> rng)" where
  "calendar_get_body tls p rs =
     (case p of (user_msg, args) \<Rightarrow>
        with_variations 3 (\<lambda>m. make_example m ''get_calendar_events'' args tls ''User wants calendar.'')
          user_msg rs)"

definition calendar_event_examples :: "tool_spec list \<Rightarrow> string \<Rightarrow> example list" where
  "calendar_event_examples tls event =
     (let patterns = [''Schedule '' @ event @ '' tomorrow at 2pm'',
                      ''Add '' @ event @ '' on Friday at 10am'',
                      ''Book '' @ event @ '' next Monday noon'',
                      ''create event '' @ event @ '' at 3pm''] in
      map (\<lambda>user_msg.
             let args = [(''title'', JStr (str_title event)),
                         (''start_at'', JStr ''2024-01-16T14:00:00''),
                         (''end_at'', JStr ''2024-01-16T15:00:00'')];
                 thinking = ''User wants to create event: '' @ event in
             make_example user_msg ''create_calendar_event'' args tls thinking)
        patterns)"

definition gen_calendar :: "rng \<Rightarrow> py_error + (example list \<times> rng)" where
  "gen_calendar rs =
     ebind (tools_list [''get_calendar_events'', ''create_calendar_event'']) (\<lambda>tls.
       ebind (for_each (calendar_get_body tls) calendar_get_patterns rs) (\<lambda>(got, rs1).
         Inr (got @ concat (map (calendar_event_examples tls) calendar_events), rs1)))"

subsection \<open>gen\_email\<close>

definition email_get_body :: "tool_spec list \<Rightarrow> string \<times> arg_dict \<Rightarrow> rng \<Rightarrow> py_error + (example list \<times> rng)" where
  "email_get_body tls p rs =
     (case p of (user_msg, args) \<Rightarrow>
        with_variations 3 (\<lambda>m. make_example m ''get_emails'' args tls ''User wants emails.'')
          user_msg rs)"

definition email_search_examples :: "tool_spec list \<Rightarrow> string \<Rightarrow> example list" where
  "email_search_examples tls term =
     (let patterns = [''Find emails from '' @ term, ''Search for '' @ term @ '' emails'',
                      ''emails about '' @ term, ''search email '' @ term] in
      map (\<lambda>pattern. make_example pattern ''search_emails'' [(''query'', JStr term)] tls
                        (''Search emails: '' @ term))
        patterns)"

definition email_send_example :: "tool_spec list \<Rightarrow> string \<times> string \<times> string \<Rightarrow> example" where
  "email_send_example tls send =
     (case send of (to, subj, body) \<Rightarrow>
        let user_msg = ''Send email to '' @ to @ '' about '' @ str_lower subj in
        make_example user_msg ''send_email''
          [(''to'', JStr to), (''subject'', JStr subj), (''body'', JStr body)] tls
          (''Send email to '' @ to))"

definition gen_email :: "rng \<Rightarrow> py_error + (example list \<times> rng)" where
  "gen_email rs =
     ebind (tools_list [''get_emails'', ''search_emails'', ''send_email'']) (\<lambda>tls.
       ebind (for_each (email_get_body tls) email_get_patterns rs) (\<lambda>(got, rs1).
         Inr (got @ concat (map (email_search_examples tls) email_searches) @
              map (email_send_example tls) email_sends, rs1)))"

subsection \<open>gen\_music\<close>

text \<open>The float literal \<^verbatim>\<open>0.8\<close>, as the rational its double denotes.\<close>

definition float_0_8 :: rat where
  "float_0_8 = 3602879701896397 / 4503599627370496"

definition music_play_body :: "tool_spec list \<Rightarrow> string \<times> string \<Rightarrow> string \<Rightarrow> rng \<Rightarrow> py_error + (example list \<times> rng)" where
  "music_play_body tls it pattern rs =
     (case it of (item, typ) \<Rightarrow>
        ebind (py_format pattern [(''i'', item)]) (\<lambda>user_msg.
          let args0 = [(''query'', JStr item), (''type'', JStr typ)] in
          case random_random rs of (r, rs1) \<Rightarrow>
            let args = (if r > float_0_8 then AList.update ''shuffle'' (JBool True) args0 else args0);
                thinking = ''Play music: '' @ item in
            with_variations 2 (\<lambda>m. make_example m ''play_music'' args tls thinking) user_msg rs1))"

definition music_volume_example :: "tool_spec list \<Rightarrow> int \<times> string \<Rightarrow> example" where
  "music_volume_example tls v =
     (case v of (vol, pfx) \<Rightarrow>
        let msg = pfx @ '' the volume'' in
        make_example msg ''set_volume'' [(''volume_percent'', JInt vol)] tls
          (''Set volume to '' @ str_of_int vol @ ''.''))"

definition gen_music :: "rng \<Rightarrow> py_error + (example list \<times> rng)" where
  "gen_music rs =
     ebind (tools_list [''play_music'', ''pause_music'', ''skip_track'', ''previous_track'',
                        ''get_currently_playing'', ''search_music'', ''set_volume'']) (\<lambda>tls.
       ebind (for_each (\<lambda>it rs1.
                  ebind (random_sample rs1 music_patterns 3) (\<lambda>(patterns, rs2).
                    for_each (music_play_body tls it) patterns rs2))
                music_items rs) (\<lambda>(played, rs3).
         Inr (played @
              map (\<lambda>msg. make_example msg ''pause_music'' [] tls ''Pause music.'')
                [''Pause'', ''Stop'', ''pause music'', ''stop playing'', ''hold on'', ''pause the music''] @
              map (\<lambda>msg. make_example msg ''skip_track'' [] tls ''Skip track.'')
                [''Skip'', ''Next'', ''skip track'', ''next song'', ''skip this'', ''play next''] @
              map (\<lambda>msg. make_example msg ''previous_track'' [] tls ''Previous track.'')
                [''Previous'', ''Go back'', ''last song'', ''previous track'', ''replay last''] @
              map (\<lambda>msg. make_example msg ''get_currently_playing'' [] tls ''Get current track.'')
                [''What's playing?'', ''What song is this?'', ''current track'', ''now playing'',
                 ''what am i listening to''] @
              map (music_volume_example tls) music_volumes,
              rs3)))"

subsection \<open>gen\_code\<close>

definition code_python_examples_for :: "tool_spec list \<Rightarrow> string \<times> string \<Rightarrow> example list" where
  "code_python_examples_for tls p =
     (case p of (desc, code) \<Rightarrow>
        let patterns = [''Python: '' @ desc, ''Calculate '' @ desc @ '' in Python'',
                        ''run python '' @ desc, ''execute python: '' @ desc,
                        ''python code: '' @ desc] in
        map (\<lambda>pattern. make_example pattern ''execute_python'' [(''code'', JStr code)] tls
                          ''Execute Python.'')
          patterns)"

definition code_js_examples_for :: "tool_spec list \<Rightarrow> string \<times> string \<Rightarrow> example list" where
  "code_js_examples_for tls p =
     (case p of (desc, code) \<Rightarrow>
        let patterns = [''JavaScript: '' @ desc, ''Run JS: '' @ desc,
                        ''execute javascript '' @ desc] in
        map (\<lambda>pattern. make_example pattern ''execute_javascript'' [(''code'', JStr code)] tls
                          ''Execute JavaScript.'')
          patterns)"

definition gen_code :: "rng \<Rightarrow> py_error + (example list \<times> rng)" where
  "gen_code rs =
     ebind (tools_list [''execute_python'', ''execute_javascript'']) (\<lambda>tls.
       Inr (concat (map (code_python_examples_for tls) code_python_examples) @
            concat (map (code_js_examples_for tls) code_js_examples), rs))"

subsection \<open>gen\_reminders\<close>

definition reminders_body :: "tool_spec list \<Rightarrow> string \<times> int \<Rightarrow> string \<Rightarrow> rng \<Rightarrow> py_error + (example list \<times> rng)" where
  "reminders_body tls reminder pattern rs =
     (case reminder of (msg, mins) \<Rightarrow>
        ebind (py_format pattern [(''m'', msg), (''t'', str_of_int mins)]) (\<lambda>user_msg.
          let thinking = ''Create reminder in '' @ str_of_int mins @ '' minutes.'' in
          Inr ([make_example user_msg ''create_reminder''
                  [(''message'', JStr msg), (''delay_minutes'', JInt mins)] tls thinking], rs)))"

definition gen_reminders :: "rng \<Rightarrow> py_error + (example list \<times> rng)" where
  "gen_reminders rs =
     ebind (tools_list [''create_reminder'', ''list_reminders'']) (\<lambda>tls.
       ebind (for_each (\<lambda>reminder rs1. for_each (reminders_body tls reminder) reminders_patterns rs1)
                reminders_reminders rs) (\<lambda>(created, rs2).
         Inr (created @
              map (\<lambda>msg. make_example msg ''list_reminders'' [] tls ''List reminders.'')
                [''Show reminders'', ''My reminders'', ''list reminders'', ''pending reminders''],
              rs2)))"

subsection \<open>gen\_files\<close>

definition files_write_examples :: "tool_spec list \<Rightarrow> string \<times> string \<Rightarrow> example list" where
  "files_write_examples tls w =
     (case w of (filename, cont) \<Rightarrow>
        let patterns = [''Save to '' @ filename @ '': '' @ cont,
                        ''Create '' @ filename @ '' with '' @ cont,
                        ''write to '' @ filename,
                        ''save '' @ cont @ '' to '' @ filename] in
        map (\<lambda>pattern.
               let thinking = ''Write file: '' @ filename in
               make_example pattern ''write_file''
                 [(''filename'', JStr filename), (''content'', JStr cont)] tls thinking)
          patterns)"

definition files_read_examples :: "tool_spec list \<Rightarrow> string \<Rightarrow> example list" where
  "files_read_examples tls f =
     (let patterns = [''Read '' @ f, ''Show '' @ f, ''What's in '' @ f @ ''?'', ''open '' @ f,
                      ''cat '' @ f] in
      map (\<lambda>pattern. make_example pattern ''read_file'' [(''filename'', JStr f)] tls
                        (''Read file: '' @ f))
        patterns)"

definition gen_files :: "rng \<Rightarrow> py_error + (example list \<times> rng)" where
  "gen_files rs =
     ebind (tools_list [''write_file'', ''read_file'', ''list_files'', ''delete_file'']) (\<lambda>tls.
       Inr (concat (map (files_write_examples tls) files_writes) @
            concat (map (files_read_examples tls) files_files) @
            map (\<lambda>msg. make_example msg ''list_files'' [] tls ''List files.'')
              [''Show files'', ''List files'', ''my files'', ''workspace files'', ''ls''] @
            map (\<lambda>f. make_example (''Delete '' @ f) ''delete_file'' [(''filename'', JStr f)] tls
                       (''Delete: '' @ f))
              [''old.txt'', ''temp.log'', ''backup.sql''],
            rs))"

subsection \<open>gen\_images\<close>

definition images_body :: "tool_spec list \<Rightarrow> string \<times> string \<Rightarrow> string \<Rightarrow> rng \<Rightarrow> py_error + (example list \<times> rng)" where
  "images_body tls p pattern rs =
     (case p of (subject, prompt) \<Rightarrow>
        ebind (py_format pattern [(''s'', subject)]) (\<lambda>user_msg.
          Inr ([make_example user_msg ''generate_image'' [(''prompt'', JStr prompt)] tls
                  ''Generate image.''], rs)))"

definition gen_images :: "rng \<Rightarrow> py_error + (example list \<times> rng)" where
  "gen_images rs =
     ebind (tools_list [''generate_image'']) (\<lambda>tls.
       for_each (\<lambda>p rs1. for_each (images_body tls p) images_patterns rs1) images_prompts rs)"

subsection \<open>gen\_youtube\<close>

definition youtube_body :: "tool_spec list \<Rightarrow> string \<Rightarrow> string \<Rightarrow> rng \<Rightarrow> py_error + (example list \<times> rng)" where
  "youtube_body tls search pattern rs =
     ebind (py_format pattern [(''s'', search)]) (\<lambda>user_msg.
       Inr ([make_example user_msg ''search_youtube'' [(''query'', JStr search)] tls
               (''YouTube search: '' @ search)], rs))"

definition gen_youtube :: "rng \<Rightarrow> py_error + (example list \<times> rng)" where
  "gen_youtube rs =
     ebind (tools_list [''search_youtube'']) (\<lambda>tls.
       for_each (\<lambda>search rs1. for_each (youtube_body tls search) youtube_patterns rs1)
         youtube_searches rs)"

subsection \<open>gen\_system\<close>

definition system_log_examples :: "tool_spec list \<Rightarrow> string \<Rightarrow> example list" where
  "system_log_examples tls c =
     map (\<lambda>msg. make_example msg ''docker_logs'' [(''container_id'', JStr c)] tls (''Logs: '' @ c))
       [''Logs for '' @ c, ''docker logs '' @ c, c @ '' logs'']"

definition gen_system :: "rng \<Rightarrow> py_error + (example list \<times> rng)" where
  "gen_system rs =
     ebind (tools_list [''system_cpu_usage'', ''system_memory'', ''system_disk'', ''system_uptime'',
                        ''system_load'', ''docker_containers'', ''docker_logs'', ''docker_stats'']) (\<lambda>tls.
       Inr (map (\<lambda>msg. make_example msg ''system_cpu_usage'' [] tls ''Check CPU.'')
              [''CPU usage'', ''Check CPU'', ''cpu stats'', ''processor usage'', ''how much cpu''] @
            map (\<lambda>msg. make_example msg ''system_memory'' [] tls ''Check memory.'')
              [''Memory usage'', ''Check RAM'', ''memory stats'', ''how much memory'', ''ram usage''] @
            map (\<lambda>msg. make_example msg ''system_disk'' [] tls ''Check disk.'')
              [''Disk space'', ''Check storage'', ''disk usage'', ''how much disk'', ''storage left''] @
            map (\<lambda>msg. make_example msg ''system_uptime'' [] tls ''Check uptime.'')
              [''Uptime'', ''How long running'', ''system uptime'', ''server uptime''] @
            map (\<lambda>msg. make_example msg ''system_load'' [] tls ''Check load.'')
              [''System load'', ''Load average'', ''server load'', ''check load''] @
            map (\<lambda>msg. make_example msg ''docker_containers'' [(''only_running'', JBool True)] tls
                         ''Docker containers.'')
              [''Docker containers'', ''Running containers'', ''docker ps'', ''container status''] @
            concat (map (system_log_examples tls) system_containers) @
            map (\<lambda>c. make_example (''Stats for '' @ c) ''docker_stats'' [(''container_id'', JStr c)] tls
                       (''Stats: '' @ c))
              (take 3 system_containers),
            rs))"

subsection \<open>gen\_browser\<close>

definition browser_body :: "tool_spec list \<Rightarrow> string \<times> string \<Rightarrow> string \<Rightarrow> rng \<Rightarrow> py_error + (example list \<times> rng)" where
  "browser_body tls p pattern rs =
     (case p of (site, url) \<Rightarrow>
        ebind (py_format pattern [(''s'', site)]) (\<lambda>user_msg.
          Inr ([make_example user_msg ''navigate'' [(''url'', JStr url)] tls
                  (''Navigate to '' @ url)], rs)))"

definition gen_browser :: "rng \<Rightarrow> py_error + (example list \<times> rng)" where
  "gen_browser rs =
     ebind (tools_list [''navigate'', ''screenshot'', ''click'', ''fill'', ''get_page_content'']) (\<lambda>tls.
       ebind (for_each (\<lambda>p rs1. for_each (browser_body tls p) browser_patterns rs1)
                browser_sites rs) (\<lambda>(navigated, rs2).
         Inr (navigated @
              concat (map (\<lambda>msg.
                  [make_example msg ''screenshot'' [] tls ''Take screenshot.'',
                   make_example (msg @ '' full page'') ''screenshot'' [(''full_page'', JBool True)] tls
                     ''Full page screenshot.''])
                [''Screenshot'', ''Capture page'', ''take screenshot'', ''grab screenshot'']) @
              map (\<lambda>(desc, sel). make_example (''Click '' @ desc) ''click'' [(''selector'', JStr sel)] tls
                                    ''Click element.'')
                browser_clicks @
              map (\<lambda>(desc, sel, txt). make_example (''Type '' @ txt @ '' in '' @ desc) ''fill''
                                         [(''selector'', JStr sel), (''text'', JStr txt)] tls ''Fill form.'')
                browser_fills,
              rs2)))"

subsection \<open>gen\_documents\<close>

definition documents_search_examples :: "tool_spec list \<Rightarrow> string \<Rightarrow> example list" where
  "documents_search_examples tls term =
     (let patterns = [''Search docs for '' @ term, ''Find '' @ term @ '' in documents'',
                      ''search documents '' @ term, ''look for '' @ term] in
      map (\<lambda>pattern. make_example pattern ''search_documents'' [(''query'', JStr term)] tls
                        (''Search docs: '' @ term))
        patterns)"

definition gen_documents :: "rng \<Rightarrow> py_error + (example list \<times> rng)" where
  "gen_documents rs =
     ebind (tools_list [''search_documents'', ''get_documents'']) (\<lambda>tls.
       Inr (concat (map (documents_search_examples tls) documents_searches) @
            map (\<lambda>msg. make_example msg ''get_documents'' [] tls ''List documents.'')
              [''Show documents'', ''My documents'', ''list uploads'', ''uploaded files''],
            rs))"

subsection \<open>gen\_mood\<close>

definition mood_examples :: "tool_spec list \<Rightarrow> string \<Rightarrow> example list" where
  "mood_examples tls txt =
     (let patterns = [''Analyze: '' @ txt, ''How does this sound: '' @ txt,
                      ''Sentiment of: '' @ txt, ''mood of: '' @ txt] in
      map (\<lambda>pattern. make_example pattern ''analyze_mood'' [(''message'', JStr txt)] tls
                        ''Analyze mood.'')
        patterns)"

definition gen_mood :: "rng \<Rightarrow> py_error + (example list \<times> rng)" where
  "gen_mood rs =
     ebind (tools_list [''analyze_mood'', ''get_mood_history'']) (\<lambda>tls.
       Inr (concat (map (mood_examples tls) mood_texts) @
            map (\<lambda>msg. make_example msg ''get_mood_history'' [] tls ''Mood history.'')
              [''Mood history'', ''How have I been feeling?'', ''mood trends'', ''my moods''],
            rs))"

subsection \<open>gen\_background\<close>

definition background_examples :: "tool_spec list \<Rightarrow> string \<times> string \<times> string \<Rightarrow> example list" where
  "background_examples tls bg =
     (case bg of (desc, prompt, style) \<Rightarrow>
        let patterns = [''Generate background with '' @ desc, ''Create '' @ desc @ '' wallpaper'',
                        ''make '' @ desc @ '' background'', ''generate '' @ desc] in
        map (\<lambda>pattern. make_example pattern ''generate_background''
                          [(''prompt'', JStr prompt), (''style'', JStr style)] tls
                          ''Generate background.'')
          patterns)"

definition gen_background :: "rng \<Rightarrow> py_error + (example list \<times> rng)" where
  "gen_background rs =
     ebind (tools_list [''generate_background'', ''get_backgrounds'']) (\<lambda>tls.
       Inr (concat (map (background_examples tls) background_bgs) @
            map (\<lambda>msg. make_example msg ''get_backgrounds'' [] tls ''List backgrounds.'')
              [''Show backgrounds'', ''My wallpapers'', ''background list''],
            rs))"

subsection \<open>gen\_projects\<close>

definition projects_examples :: "tool_spec list \<Rightarrow> string \<times> string \<times> string \<Rightarrow> example list" where
  "projects_examples tls project =
     (case project of (nm, typ, desc) \<Rightarrow>
        let patterns = [''Create project '' @ nm, ''New project: '' @ nm,
                        ''Start project '' @ nm, ''create '' @ nm @ '' project''] in
        map (\<lambda>pattern. make_example pattern ''create_project''
                          [(''name'', JStr nm), (''type'', JStr typ), (''description'', JStr desc)] tls
                          (''Create project: '' @ nm))
          patterns)"

definition gen_projects :: "rng \<Rightarrow> py_error + (example list \<times> rng)" where
  "gen_projects rs =
     ebind (tools_list [''create_project'', ''get_projects'']) (\<lambda>tls.
       Inr (concat (map (projects_examples tls) projects_projects) @
            map (\<lambda>msg. make_example msg ''get_projects'' [] tls ''List projects.'')
              [''Show projects'', ''My projects'', ''list projects'', ''project list''],
            rs))"

subsection \<open>gen\_negative\<close>

definition negative_body :: "tool_spec list \<Rightarrow> string \<times> string \<Rightarrow> rng \<Rightarrow> py_error + (example list \<times> rng)" where
  "negative_body all_tools p rs =
     (case p of (user_msg, response) \<Rightarrow>
        ebind (random_sample rs all_tools (min 5 (length all_tools))) (\<lambda>(tls, rs1).
          with_variations 2 (\<lambda>m. make_no_tool m response tls) user_msg rs1))"

definition gen_negative :: "rng \<Rightarrow> py_error + (example list \<times> rng)" where
  "gen_negative rs =
     (let all_tools = map snd TOOLS in
      for_each (negative_body all_tools) negative_no_tool rs)"

subsection \<open>gen\_multi\_tool\<close>

text \<open>
  The list \<open>multi\<close> is built before the loop starts: each of its entries looks its tool
  specifications up in the catalog. \<open>multi_tool_multi\<close> holds the keys.
\<close>

fun multi_tool_resolve :: "(string \<times> (string \<times> arg_dict) list \<times> string list \<times> string) list \<Rightarrow>
    py_error + (string \<times> (string \<times> arg_dict) list \<times> tool_spec list \<times> string) list" where
  "multi_tool_resolve [] = Inr []"
| "multi_tool_resolve ((user_msg, calls, keys, thinking) # entries) =
     ebind (tools_list keys) (\<lambda>tls.
       ebind (multi_tool_resolve entries) (\<lambda>rest. Inr ((user_msg, calls, tls, thinking) # rest)))"

definition multi_tool_body :: "string \<times> (string \<times> arg_dict) list \<times> tool_spec list \<times> string \<Rightarrow> rng \<Rightarrow> py_error + (example list \<times> rng)" where
  "multi_tool_body entry rs =
     (case entry of (user_msg, calls, tls, thinking) \<Rightarrow>
        with_variations 2 (\<lambda>m. make_multi_tool m calls tls thinking) user_msg rs)"

definition gen_multi_tool :: "rng \<Rightarrow> py_error + (example list \<times> rng)" where
  "gen_multi_tool rs =
     ebind (multi_tool_resolve multi_tool_multi) (\<lambda>multi. for_each multi_tool_body multi rs)"

section \<open>main\<close>

definition generators :: "(string \<times> (rng \<Rightarrow> py_error + (example list \<times> rng))) list" where
  "generators =
     [(''Research'', gen_research), (''Knowledge'', gen_knowledge), (''Tasks'', gen_tasks),
      (''Calendar'', gen_calendar), (''Email'', gen_email), (''Music'', gen_music),
      (''Code'', gen_code), (''Reminders'', gen_reminders), (''Files'', gen_files),
      (''Images'', gen_images), (''YouTube'', gen_youtube), (''System'', gen_system),
      (''Browser'', gen_browser), (''Documents'', gen_documents), (''Mood'', gen_mood),
      (''Background'', gen_background), (''Projects'', gen_projects),
      (''Negative'', gen_negative), (''Multi-tool'', gen_multi_tool)]"

text \<open>
  The loop over the generators: each is run on the random source the previous one left,
  and what it returns is recorded under its name.
\<close>

definition run_generators :: "rng \<Rightarrow> py_error + ((string \<times> example list) list \<times> rng)" where
  "run_generators rs =
     for_each (\<lambda>(nm, gen) rs1. ebind (gen rs1) (\<lambda>(exs, rs2). Inr ([(nm, exs)], rs2))) generators rs"

text \<open>\<open>all_examples\<close> before the shuffle: every generator's examples, then \<open>add_typos\<close>
  with the rate \<^verbatim>\<open>0.15\<close>.\<close>

definition corpus :: "rng \<Rightarrow> py_error + (example list \<times> rng)" where
  "corpus rs =
     ebind (run_generators rs) (\<lambda>(chunks, rs1). add_typos rs1 (concat (map snd chunks)) float_0_15)"

text \<open>
  What \<open>main\<close> prints, as events: the float formatting of the statistics is not
  modelled, a percentage is kept as the rational it is computed from.
\<close>

datatype 'e printed =
    Banner
  | GeneratorCount string nat
  | BaseCount nat
  | AfterTypos nat
  | Written nat string
  | ErrorLine nat 'e
  | AllValid
  | Total nat
  | NoTool nat rat
  | MultiTool nat
  | ToolDistribution "(string \<times> nat) list"

text \<open>
  Reading a text file line by line (universal newlines): a line ends behind
  \<open>\<newline>\<close>, a carriage return, or the two together, each read as \<open>\<newline>\<close>; a last
  line without an end is a line as well. The second argument is the line being read.
\<close>

fun lines_from :: "string \<Rightarrow> string \<Rightarrow> string list" where
  "lines_from [] cur = (if cur = [] then [] else [cur])"
| "lines_from (c # cs) cur =
     (if c = CHR 0x0A then (cur @ [CHR 0x0A]) # lines_from cs []
      else if c = CHR 0x0D then
        (case cs of
           [] \<Rightarrow> [cur @ [CHR 0x0A]]
         | c' # cs' \<Rightarrow>
             if c' = CHR 0x0A then (cur @ [CHR 0x0A]) # lines_from cs' []
             else (cur @ [CHR 0x0A]) # lines_from cs [])
      else lines_from cs (cur @ [c]))"

definition file_lines :: "string \<Rightarrow> string list" where
  "file_lines text = lines_from text []"

text \<open>
  The validation loop, \<^verbatim>\<open>for i, line in enumerate(f, 1)\<close>: \<open>json.loads\<close> is a
  parameter, \<open>Inl e\<close> its JSONDecodeError. The result is the number of the first line
  that does not parse, with the error, or \<open>None\<close> when every line parses.
\<close>

fun validate_from :: "(string \<Rightarrow> 'e + 'v) \<Rightarrow> nat \<Rightarrow> string list \<Rightarrow> (nat \<times> 'e) option" where
  "validate_from loads i [] = None"
| "validate_from loads i (line # rest) =
     (case loads line of Inl e \<Rightarrow> Some (i, e) | Inr v \<Rightarrow> validate_from loads (Suc i) rest)"

text \<open>The statistics loop over \<open>all_examples\<close>; \<open>tool_counts\<close> is a dict in insertion order.\<close>

record stats =
  tool_counts :: "(string \<times> nat) list"
  no_tool :: nat
  multi_tool :: nat

fun count_calls :: "tool_call list \<Rightarrow> (string \<times> nat) list \<Rightarrow> (string \<times> nat) list" where
  "count_calls [] counts = counts"
| "count_calls (c # cs) counts =
     (let nm = fn_name (func c) in
      count_calls cs
        (AList.update nm ((case map_of counts nm of None \<Rightarrow> 0 | Some k \<Rightarrow> k) + 1) counts))"

fun stats_loop :: "example list \<Rightarrow> stats \<Rightarrow> py_error + stats" where
  "stats_loop [] st = Inr st"
| "stats_loop (ex # exs) st =
     ebind (list_at (messages ex) 2) (\<lambda>msg.
       case tool_calls msg of
         None \<Rightarrow> stats_loop exs (st\<lparr>no_tool := no_tool st + 1\<rparr>)
       | Some calls \<Rightarrow>
           stats_loop exs
             (st\<lparr>multi_tool := (if length calls > 1 then multi_tool st + 1 else multi_tool st),
                 tool_counts := count_calls calls (tool_counts st)\<rparr>))"

text \<open>
  The part of \<open>main\<close> that follows the shuffle, on the shuffled \<open>all_examples\<close>: the
  file is written (the store maps a path to the text of the file), the text just written
  is read again line by line and validated, and only then the statistics are computed
  and printed. \<open>json.dumps\<close> and
  \<open>json.loads\<close> are parameters. The result is what was printed, and the store.
\<close>

definition output_path :: string where
  "output_path = ''/opt/luna-chat/data/luna_functiongemma_training.jsonl''"

definition write_validate_stats ::
  "(example \<Rightarrow> string) \<Rightarrow> (string \<Rightarrow> 'e + 'v) \<Rightarrow> example list \<Rightarrow> (string \<rightharpoonup> string) \<Rightarrow>
     py_error + ('e printed list \<times> (string \<rightharpoonup> string))" where
  "write_validate_stats dumps loads all_examples store =
     (let text = concat (map (\<lambda>ex. dumps ex @ [CHR 0x0A]) all_examples);
          store1 = store(output_path \<mapsto> text);
          out1 = [Written (length all_examples) output_path] in
      case validate_from loads 1 (file_lines text) of
        Some (i, e) \<Rightarrow> Inr (out1 @ [ErrorLine i e], store1)
      | None \<Rightarrow>
          ebind (stats_loop all_examples \<lparr>tool_counts = [], no_tool = 0, multi_tool = 0\<rparr>)
            (\<lambda>st.
               if length all_examples = 0 then Inl ZeroDivisionError
               else Inr (out1 @
                      [AllValid,
                       Total (length all_examples),
                       NoTool (no_tool st)
                         (of_nat (100 * no_tool st) / of_nat (length all_examples)),
                       MultiTool (multi_tool st),
                       ToolDistribution
                         (take 20 (sort_key (\<lambda>x. - int (snd x)) (tool_counts st)))],
                     store1)))"

text \<open>
  \<open>main\<close>. The shuffle that follows \<^verbatim>\<open>random.seed(42)\<close> does not depend on the
  random source before it: it is a parameter, a function on lists.
\<close>

definition main ::
  "(example list \<Rightarrow> example list) \<Rightarrow> (example \<Rightarrow> string) \<Rightarrow> (string \<Rightarrow> 'e + 'v) \<Rightarrow> rng \<Rightarrow>
     (string \<rightharpoonup> string) \<Rightarrow> py_error + ('e printed list \<times> (string \<rightharpoonup> string))" where
  "main shuffle dumps loads rs store =
     ebind (run_generators rs) (\<lambda>(chunks, rs1).
       let base = concat (map snd chunks) in
       ebind (add_typos rs1 base float_0_15) (\<lambda>(all_examples, rs2).
         ebind (write_validate_stats dumps loads (shuffle all_examples) store) (\<lambda>(out, store1).
           Inr ([Banner] @ map (\<lambda>(nm, exs). GeneratorCount nm (length exs)) chunks @
                [BaseCount (length base), AfterTypos (length all_examples)] @ out,
                store1))))"

section \<open>The properties of an example\<close>

text \<open>
  A call is matched by a tool list when its tool name is the name of a specification in
  the list and every specification of that name has all its required parameters among
  the keys of the call's arguments.
\<close>

definition call_ok :: "tool_spec list \<Rightarrow> string \<Rightarrow> arg_dict \<Rightarrow> bool" where
  "call_ok tls n a =
     (n \<in> name ` set tls \<and>
      (\<forall>t\<in>set tls. name t = n \<longrightarrow> set (required (parameters t)) \<subseteq> fst ` set a))"

definition calls_match_tools :: "example \<Rightarrow> bool" where
  "calls_match_tools ex =
     (\<forall>m\<in>set (messages ex).
        case tool_calls m of
          None \<Rightarrow> True
        | Some calls \<Rightarrow> \<forall>c\<in>set calls. call_ok (tools ex) (fn_name (func c)) (arguments (func c)))"

text \<open>The reasoning-trace marker: the text starts with the opening and ends with the
  closing tag.\<close>

definition think_wrapped :: "string \<Rightarrow> bool" where
  "think_wrapped s =
     (15 \<le> length s \<and> take 7 s = ''<think>'' \<and> drop (length s - 8) s = ''</think>'')"

text \<open>
  The two forms of example the generators build: one with a non-empty list of calls,
  each matched by the example's tool list (\<open>make_example\<close> is \<open>make_multi_tool\<close> with
  one call), and one with a plain answer taken from the table of \<open>gen_negative\<close>.
\<close>

definition tool_form :: "example \<Rightarrow> bool" where
  "tool_form ex =
     (\<exists>u calls tls th. ex = make_multi_tool u calls tls th \<and> calls \<noteq> [] \<and>
        (\<forall>(n, a)\<in>set calls. call_ok tls n a))"

definition plain_form :: "example \<Rightarrow> bool" where
  "plain_form ex = (\<exists>u r tls. ex = make_no_tool u r tls \<and> r \<in> snd ` set negative_no_tool)"

text \<open>
  The catalog reduced to what decides whether a call is matched: for each key, the name
  and the required parameters of its specification.
\<close>

definition catalog_signature :: "(string \<times> string \<times> string list) list" where
  "catalog_signature = map (\<lambda>(k, t). (k, name t, required (parameters t))) TOOLS"

text \<open>
  A generator is well-behaved when, on every random source, it returns and every example
  it returns has one of the two forms.
\<close>

definition well_formed_generator :: "(rng \<Rightarrow> py_error + (example list \<times> rng)) \<Rightarrow> bool" where
  "well_formed_generator gen =
     (\<forall>rs. \<exists>exs rs'. gen rs = Inr (exs, rs') \<and> (\<forall>e\<in>set exs. tool_form e \<or> plain_form e))"

section \<open>Basic facts\<close>

lemma ebind_Inl [simp]: "ebind (Inl e) f = Inl e"
  by (simp add: ebind_def)

lemma ebind_Inr [simp]: "ebind (Inr x) f = f x"
  by (simp add: ebind_def)

lemma ebind_eq_Inr: "ebind m f = Inr y \<longleftrightarrow> (\<exists>x. m = Inr x \<and> f x = Inr y)"
  by (cases m) simp_all

lemma ebind_eq_Inl: "ebind m f = Inl e \<longleftrightarrow> m = Inl e \<or> (\<exists>x. m = Inr x \<and> f x = Inl e)"
  by (cases m) simp_all

lemma list_at_Inr: "list_at xs i = Inr y \<longleftrightarrow> i < length xs \<and> y = xs ! i"
  by (auto simp: list_at_def)

lemma list_at_Inl: "list_at xs i = Inl e \<longleftrightarrow> \<not> i < length xs \<and> e = IndexError"
  by (auto simp: list_at_def)

section \<open>add\_typos: what it keeps and what it adds\<close>

lemma typo_map_nonempty: "map_of typo_map k = Some typos \<Longrightarrow> typos \<noteq> []"
  by (auto simp: typo_map_def split: if_splits)

text \<open>The word loop never raises: every list of substitutions in \<open>typo_map\<close> is non-empty.\<close>

lemma typo_words_total: "\<exists>ws rs'. typo_words rs words = Inr (ws, rs')"
proof (induction words arbitrary: rs)
  case Nil
  show ?case by simp
next
  case (Cons w words)
  show ?case
  proof (cases "map_of typo_map (str_lower w)")
    case None
    from Cons[of rs] obtain ws rs' where "typo_words rs words = Inr (ws, rs')" by blast
    with None show ?thesis by simp
  next
    case (Some typos)
    then have ne: "typos \<noteq> []" by (rule typo_map_nonempty)
    obtain r rs1 where r: "random_random rs = (r, rs1)" by (cases "random_random rs")
    obtain d rs2 where d: "draw rs1 = (d, rs2)" by (cases "draw rs1")
    from Cons[of rs1] obtain ws1 rs1' where w1: "typo_words rs1 words = Inr (ws1, rs1')" by blast
    from Cons[of rs2] obtain ws2 rs2' where w2: "typo_words rs2 words = Inr (ws2, rs2')" by blast
    from Some ne r d w1 w2 show ?thesis
      by (simp add: random_choice_def)
  qed
qed

lemma typo_body_Inr:
  assumes "typo_body rs ex rate = Inr (new, rs')"
  shows "new = [ex] \<or>
    (\<exists>rs1 rs2 new_words.
       3 \<le> length (messages ex) \<and>
       typo_words rs1 (str_split (content (messages ex ! 1))) = Inr (new_words, rs2) \<and>
       str_join '' '' new_words \<noteq> content (messages ex ! 1) \<and>
       new = [ex, \<lparr>messages = [messages ex ! 0,
                      \<lparr>role = ''user'', content = str_join '' '' new_words, tool_calls = None\<rparr>,
                      messages ex ! 2],
                 tools = tools ex\<rparr>])"
  using assms unfolding typo_body_def
  by (auto simp: ebind_eq_Inr list_at_Inr Let_def split: prod.splits if_splits)

lemma typo_body_Inl:
  assumes "typo_body rs ex rate = Inl e"
  shows "length (messages ex) < 3"
proof -
  obtain r rs1 where r: "random_random rs = (r, rs1)" by (cases "random_random rs")
  obtain ws rs2 where w: "typo_words rs1 (str_split (content (messages ex ! 1))) = Inr (ws, rs2)"
    using typo_words_total by blast
  show ?thesis
    using assms r w unfolding typo_body_def
    by (auto simp: ebind_eq_Inl list_at_Inr list_at_Inl Let_def split: prod.splits if_splits)
qed

lemma add_typos_loop_Inl:
  "add_typos_loop rs exs rate acc = Inl e \<Longrightarrow> \<exists>ex\<in>set exs. length (messages ex) < 3"
proof (induction exs arbitrary: rs acc)
  case Nil
  then show ?case by simp
next
  case (Cons ex exs)
  show ?case
  proof (cases "typo_body rs ex rate")
    case (Inl e')
    then show ?thesis using typo_body_Inl by auto
  next
    case (Inr p)
    obtain new rs1 where p: "p = (new, rs1)" by (cases p)
    with Cons.prems Inr have "add_typos_loop rs1 exs rate (acc @ new) = Inl e" by simp
    from Cons.IH[OF this] show ?thesis by auto
  qed
qed

text \<open>
  The output of the loop: behind what was accumulated before, every example followed at
  once by what its own pass through the loop body added after it.
\<close>

lemma add_typos_loop_shape:
  "add_typos_loop rs exs rate acc = Inr (out, rs') \<Longrightarrow>
   \<exists>cs. length cs = length exs \<and> out = acc @ concat (map2 (#) exs cs) \<and>
     (\<forall>(ex, c)\<in>set (zip exs cs). \<exists>rs0 rs1. typo_body rs0 ex rate = Inr (ex # c, rs1))"
proof (induction exs arbitrary: rs acc)
  case Nil
  then show ?case by simp
next
  case (Cons ex exs)
  from Cons.prems obtain new rs1 where b: "typo_body rs ex rate = Inr (new, rs1)"
    and l: "add_typos_loop rs1 exs rate (acc @ new) = Inr (out, rs')"
    by (auto simp: ebind_eq_Inr)
  from typo_body_Inr[OF b] obtain c where c: "new = ex # c" by auto
  from Cons.IH[OF l] obtain cs where cs: "length cs = length exs"
    "out = (acc @ new) @ concat (map2 (#) exs cs)"
    "\<forall>(ex, c)\<in>set (zip exs cs). \<exists>rs0 rs1. typo_body rs0 ex rate = Inr (ex # c, rs1)"
    by blast
  have "length (c # cs) = length (ex # exs)" using cs by simp
  moreover have "out = acc @ concat (map2 (#) (ex # exs) (c # cs))" using cs c by simp
  moreover have "\<forall>(ex, c)\<in>set (zip (ex # exs) (c # cs)). \<exists>rs0 rs1. typo_body rs0 ex rate = Inr (ex # c, rs1)"
    using cs(3) b c by auto
  ultimately show ?case by blast
qed

lemma subseq_interleave: "length cs = length exs \<Longrightarrow> subseq exs (concat (map2 (#) exs cs))"
proof (induction exs arbitrary: cs)
  case Nil
  then show ?case by simp
next
  case (Cons ex exs)
  then obtain c cs' where cs: "cs = c # cs'" by (cases cs) auto
  with Cons have "subseq exs (concat (map2 (#) exs cs'))" by simp
  then have "subseq exs (c @ concat (map2 (#) exs cs'))"
    by (rule list_emb_append2)
  then show ?case using cs by simp
qed

lemma length_interleave: "length cs = length exs \<Longrightarrow> length exs \<le> length (concat (map2 (#) exs cs))"
proof (induction exs arbitrary: cs)
  case Nil
  then show ?case by simp
next
  case (Cons ex exs)
  then obtain c cs' where cs: "cs = c # cs'" by (cases cs) auto
  with Cons have "length exs \<le> length (concat (map2 (#) exs cs'))" by simp
  then show ?case using cs by simp
qed

text \<open>Definitions to unfold when a run of \<open>add_typos\<close> is evaluated on a concrete input.\<close>

lemmas add_typos_eval = add_typos_def typo_body_def random_random_def list_at_def
  make_example_def str_split_def typo_map_def str_lower_def lower_char_def is_space_def
  random_choice_def float_0_15_def float_0_1_def developer_message_def Let_def
  add_typos_default_def

text \<open>
  Two runs used as test inputs below. The examples are ones \<open>gen_email\<close> emits, with
  the tool list left empty. In the first run the example is selected (first draw 0),
  its word ``check'' is replaced (second draw 0) by the first substitution (third draw).
  In the second run a further example follows and is not selected (its draw is
  \<open>2^52\<close>, the float one half).
\<close>

lemma add_typos_run1:
  "add_typos [0, 0, 0]
     [make_example ''check mail'' ''get_emails'' [(''unread_only'', JBool True)] [] ''User wants emails.'']
     float_0_15 =
   Inr ([make_example ''check mail'' ''get_emails'' [(''unread_only'', JBool True)] [] ''User wants emails.'',
         make_example ''chekc mail'' ''get_emails'' [(''unread_only'', JBool True)] [] ''User wants emails.''],
        [])"
  by (simp add: add_typos_eval)

lemma add_typos_run2:
  "add_typos [0, 0, 0, 4503599627370496]
     [make_example ''check mail'' ''get_emails'' [(''unread_only'', JBool True)] [] ''User wants emails.'',
      make_example ''inbox please'' ''get_emails'' [] [] ''User wants emails.'']
     float_0_15 =
   Inr ([make_example ''check mail'' ''get_emails'' [(''unread_only'', JBool True)] [] ''User wants emails.'',
         make_example ''chekc mail'' ''get_emails'' [(''unread_only'', JBool True)] [] ''User wants emails.'',
         make_example ''inbox please'' ''get_emails'' [] [] ''User wants emails.''],
        [])"
  by (simp add: add_typos_eval)

text \<open>
  C10. For every input sequence, every random source and every rate: when
  \<open>add_typos\<close> returns, the input examples occur unchanged and in their order in the
  output (the input is a subsequence of the output), and the output is at least as long
  as the input. It returns unless some input example has fewer than three messages.
\<close>

theorem add_typos_keeps_input:
  "(case add_typos rs examples rate of
      Inr (out, rs') \<Rightarrow> subseq examples out \<and> length examples \<le> length out
    | Inl e \<Rightarrow> \<exists>ex\<in>set examples. length (messages ex) < 3)"
proof (cases "add_typos rs examples rate")
  case (Inl e)
  then show ?thesis using add_typos_loop_Inl by (simp add: add_typos_def)
next
  case (Inr p)
  obtain out rs' where p: "p = (out, rs')" by (cases p)
  from Inr p have "add_typos_loop rs examples rate [] = Inr (out, rs')" by (simp add: add_typos_def)
  from add_typos_loop_shape[OF this] obtain cs where
    "length cs = length examples" "out = concat (map2 (#) examples cs)" by auto
  then show ?thesis
    using Inr p subseq_interleave[of cs examples] length_interleave[of cs examples] by simp
qed

theorem add_typos_keeps_input_witness:
  "subseq
     [make_example ''check mail'' ''get_emails'' [(''unread_only'', JBool True)] [] ''User wants emails.'']
     (fst (projr (add_typos [0, 0, 0]
        [make_example ''check mail'' ''get_emails'' [(''unread_only'', JBool True)] [] ''User wants emails.'']
        float_0_15))) \<and>
   length (fst (projr (add_typos [0, 0, 0]
        [make_example ''check mail'' ''get_emails'' [(''unread_only'', JBool True)] [] ''User wants emails.'']
        float_0_15))) = 2"
  using add_typos_keeps_input[where rs = "[0, 0, 0]" and rate = float_0_15 and examples =
      "[make_example ''check mail'' ''get_emails'' [(''unread_only'', JBool True)] [] ''User wants emails.'']"]
  by (simp add: add_typos_run1)

lemma list3_update: "length xs = 3 \<Longrightarrow> xs[1 := y] = [xs ! 0, y, xs ! 2]"
  by (cases xs; cases "tl xs"; cases "tl (tl xs)") auto

text \<open>
  C5, as stated, fails: the copies are not collected behind the input. The first example
  of this run is selected and changed, the second is not selected; the copy stands
  between the two, so the input is not a prefix of the output.
\<close>

theorem add_typos_appends_at_end_counterexample:
  "add_typos [0, 0, 0, 4503599627370496]
     [make_example ''check mail'' ''get_emails'' [(''unread_only'', JBool True)] [] ''User wants emails.'',
      make_example ''inbox please'' ''get_emails'' [] [] ''User wants emails.'']
     float_0_15 =
   Inr ([make_example ''check mail'' ''get_emails'' [(''unread_only'', JBool True)] [] ''User wants emails.'',
         make_example ''chekc mail'' ''get_emails'' [(''unread_only'', JBool True)] [] ''User wants emails.'',
         make_example ''inbox please'' ''get_emails'' [] [] ''User wants emails.''],
        []) \<and>
   \<not> prefix
     [make_example ''check mail'' ''get_emails'' [(''unread_only'', JBool True)] [] ''User wants emails.'',
      make_example ''inbox please'' ''get_emails'' [] [] ''User wants emails.'']
     [make_example ''check mail'' ''get_emails'' [(''unread_only'', JBool True)] [] ''User wants emails.'',
      make_example ''chekc mail'' ''get_emails'' [(''unread_only'', JBool True)] [] ''User wants emails.'',
      make_example ''inbox please'' ''get_emails'' [] [] ''User wants emails.'']"
proof
  show "add_typos [0, 0, 0, 4503599627370496]
     [make_example ''check mail'' ''get_emails'' [(''unread_only'', JBool True)] [] ''User wants emails.'',
      make_example ''inbox please'' ''get_emails'' [] [] ''User wants emails.'']
     float_0_15 =
   Inr ([make_example ''check mail'' ''get_emails'' [(''unread_only'', JBool True)] [] ''User wants emails.'',
         make_example ''chekc mail'' ''get_emails'' [(''unread_only'', JBool True)] [] ''User wants emails.'',
         make_example ''inbox please'' ''get_emails'' [] [] ''User wants emails.''],
        [])"
    by (rule add_typos_run2)
  show "\<not> prefix
     [make_example ''check mail'' ''get_emails'' [(''unread_only'', JBool True)] [] ''User wants emails.'',
      make_example ''inbox please'' ''get_emails'' [] [] ''User wants emails.'']
     [make_example ''check mail'' ''get_emails'' [(''unread_only'', JBool True)] [] ''User wants emails.'',
      make_example ''chekc mail'' ''get_emails'' [(''unread_only'', JBool True)] [] ''User wants emails.'',
      make_example ''inbox please'' ''get_emails'' [] [] ''User wants emails.'']"
    by (simp add: make_example_def)
qed

text \<open>
  C5, amended. When \<open>add_typos\<close> returns, its output is the input sequence in its
  order with every accepted copy inserted directly behind the example it was derived
  from: the output is the concatenation, over the input examples, of the example
  followed by no copy or by its one copy.
\<close>

theorem add_typos_interleaves:
  assumes "add_typos rs examples rate = Inr (out, rs')"
  shows "\<exists>cs. length cs = length examples \<and> out = concat (map2 (#) examples cs) \<and>
     (\<forall>(ex, c)\<in>set (zip examples cs).
        c = [] \<or>
        (\<exists>new_msg. c = [\<lparr>messages = [messages ex ! 0,
                                       \<lparr>role = ''user'', content = new_msg, tool_calls = None\<rparr>,
                                       messages ex ! 2],
                           tools = tools ex\<rparr>]))"
proof -
  from assms have "add_typos_loop rs examples rate [] = Inr (out, rs')"
    by (simp add: add_typos_def)
  from add_typos_loop_shape[OF this] obtain cs where cs: "length cs = length examples"
    "out = concat (map2 (#) examples cs)"
    "\<forall>(ex, c)\<in>set (zip examples cs). \<exists>rs0 rs1. typo_body rs0 ex rate = Inr (ex # c, rs1)"
    by auto
  have "c = [] \<or>
        (\<exists>new_msg. c = [\<lparr>messages = [messages ex ! 0,
                                       \<lparr>role = ''user'', content = new_msg, tool_calls = None\<rparr>,
                                       messages ex ! 2],
                           tools = tools ex\<rparr>])"
    if "(ex, c) \<in> set (zip examples cs)" for ex c
  proof -
    from cs(3) that obtain rs0 rs1 where "typo_body rs0 ex rate = Inr (ex # c, rs1)" by auto
    from typo_body_Inr[OF this] show ?thesis by auto
  qed
  with cs(1,2) show ?thesis by blast
qed

theorem add_typos_interleaves_witness:
  "add_typos [0, 0, 0, 4503599627370496]
     [make_example ''check mail'' ''get_emails'' [(''unread_only'', JBool True)] [] ''User wants emails.'',
      make_example ''inbox please'' ''get_emails'' [] [] ''User wants emails.'']
     float_0_15 =
   Inr (concat (map2 (#)
          [make_example ''check mail'' ''get_emails'' [(''unread_only'', JBool True)] [] ''User wants emails.'',
           make_example ''inbox please'' ''get_emails'' [] [] ''User wants emails.'']
          [[make_example ''chekc mail'' ''get_emails'' [(''unread_only'', JBool True)] [] ''User wants emails.''],
           []]),
        [])"
  using add_typos_interleaves[OF add_typos_run2]
  by (simp add: add_typos_run2)

text \<open>
  C4. When \<open>add_typos\<close> returns, every copy it has inserted behind an input example
  has that example's \<open>tools\<close> list, its first message and its assistant message (the
  third message: the reasoning trace and the tool calls with their names and arguments);
  its second message is a user message whose text is the perturbed text, which differs
  from the example's text (an unchanged text yields no copy). For an example of three
  messages whose second is a plain user message the copy is that example with only the
  user text replaced.
\<close>

theorem add_typos_copy_label:
  assumes "add_typos rs examples rate = Inr (out, rs')"
  shows "\<exists>cs. length cs = length examples \<and> out = concat (map2 (#) examples cs) \<and>
     (\<forall>(ex, c)\<in>set (zip examples cs). \<forall>cp\<in>set c.
        tools cp = tools ex \<and>
        length (messages cp) = 3 \<and>
        messages cp ! 0 = messages ex ! 0 \<and>
        messages cp ! 2 = messages ex ! 2 \<and>
        role (messages cp ! 1) = ''user'' \<and>
        tool_calls (messages cp ! 1) = None \<and>
        content (messages cp ! 1) \<noteq> content (messages ex ! 1) \<and>
        (\<exists>rs1 rs2 new_words.
           typo_words rs1 (str_split (content (messages ex ! 1))) = Inr (new_words, rs2) \<and>
           content (messages cp ! 1) = str_join '' '' new_words) \<and>
        (length (messages ex) = 3 \<and> role (messages ex ! 1) = ''user'' \<and>
         tool_calls (messages ex ! 1) = None \<longrightarrow>
           cp = ex\<lparr>messages :=
                  (messages ex)[1 := (messages ex ! 1)\<lparr>content := content (messages cp ! 1)\<rparr>]\<rparr>))"
proof -
  from assms have "add_typos_loop rs examples rate [] = Inr (out, rs')"
    by (simp add: add_typos_def)
  from add_typos_loop_shape[OF this] obtain cs where cs: "length cs = length examples"
    "out = concat (map2 (#) examples cs)"
    "\<forall>(ex, c)\<in>set (zip examples cs). \<exists>rs0 rs1. typo_body rs0 ex rate = Inr (ex # c, rs1)"
    by auto
  have "tools cp = tools ex \<and>
        length (messages cp) = 3 \<and>
        messages cp ! 0 = messages ex ! 0 \<and>
        messages cp ! 2 = messages ex ! 2 \<and>
        role (messages cp ! 1) = ''user'' \<and>
        tool_calls (messages cp ! 1) = None \<and>
        content (messages cp ! 1) \<noteq> content (messages ex ! 1) \<and>
        (\<exists>rs1 rs2 new_words.
           typo_words rs1 (str_split (content (messages ex ! 1))) = Inr (new_words, rs2) \<and>
           content (messages cp ! 1) = str_join '' '' new_words) \<and>
        (length (messages ex) = 3 \<and> role (messages ex ! 1) = ''user'' \<and>
         tool_calls (messages ex ! 1) = None \<longrightarrow>
           cp = ex\<lparr>messages :=
                  (messages ex)[1 := (messages ex ! 1)\<lparr>content := content (messages cp ! 1)\<rparr>]\<rparr>)"
    if zc: "(ex, c) \<in> set (zip examples cs)" and cp: "cp \<in> set c" for ex c cp
  proof -
    from cs(3) zc obtain rs0 rs1 where "typo_body rs0 ex rate = Inr (ex # c, rs1)" by auto
    from typo_body_Inr[OF this] cp obtain rs1 rs2 new_words where
      w: "typo_words rs1 (str_split (content (messages ex ! 1))) = Inr (new_words, rs2)"
      and ne: "str_join '' '' new_words \<noteq> content (messages ex ! 1)"
      and c: "cp = \<lparr>messages = [messages ex ! 0,
                      \<lparr>role = ''user'', content = str_join '' '' new_words, tool_calls = None\<rparr>,
                      messages ex ! 2],
                 tools = tools ex\<rparr>"
      by auto
    have only: "cp = ex\<lparr>messages :=
                  (messages ex)[1 := (messages ex ! 1)\<lparr>content := content (messages cp ! 1)\<rparr>]\<rparr>"
      if l: "length (messages ex) = 3" and r: "role (messages ex ! 1) = ''user''"
        and t: "tool_calls (messages ex ! 1) = None"
    proof -
      have u: "(messages ex ! 1)\<lparr>content := str_join '' '' new_words\<rparr> =
               \<lparr>role = ''user'', content = str_join '' '' new_words, tool_calls = None\<rparr>"
        using r t by (intro message.equality) simp_all
      have "(messages ex)[1 := (messages ex ! 1)\<lparr>content := str_join '' '' new_words\<rparr>] =
            [messages ex ! 0, \<lparr>role = ''user'', content = str_join '' '' new_words, tool_calls = None\<rparr>,
             messages ex ! 2]"
        unfolding u using l by (rule list3_update)
      then show ?thesis by (simp add: c)
    qed
    from w ne only show ?thesis by (auto simp: c)
  qed
  with cs(1,2) show ?thesis by blast
qed

theorem add_typos_copy_label_witness:
  "add_typos [0, 0, 0]
     [make_example ''check mail'' ''get_emails'' [(''unread_only'', JBool True)] [] ''User wants emails.'']
     float_0_15 =
   Inr ([make_example ''check mail'' ''get_emails'' [(''unread_only'', JBool True)] [] ''User wants emails.'',
         make_example ''chekc mail'' ''get_emails'' [(''unread_only'', JBool True)] [] ''User wants emails.''],
        []) \<and>
   tool_calls (messages (make_example ''chekc mail'' ''get_emails'' [(''unread_only'', JBool True)] []
       ''User wants emails.'') ! 2) =
   Some [\<lparr>call_type = ''function'',
          func = \<lparr>fn_name = ''get_emails'', arguments = [(''unread_only'', JBool True)]\<rparr>\<rparr>]"
proof -
  have "tool_calls (messages (make_example ''chekc mail'' ''get_emails'' [(''unread_only'', JBool True)] []
       ''User wants emails.'') ! 2) =
   Some [\<lparr>call_type = ''function'',
          func = \<lparr>fn_name = ''get_emails'', arguments = [(''unread_only'', JBool True)]\<rparr>\<rparr>]"
    by (simp add: make_example_def)
  with add_typos_copy_label[OF add_typos_run1] add_typos_run1 show ?thesis
    by blast
qed

section \<open>vary\_message: the variations it returns\<close>

lemma sample_from_props:
  "k \<le> length pool \<Longrightarrow>
   set (fst (sample_from rs pool k)) \<subseteq> set pool \<and> length (fst (sample_from rs pool k)) = k"
proof (induction k arbitrary: rs pool)
  case 0
  show ?case by simp
next
  case (Suc k)
  obtain r rs1 where d: "draw rs = (r, rs1)" by (cases "draw rs")
  define j where "j = r mod length pool"
  define pool' where "pool' = take j pool @ drop (Suc j) pool"
  from Suc.prems have ne: "pool \<noteq> []" by auto
  then have j: "j < length pool" by (simp add: j_def)
  have sub: "set pool' \<subseteq> set pool"
    unfolding pool'_def by (auto dest: in_set_takeD in_set_dropD)
  have len: "k \<le> length pool'"
    unfolding pool'_def using Suc.prems j by simp
  from Suc.IH[OF len, of rs1] sub
  have "set (fst (sample_from rs1 pool' k)) \<subseteq> set pool" "length (fst (sample_from rs1 pool' k)) = k"
    by auto
  moreover have "sample_from rs pool (Suc k) =
     (pool ! j # fst (sample_from rs1 pool' k), snd (sample_from rs1 pool' k))"
    by (simp add: d j_def pool'_def Let_def split: prod.splits)
  ultimately show ?case using j by simp
qed

lemma random_sample_Inr:
  "k \<le> length pool \<Longrightarrow>
   \<exists>ys rs'. random_sample rs pool k = Inr (ys, rs') \<and> set ys \<subseteq> set pool \<and> length ys = k"
  using sample_from_props[of k pool rs]
  by (cases "sample_from rs pool k") (simp add: random_sample_def)

lemma vary_suffixes_shape:
  "\<exists>extra. vary_suffixes msg lo p ss vs = vs @ extra \<and>
     (\<forall>v\<in>set extra. \<exists>s\<in>set ss. p @ lo @ s \<noteq> msg \<and> v = str_strip (p @ lo @ s))"
proof (induction ss arbitrary: vs)
  case Nil
  show ?case by simp
next
  case (Cons s ss)
  define vs' where "vs' = (if p @ lo @ s \<noteq> msg \<and> p @ lo @ s \<notin> set vs then vs @ [str_strip (p @ lo @ s)] else vs)"
  from Cons[of vs'] obtain extra where e: "vary_suffixes msg lo p ss vs' = vs' @ extra"
    "\<forall>v\<in>set extra. \<exists>s\<in>set ss. p @ lo @ s \<noteq> msg \<and> v = str_strip (p @ lo @ s)" by blast
  have v: "vary_suffixes msg lo p (s # ss) vs = vary_suffixes msg lo p ss vs'"
    by (simp add: vs'_def Let_def)
  show ?case
  proof (cases "p @ lo @ s \<noteq> msg \<and> p @ lo @ s \<notin> set vs")
    case True
    then have "vary_suffixes msg lo p (s # ss) vs = vs @ (str_strip (p @ lo @ s) # extra)"
      using v e(1) by (simp add: vs'_def)
    moreover have "\<forall>v\<in>set (str_strip (p @ lo @ s) # extra). \<exists>s'\<in>set (s # ss). p @ lo @ s' \<noteq> msg \<and> v = str_strip (p @ lo @ s')"
      using True e(2) by auto
    ultimately show ?thesis by blast
  next
    case False
    then have "vary_suffixes msg lo p (s # ss) vs = vs @ extra"
      using v e(1) by (auto simp: vs'_def)
    moreover have "\<forall>v\<in>set extra. \<exists>s'\<in>set (s # ss). p @ lo @ s' \<noteq> msg \<and> v = str_strip (p @ lo @ s')"
      using e(2) by auto
    ultimately show ?thesis by blast
  qed
qed

lemma suffixes_sample:
  "\<exists>ss rs1. random_sample rs suffixes 2 = Inr (ss, rs1) \<and> set ss \<subseteq> set suffixes \<and> length ss = 2"
  by (rule random_sample_Inr) (simp add: suffixes_def)

lemma prefixes_sample:
  "\<exists>ps rs1. random_sample rs prefixes 3 = Inr (ps, rs1) \<and> set ps \<subseteq> set prefixes \<and> length ps = 3"
  by (rule random_sample_Inr) (simp add: prefixes_def)

lemma vary_prefixes_shape:
  "\<exists>extra rs'. vary_prefixes rs msg lo ps vs = Inr (vs @ extra, rs') \<and>
     (\<forall>v\<in>set extra. \<exists>p\<in>set ps. \<exists>s\<in>set suffixes. p @ lo @ s \<noteq> msg \<and> v = str_strip (p @ lo @ s))"
proof (induction ps arbitrary: rs vs)
  case Nil
  show ?case by simp
next
  case (Cons p ps)
  from suffixes_sample[of rs] obtain ss rs1 where s: "random_sample rs suffixes 2 = Inr (ss, rs1)"
    "set ss \<subseteq> set suffixes" by blast
  from vary_suffixes_shape[of msg lo p ss vs] obtain e1 where e1:
    "vary_suffixes msg lo p ss vs = vs @ e1"
    "\<forall>v\<in>set e1. \<exists>s\<in>set ss. p @ lo @ s \<noteq> msg \<and> v = str_strip (p @ lo @ s)" by blast
  from Cons[of rs1 "vs @ e1"] obtain e2 rs' where e2:
    "vary_prefixes rs1 msg lo ps (vs @ e1) = Inr ((vs @ e1) @ e2, rs')"
    "\<forall>v\<in>set e2. \<exists>p\<in>set ps. \<exists>s\<in>set suffixes. p @ lo @ s \<noteq> msg \<and> v = str_strip (p @ lo @ s)" by blast
  have "vary_prefixes rs msg lo (p # ps) vs = Inr (vs @ (e1 @ e2), rs')"
    using s(1) e1(1) e2(1) by simp
  moreover have "\<forall>v\<in>set (e1 @ e2). \<exists>p'\<in>set (p # ps). \<exists>s\<in>set suffixes. p' @ lo @ s \<noteq> msg \<and> v = str_strip (p' @ lo @ s)"
    using e1(2) e2(2) s(2) by fastforce
  ultimately show ?case by blast
qed

lemma vary_message_shape:
  "\<exists>extra rs'. vary_message rs msg = Inr (take 5 (msg # extra), rs') \<and>
     (\<forall>v\<in>set extra. \<exists>p\<in>set prefixes. \<exists>s\<in>set suffixes.
        p @ str_lower msg @ s \<noteq> msg \<and> v = str_strip (p @ str_lower msg @ s))"
proof -
  from prefixes_sample[of rs] obtain ps rs1 where p: "random_sample rs prefixes 3 = Inr (ps, rs1)"
    "set ps \<subseteq> set prefixes" by blast
  from vary_prefixes_shape[of rs1 msg "str_lower msg" ps "[msg]"] obtain extra rs' where e:
    "vary_prefixes rs1 msg (str_lower msg) ps [msg] = Inr ([msg] @ extra, rs')"
    "\<forall>v\<in>set extra. \<exists>p\<in>set ps. \<exists>s\<in>set suffixes. p @ str_lower msg @ s \<noteq> msg \<and> v = str_strip (p @ str_lower msg @ s)"
    by blast
  have "vary_message rs msg = Inr (take 5 (msg # extra), rs')"
    using p(1) e(1) by (simp add: vary_message_def)
  moreover have "\<forall>v\<in>set extra. \<exists>p\<in>set prefixes. \<exists>s\<in>set suffixes.
        p @ str_lower msg @ s \<noteq> msg \<and> v = str_strip (p @ str_lower msg @ s)"
    using e(2) p(2) by fastforce
  ultimately show ?thesis by blast
qed

lemma of_char_lower: "n \<le> 222 \<Longrightarrow> (of_char (char_of (n + 32 :: nat)) :: nat) = n + 32"
  by simp

lemma is_space_lower_char: "is_space (lower_char c) = is_space c"
proof -
  define n where "n = (of_char c :: nat)"
  show ?thesis
  proof (cases "(65 \<le> n \<and> n \<le> 90) \<or> (192 \<le> n \<and> n \<le> 222 \<and> n \<noteq> 215)")
    case True
    then have l: "lower_char c = char_of (n + 32)" by (simp add: lower_char_def n_def Let_def)
    from True have "n \<le> 222" by auto
    then have "(of_char (lower_char c) :: nat) = n + 32" unfolding l by (rule of_char_lower)
    then show ?thesis using True by (auto simp: is_space_def Let_def n_def[symmetric])
  next
    case False
    then have "lower_char c = c" unfolding lower_char_def Let_def n_def by auto
    then show ?thesis by simp
  qed
qed

lemma dropWhile_last: "dropWhile P xs \<noteq> [] \<Longrightarrow> last (dropWhile P xs) = last xs"
  by (induction xs) (auto split: if_splits)

lemma str_strip_clean:
  assumes "str_strip v \<noteq> []"
  shows "\<not> is_space (hd (str_strip v)) \<and> \<not> is_space (last (str_strip v))"
proof -
  define a where "a = dropWhile is_space v"
  define b where "b = dropWhile is_space (rev a)"
  have w: "str_strip v = rev b" by (simp add: str_strip_def a_def b_def)
  with assms have bne: "b \<noteq> []" by simp
  then have rne: "rev a \<noteq> []" by (auto simp: b_def)
  then have ane: "a \<noteq> []" by simp
  have "\<not> is_space (hd b)" using bne unfolding b_def by (rule hd_dropWhile)
  then have l: "\<not> is_space (last (rev b))" using bne by (simp add: last_rev)
  have "last b = last (rev a)" using bne unfolding b_def by (rule dropWhile_last)
  also have "\<dots> = hd a" using ane by (simp add: last_rev)
  finally have "hd (rev b) = hd a" using bne by (simp add: hd_rev)
  moreover have "\<not> is_space (hd a)" using ane unfolding a_def by (rule hd_dropWhile)
  ultimately show ?thesis using l w by simp
qed

lemma str_strip_id:
  assumes "v \<noteq> []" "\<not> is_space (hd v)" "\<not> is_space (last v)"
  shows "str_strip v = v"
proof -
  from assms(1,2) have a: "dropWhile is_space v = v" by (cases v) auto
  from assms(1,3) have "dropWhile is_space (rev v) = rev v" by (cases "rev v") (auto simp: last_rev hd_rev)
  with a show ?thesis by (simp add: str_strip_def)
qed

lemma str_strip_Nil: "str_strip v = [] \<Longrightarrow> \<forall>c\<in>set v. is_space c"
proof -
  assume "str_strip v = []"
  then have "dropWhile is_space (rev (dropWhile is_space v)) = []" by (simp add: str_strip_def)
  then have "\<forall>c\<in>set (rev (dropWhile is_space v)). is_space c" by (simp add: dropWhile_eq_Nil_conv)
  then have "\<forall>c\<in>set (dropWhile is_space v). is_space c" by simp
  then have "dropWhile is_space v = []" using hd_dropWhile[of is_space v] by (cases "dropWhile is_space v") auto
  then show ?thesis by (simp add: dropWhile_eq_Nil_conv)
qed

lemma prefixes_clean: "p \<in> set prefixes \<Longrightarrow> p = [] \<or> \<not> is_space (hd p)"
  by (auto simp: prefixes_def is_space_def)

lemma suffixes_clean: "s \<in> set suffixes \<Longrightarrow> s = [] \<or> \<not> is_space (last s)"
  by (auto simp: suffixes_def is_space_def)

text \<open>
  A variation of a message that is non-empty and has no whitespace at either end has
  none either, so stripping leaves it as it is.
\<close>

lemma variation_clean:
  assumes "msg \<noteq> []" "\<not> is_space (hd msg)" "\<not> is_space (last msg)"
    and "p \<in> set prefixes" "s \<in> set suffixes"
  shows "str_strip (p @ str_lower msg @ s) = p @ str_lower msg @ s"
proof (rule str_strip_id)
  have lne: "str_lower msg \<noteq> []" using assms(1) by (simp add: str_lower_def)
  show "p @ str_lower msg @ s \<noteq> []" using lne by simp
  have h: "\<not> is_space (hd (str_lower msg))"
    using assms(1,2) by (simp add: str_lower_def hd_map is_space_lower_char)
  have l: "\<not> is_space (last (str_lower msg))"
    using assms(1,3) by (simp add: str_lower_def last_map is_space_lower_char)
  show "\<not> is_space (hd (p @ str_lower msg @ s))"
    using prefixes_clean[OF assms(4)] h lne by (cases p) auto
  show "\<not> is_space (last (p @ str_lower msg @ s))"
    using suffixes_clean[OF assms(5)] l lne by (cases "s = []") auto
qed

lemma variation_not_msg:
  assumes "p \<in> set prefixes" "s \<in> set suffixes" "p @ str_lower msg @ s \<noteq> msg"
  shows "str_strip (p @ str_lower msg @ s) \<noteq> msg"
proof
  assume eq: "str_strip (p @ str_lower msg @ s) = msg"
  show False
  proof (cases "msg = []")
    case True
    with eq have "\<forall>c\<in>set (p @ s). is_space c"
      using str_strip_Nil[of "p @ str_lower msg @ s"] by (simp add: str_lower_def)
    moreover from assms(3) True have "p \<noteq> [] \<or> s \<noteq> []" by (auto simp: str_lower_def)
    ultimately show False
      using prefixes_clean[OF assms(1)] suffixes_clean[OF assms(2)]
      by (cases p; cases "s = []") (auto dest: last_in_set)
  next
    case False
    with eq str_strip_clean[of "p @ str_lower msg @ s"]
    have "\<not> is_space (hd msg)" "\<not> is_space (last msg)" by auto
    from variation_clean[OF False this assms(1,2)] eq assms(3) show False by simp
  qed
qed

lemma vary_suffixes_distinct:
  assumes "msg \<noteq> []" "\<not> is_space (hd msg)" "\<not> is_space (last msg)" "p \<in> set prefixes"
  shows "set ss \<subseteq> set suffixes \<Longrightarrow> distinct vs \<Longrightarrow>
         distinct (vary_suffixes msg (str_lower msg) p ss vs)"
proof (induction ss arbitrary: vs)
  case Nil
  then show ?case by simp
next
  case (Cons s ss)
  from Cons.prems have s: "s \<in> set suffixes" and ss: "set ss \<subseteq> set suffixes" by auto
  have c: "str_strip (p @ str_lower msg @ s) = p @ str_lower msg @ s"
    using assms s by (rule variation_clean)
  have "distinct (if p @ str_lower msg @ s \<noteq> msg \<and> p @ str_lower msg @ s \<notin> set vs
                  then vs @ [str_strip (p @ str_lower msg @ s)] else vs)"
    using Cons.prems(2) by (simp add: c)
  from Cons.IH[OF ss this] show ?case by (simp add: Let_def)
qed

lemma vary_prefixes_distinct:
  assumes "msg \<noteq> []" "\<not> is_space (hd msg)" "\<not> is_space (last msg)"
  shows "set ps \<subseteq> set prefixes \<Longrightarrow> distinct vs \<Longrightarrow>
         vary_prefixes rs msg (str_lower msg) ps vs = Inr (out, rs') \<Longrightarrow> distinct out"
proof (induction ps arbitrary: rs vs)
  case Nil
  then show ?case by simp
next
  case (Cons p ps)
  from Cons.prems(1) have p: "p \<in> set prefixes" and ps: "set ps \<subseteq> set prefixes" by auto
  from suffixes_sample[of rs] obtain ss rs1 where s: "random_sample rs suffixes 2 = Inr (ss, rs1)"
    "set ss \<subseteq> set suffixes" by blast
  have d: "distinct (vary_suffixes msg (str_lower msg) p ss vs)"
    using assms p s(2) Cons.prems(2) by (rule vary_suffixes_distinct)
  from Cons.prems(3) s(1)
  have "vary_prefixes rs1 msg (str_lower msg) ps (vary_suffixes msg (str_lower msg) p ss vs) = Inr (out, rs')"
    by simp
  from Cons.IH[OF ps d this] show ?case .
qed

lemma vary_message_distinct:
  assumes "msg \<noteq> []" "\<not> is_space (hd msg)" "\<not> is_space (last msg)"
    and "vary_message rs msg = Inr (vs, rs')"
  shows "distinct vs"
proof -
  from prefixes_sample[of rs] obtain ps rs1 where p: "random_sample rs prefixes 3 = Inr (ps, rs1)"
    "set ps \<subseteq> set prefixes" by blast
  from assms(4) p(1) obtain out where o: "vary_prefixes rs1 msg (str_lower msg) ps [msg] = Inr (out, rs')"
    and v: "vs = take 5 out"
    by (auto simp: vary_message_def ebind_eq_Inr)
  have "distinct out" using assms(1-3) p(2) _ o by (rule vary_prefixes_distinct) simp
  then show ?thesis by (simp add: v)
qed


text \<open>
  Two runs used as test inputs. In the first the random source is exhausted (every draw
  is 0). In the second the input is the empty string and the draws select the prefixes
  ``please '', the empty prefix and ``hey '', and for the first two of them the empty
  suffix and `` please''.
\<close>

lemma vary_message_run1:
  "vary_message [] ''Play jazz'' =
   Inr ([''Play jazz'', ''play jazz'', ''play jazz please'', ''hey play jazz'',
         ''hey play jazz please''], [])"
  by code_simp

lemma vary_message_run2:
  "vary_message [8, 0, 0, 0, 0, 1] '''' =
   Inr (['''', ''please'', ''please  please'', ''please'', ''hey''], [])"
  by code_simp

text \<open>
  C2, as stated, fails. The list starts with the original input string (first run), and
  on an input that is empty the membership test, made before the candidate is stripped,
  lets the same stripped string in twice (second run).
\<close>

theorem vary_message_excludes_original_counterexample:
  "vary_message [] ''Play jazz'' =
     Inr ([''Play jazz'', ''play jazz'', ''play jazz please'', ''hey play jazz'',
           ''hey play jazz please''], []) \<and>
   ''Play jazz'' \<in> set [''Play jazz'', ''play jazz'', ''play jazz please'', ''hey play jazz'',
                         ''hey play jazz please''] \<and>
   vary_message [8, 0, 0, 0, 0, 1] '''' =
     Inr (['''', ''please'', ''please  please'', ''please'', ''hey''], []) \<and>
   \<not> distinct ['''', ''please'', ''please  please'', ''please'', ''hey'']"
  using vary_message_run1 vary_message_run2 by simp

text \<open>
  C2, amended. For every input string and every random source \<open>vary_message\<close>
  returns a list of at least one and at most five elements; its first element is the
  original input string, which occurs nowhere else in the list; every other element is a
  stripped prefix + lower-cased input + suffix; and for an input that is non-empty
  and has no whitespace at either end the list has no duplicates.
\<close>

theorem vary_message_bounded:
  "\<exists>vs rs'. vary_message rs msg = Inr (vs, rs') \<and> length vs \<le> 5 \<and> vs \<noteq> [] \<and> hd vs = msg \<and>
     msg \<notin> set (tl vs) \<and>
     (\<forall>v\<in>set (tl vs). \<exists>p\<in>set prefixes. \<exists>s\<in>set suffixes. v = str_strip (p @ str_lower msg @ s)) \<and>
     (msg \<noteq> [] \<and> \<not> is_space (hd msg) \<and> \<not> is_space (last msg) \<longrightarrow> distinct vs)"
proof -
  from vary_message_shape[of rs msg] obtain extra rs' where e:
    "vary_message rs msg = Inr (take 5 (msg # extra), rs')"
    "\<forall>v\<in>set extra. \<exists>p\<in>set prefixes. \<exists>s\<in>set suffixes.
        p @ str_lower msg @ s \<noteq> msg \<and> v = str_strip (p @ str_lower msg @ s)" by blast
  define vs where "vs = take 5 (msg # extra)"
  have t: "vs = msg # take 4 extra" by (simp add: vs_def)
  have sub: "set (tl vs) \<subseteq> set extra" using t by (auto dest: in_set_takeD)
  have "msg \<notin> set (tl vs)"
  proof
    assume "msg \<in> set (tl vs)"
    with sub e(2) obtain p s where "p \<in> set prefixes" "s \<in> set suffixes"
      "p @ str_lower msg @ s \<noteq> msg" "msg = str_strip (p @ str_lower msg @ s)" by blast
    with variation_not_msg show False by metis
  qed
  moreover have "\<forall>v\<in>set (tl vs). \<exists>p\<in>set prefixes. \<exists>s\<in>set suffixes. v = str_strip (p @ str_lower msg @ s)"
    using sub e(2) by blast
  moreover have "msg \<noteq> [] \<and> \<not> is_space (hd msg) \<and> \<not> is_space (last msg) \<longrightarrow> distinct vs"
    using vary_message_distinct[of msg rs vs rs'] e(1) by (simp add: vs_def)
  moreover have "length vs \<le> 5" "vs \<noteq> []" "hd vs = msg" using t by simp_all
  ultimately show ?thesis using e(1) unfolding vs_def by blast
qed

theorem vary_message_bounded_witness:
  "vary_message [] ''Play jazz'' =
     Inr ([''Play jazz'', ''play jazz'', ''play jazz please'', ''hey play jazz'',
           ''hey play jazz please''], []) \<and>
   distinct [''Play jazz'', ''play jazz'', ''play jazz please'', ''hey play jazz'',
             ''hey play jazz please'']"
  using vary_message_bounded[of "[]" "''Play jazz''"] vary_message_run1
  by (simp add: is_space_def)

section \<open>The generators return, and what they return\<close>

lemma for_each_all:
  assumes "\<And>x rs. x \<in> set xs \<Longrightarrow> \<exists>new rs'. body x rs = Inr (new, rs') \<and> (\<forall>e\<in>set new. P e)"
  shows "\<exists>out rs'. for_each body xs rs = Inr (out, rs') \<and> (\<forall>e\<in>set out. P e)"
  using assms
proof (induction xs arbitrary: rs)
  case Nil
  show ?case by simp
next
  case (Cons x xs)
  from Cons.prems[of x rs] obtain new rs1 where b: "body x rs = Inr (new, rs1)" "\<forall>e\<in>set new. P e"
    by auto
  from Cons.IH[of rs1] Cons.prems obtain rest rs2 where r: "for_each body xs rs1 = Inr (rest, rs2)"
    "\<forall>e\<in>set rest. P e" by (meson list.set_intros(2))
  from b r show ?case by auto
qed

lemma vary_message_total: "\<exists>vars rs'. vary_message rs msg = Inr (vars, rs')"
  using vary_message_shape[of rs msg] by blast

lemma with_variations_all:
  assumes "\<And>m. P (mk m)"
  shows "\<exists>new rs'. with_variations k mk u rs = Inr (new, rs') \<and> (\<forall>e\<in>set new. P e)"
proof -
  from vary_message_total[of rs u] obtain vars rs' where "vary_message rs u = Inr (vars, rs')" by blast
  then show ?thesis using assms by (auto simp: with_variations_def)
qed

text \<open>A sampled loop: the patterns are sampled, then the body runs on each.\<close>

lemma sampled_loop_all:
  assumes "k \<le> length pool"
    and "\<And>x rs. x \<in> set pool \<Longrightarrow> \<exists>new rs'. body x rs = Inr (new, rs') \<and> (\<forall>e\<in>set new. P e)"
  shows "\<exists>out rs'. ebind (random_sample rs pool k) (\<lambda>(xs, rs1). for_each body xs rs1) = Inr (out, rs') \<and>
           (\<forall>e\<in>set out. P e)"
proof -
  from random_sample_Inr[OF assms(1), of rs] obtain xs rs1 where
    s: "random_sample rs pool k = Inr (xs, rs1)" "set xs \<subseteq> set pool" by blast
  have "\<exists>out rs'. for_each body xs rs1 = Inr (out, rs') \<and> (\<forall>e\<in>set out. P e)"
    by (rule for_each_all) (use s(2) assms(2) in blast)
  with s(1) show ?thesis by simp
qed

lemma make_example_multi: "make_example u n a tls th = make_multi_tool u [(n, a)] tls th"
  by (simp add: make_example_def make_multi_tool_def)

text \<open>
  A call is matched once the names and required parameters of the tool list are known:
  the signature of the list decides.
\<close>

lemma call_okI:
  assumes "map (\<lambda>t. (name t, required (parameters t))) tls = sg"
    and "n \<in> fst ` set sg"
    and "\<forall>(m, r)\<in>set sg. m = n \<longrightarrow> set r \<subseteq> fst ` set a"
  shows "call_ok tls n a"
proof -
  have s: "set sg = (\<lambda>t. (name t, required (parameters t))) ` set tls"
    using assms(1) by (metis set_map)
  have "n \<in> name ` set tls" using assms(2) unfolding s by force
  moreover have "set (required (parameters t)) \<subseteq> fst ` set a" if "t \<in> set tls" "name t = n" for t
    using assms(3) that unfolding s by force
  ultimately show ?thesis by (auto simp: call_ok_def)
qed

lemma tool_form_make_example: "call_ok tls n a \<Longrightarrow> tool_form (make_example u n a tls th)"
  unfolding tool_form_def make_example_multi by fastforce

section \<open>The catalog: names and required parameters\<close>

lemma catalog_signature_eval:
  "catalog_signature =
     [(''research'', ''research'', [''query'']),
      (''search_knowledge'', ''search_knowledge'', [''query'']),
      (''create_knowledge'', ''create_knowledge'', [''title'', ''content'']),
      (''get_user_facts'', ''get_user_facts'', []),
      (''create_task'', ''create_task'', [''title'']),
      (''get_tasks'', ''get_tasks'', []),
      (''complete_task'', ''complete_task'', [''task_id'']),
      (''delete_task'', ''delete_task'', [''task_id'']),
      (''get_calendar_events'', ''get_calendar_events'', []),
      (''create_calendar_event'', ''create_calendar_event'', [''title'', ''start_at'', ''end_at'']),
      (''get_emails'', ''get_emails'', []),
      (''search_emails'', ''search_emails'', [''query'']),
      (''send_email'', ''send_email'', [''to'', ''subject'', ''body'']),
      (''play_music'', ''play_music'', [''query'']),
      (''pause_music'', ''pause_music'', []),
      (''skip_track'', ''skip_track'', []),
      (''previous_track'', ''previous_track'', []),
      (''get_currently_playing'', ''get_currently_playing'', []),
      (''search_music'', ''search_music'', [''query'']),
      (''set_volume'', ''set_volume'', [''volume_percent'']),
      (''navigate'', ''navigate'', [''url'']),
      (''screenshot'', ''screenshot'', []),
      (''click'', ''click'', [''selector'']),
      (''fill'', ''fill'', [''selector'', ''text'']),
      (''get_page_content'', ''get_page_content'', [''url'']),
      (''execute_python'', ''execute_python'', [''code'']),
      (''execute_javascript'', ''execute_javascript'', [''code'']),
      (''create_reminder'', ''create_reminder'', [''message'', ''delay_minutes'']),
      (''list_reminders'', ''list_reminders'', []),
      (''write_file'', ''write_file'', [''filename'', ''content'']),
      (''read_file'', ''read_file'', [''filename'']),
      (''list_files'', ''list_files'', []),
      (''delete_file'', ''delete_file'', [''filename'']),
      (''generate_image'', ''generate_image'', [''prompt'']),
      (''search_youtube'', ''search_youtube'', [''query'']),
      (''system_cpu_usage'', ''system_cpu_usage'', []),
      (''system_memory'', ''system_memory'', []),
      (''system_disk'', ''system_disk'', []),
      (''system_uptime'', ''system_uptime'', []),
      (''system_load'', ''system_load'', []),
      (''docker_containers'', ''docker_containers'', []),
      (''docker_logs'', ''docker_logs'', [''container_id'']),
      (''docker_stats'', ''docker_stats'', [''container_id'']),
      (''analyze_mood'', ''analyze_mood'', [''message'']),
      (''get_mood_history'', ''get_mood_history'', []),
      (''search_documents'', ''search_documents'', [''query'']),
      (''get_documents'', ''get_documents'', []),
      (''generate_background'', ''generate_background'', [''prompt'']),
      (''get_backgrounds'', ''get_backgrounds'', []),
      (''create_project'', ''create_project'', [''name'', ''type'']),
      (''get_projects'', ''get_projects'', []),
      (''analyze_image'', ''analyze_image'', [''image_url''])]"
  by (simp add: catalog_signature_def TOOLS_def)

lemma catalog_keys_eval:
  "map fst catalog_signature =
      [''research'', ''search_knowledge'', ''create_knowledge'', ''get_user_facts'',
       ''create_task'', ''get_tasks'', ''complete_task'', ''delete_task'',
       ''get_calendar_events'', ''create_calendar_event'', ''get_emails'', ''search_emails'',
       ''send_email'', ''play_music'', ''pause_music'', ''skip_track'', ''previous_track'',
       ''get_currently_playing'', ''search_music'', ''set_volume'', ''navigate'',
       ''screenshot'', ''click'', ''fill'', ''get_page_content'', ''execute_python'',
       ''execute_javascript'', ''create_reminder'', ''list_reminders'', ''write_file'',
       ''read_file'', ''list_files'', ''delete_file'', ''generate_image'', ''search_youtube'',
       ''system_cpu_usage'', ''system_memory'', ''system_disk'', ''system_uptime'',
       ''system_load'', ''docker_containers'', ''docker_logs'', ''docker_stats'',
       ''analyze_mood'', ''get_mood_history'', ''search_documents'', ''get_documents'',
       ''generate_background'', ''get_backgrounds'', ''create_project'', ''get_projects'',
       ''analyze_image'']"
  by (simp add: catalog_signature_eval)

lemma catalog_keys_distinct: "distinct (map fst catalog_signature)"
  by (simp add: catalog_keys_eval)

lemma catalog_names_all: "list_all (\<lambda>(k, n, r). n = k) catalog_signature"
  by (simp add: catalog_signature_eval)

lemma catalog_names: "(k, n, r) \<in> set catalog_signature \<Longrightarrow> n = k"
  using catalog_names_all unfolding list_all_iff by fast

lemma TOOLS_keys_distinct: "distinct (map fst TOOLS)"
proof -
  have "map fst catalog_signature = map fst TOOLS"
    by (simp add: catalog_signature_def case_prod_unfold)
  with catalog_keys_distinct show ?thesis by simp
qed

text \<open>A catalog lookup that succeeds returns the specification the signature describes.\<close>

lemma TOOLS_at_signature:
  assumes "TOOLS_at k = Inr t"
  shows "map_of catalog_signature k = Some (name t, required (parameters t))"
proof -
  from assms have "map_of TOOLS k = Some t"
    by (simp add: TOOLS_at_def split: option.splits)
  then have "(k, t) \<in> set TOOLS" by (rule map_of_SomeD)
  then have "(k, name t, required (parameters t)) \<in> set catalog_signature"
    by (force simp: catalog_signature_def)
  with catalog_keys_distinct show ?thesis by simp
qed

lemma TOOLS_at_total:
  assumes "k \<in> fst ` set catalog_signature"
  obtains t where "TOOLS_at k = Inr t"
proof -
  from assms have "k \<in> fst ` set TOOLS" by (force simp: catalog_signature_def)
  then obtain t where "map_of TOOLS k = Some t"
    by (metis domD dom_map_of_conv_image_fst)
  then have "TOOLS_at k = Inr t" by (simp add: TOOLS_at_def)
  then show thesis by (rule that)
qed

lemma tools_list_total:
  "set ks \<subseteq> set (map fst catalog_signature) \<Longrightarrow> \<exists>tls. tools_list ks = Inr tls"
proof (induction ks)
  case Nil
  show ?case by simp
next
  case (Cons k ks)
  from Cons.prems have k: "k \<in> fst ` set catalog_signature"
    and ks: "set ks \<subseteq> set (map fst catalog_signature)" by auto
  obtain t where t: "TOOLS_at k = Inr t" using k by (rule TOOLS_at_total)
  from Cons.IH[OF ks] obtain ts where ts: "tools_list ks = Inr ts" ..
  show ?case by (simp add: t ts)
qed

lemma tools_list_mem:
  "tools_list ks = Inr tls \<Longrightarrow> t \<in> set tls \<Longrightarrow> \<exists>k\<in>set ks. TOOLS_at k = Inr t"
proof (induction ks arbitrary: tls)
  case Nil
  then show ?case by simp
next
  case (Cons k ks)
  from Cons.prems(1) obtain t0 ts where h: "TOOLS_at k = Inr t0" "tools_list ks = Inr ts" "tls = t0 # ts"
    by (auto simp: ebind_eq_Inr)
  show ?case
  proof (cases "t = t0")
    case True
    with h(1) show ?thesis by simp
  next
    case False
    with Cons.prems(2) h(3) have "t \<in> set ts" by simp
    from Cons.IH[OF h(2) this] show ?thesis by auto
  qed
qed

lemma tools_list_key:
  "tools_list ks = Inr tls \<Longrightarrow> k \<in> set ks \<Longrightarrow> \<exists>t\<in>set tls. TOOLS_at k = Inr t"
proof (induction ks arbitrary: tls)
  case Nil
  then show ?case by simp
next
  case (Cons k0 ks)
  from Cons.prems(1) obtain t0 ts where h: "TOOLS_at k0 = Inr t0" "tools_list ks = Inr ts" "tls = t0 # ts"
    by (auto simp: ebind_eq_Inr)
  show ?case
  proof (cases "k = k0")
    case True
    with h(1,3) show ?thesis by simp
  next
    case False
    with Cons.prems(2) have "k \<in> set ks" by simp
    from Cons.IH[OF h(2) this] h(3) show ?thesis by auto
  qed
qed

text \<open>
  The tool list of a generator matches a call to one of its tools that carries the
  parameters the catalog requires of that tool.
\<close>

lemma TOOLS_at_name:
  assumes "TOOLS_at k = Inr t"
  shows "name t = k"
proof -
  have "map_of catalog_signature k = Some (name t, required (parameters t))"
    using assms by (rule TOOLS_at_signature)
  then have "(k, name t, required (parameters t)) \<in> set catalog_signature"
    by (rule map_of_SomeD)
  then show ?thesis by (rule catalog_names)
qed

lemma call_ok_tools:
  assumes t: "tools_list ks = Inr tls"
    and n: "n \<in> set ks"
    and m: "(n, n', r) \<in> set catalog_signature"
    and k: "set r \<subseteq> fst ` set a"
  shows "call_ok tls n a"
  unfolding call_ok_def
proof (intro conjI ballI impI)
  from tools_list_key[OF t n] obtain t0 where t0: "t0 \<in> set tls" "TOOLS_at n = Inr t0" by blast
  from t0(2) have "name t0 = n" by (rule TOOLS_at_name)
  with t0(1) show "n \<in> name ` set tls" by (rule rev_image_eqI[OF _ sym])
next
  fix t' assume mem: "t' \<in> set tls" and nm: "name t' = n"
  from tools_list_mem[OF t mem] obtain k' where k': "TOOLS_at k' = Inr t'" by blast
  from k' have "name t' = k'" by (rule TOOLS_at_name)
  with nm have "k' = n" by simp
  with k' have "TOOLS_at n = Inr t'" by simp
  then have "map_of catalog_signature n = Some (name t', required (parameters t'))"
    by (rule TOOLS_at_signature)
  moreover have "map_of catalog_signature n = Some (n', r)"
    using catalog_keys_distinct m by simp
  ultimately have "required (parameters t') = r" by simp
  with k show "set (required (parameters t')) \<subseteq> fst ` set a" by simp
qed

text \<open>The entries of the signature, one fact for each tool a generator calls.\<close>

lemma sig_research: "(''research'', ''research'', [''query'']) \<in> set catalog_signature"
  by (simp add: catalog_signature_eval)

lemma sig_search_knowledge: "(''search_knowledge'', ''search_knowledge'', [''query'']) \<in> set catalog_signature"
  by (simp add: catalog_signature_eval)

lemma sig_create_knowledge: "(''create_knowledge'', ''create_knowledge'', [''title'', ''content'']) \<in> set catalog_signature"
  by (simp add: catalog_signature_eval)

lemma sig_get_user_facts: "(''get_user_facts'', ''get_user_facts'', []) \<in> set catalog_signature"
  by (simp add: catalog_signature_eval)

lemma sig_create_task: "(''create_task'', ''create_task'', [''title'']) \<in> set catalog_signature"
  by (simp add: catalog_signature_eval)

lemma sig_get_tasks: "(''get_tasks'', ''get_tasks'', []) \<in> set catalog_signature"
  by (simp add: catalog_signature_eval)

lemma sig_complete_task: "(''complete_task'', ''complete_task'', [''task_id'']) \<in> set catalog_signature"
  by (simp add: catalog_signature_eval)

lemma sig_delete_task: "(''delete_task'', ''delete_task'', [''task_id'']) \<in> set catalog_signature"
  by (simp add: catalog_signature_eval)

lemma sig_get_calendar_events: "(''get_calendar_events'', ''get_calendar_events'', []) \<in> set catalog_signature"
  by (simp add: catalog_signature_eval)

lemma sig_create_calendar_event: "(''create_calendar_event'', ''create_calendar_event'', [''title'', ''start_at'', ''end_at'']) \<in> set catalog_signature"
  by (simp add: catalog_signature_eval)

lemma sig_get_emails: "(''get_emails'', ''get_emails'', []) \<in> set catalog_signature"
  by (simp add: catalog_signature_eval)

lemma sig_search_emails: "(''search_emails'', ''search_emails'', [''query'']) \<in> set catalog_signature"
  by (simp add: catalog_signature_eval)

lemma sig_send_email: "(''send_email'', ''send_email'', [''to'', ''subject'', ''body'']) \<in> set catalog_signature"
  by (simp add: catalog_signature_eval)

lemma sig_play_music: "(''play_music'', ''play_music'', [''query'']) \<in> set catalog_signature"
  by (simp add: catalog_signature_eval)

lemma sig_pause_music: "(''pause_music'', ''pause_music'', []) \<in> set catalog_signature"
  by (simp add: catalog_signature_eval)

lemma sig_skip_track: "(''skip_track'', ''skip_track'', []) \<in> set catalog_signature"
  by (simp add: catalog_signature_eval)

lemma sig_previous_track: "(''previous_track'', ''previous_track'', []) \<in> set catalog_signature"
  by (simp add: catalog_signature_eval)

lemma sig_get_currently_playing: "(''get_currently_playing'', ''get_currently_playing'', []) \<in> set catalog_signature"
  by (simp add: catalog_signature_eval)

lemma sig_search_music: "(''search_music'', ''search_music'', [''query'']) \<in> set catalog_signature"
  by (simp add: catalog_signature_eval)

lemma sig_set_volume: "(''set_volume'', ''set_volume'', [''volume_percent'']) \<in> set catalog_signature"
  by (simp add: catalog_signature_eval)

lemma sig_navigate: "(''navigate'', ''navigate'', [''url'']) \<in> set catalog_signature"
  by (simp add: catalog_signature_eval)

lemma sig_screenshot: "(''screenshot'', ''screenshot'', []) \<in> set catalog_signature"
  by (simp add: catalog_signature_eval)

lemma sig_click: "(''click'', ''click'', [''selector'']) \<in> set catalog_signature"
  by (simp add: catalog_signature_eval)

lemma sig_fill: "(''fill'', ''fill'', [''selector'', ''text'']) \<in> set catalog_signature"
  by (simp add: catalog_signature_eval)

lemma sig_get_page_content: "(''get_page_content'', ''get_page_content'', [''url'']) \<in> set catalog_signature"
  by (simp add: catalog_signature_eval)

lemma sig_execute_python: "(''execute_python'', ''execute_python'', [''code'']) \<in> set catalog_signature"
  by (simp add: catalog_signature_eval)

lemma sig_execute_javascript: "(''execute_javascript'', ''execute_javascript'', [''code'']) \<in> set catalog_signature"
  by (simp add: catalog_signature_eval)

lemma sig_create_reminder: "(''create_reminder'', ''create_reminder'', [''message'', ''delay_minutes'']) \<in> set catalog_signature"
  by (simp add: catalog_signature_eval)

lemma sig_list_reminders: "(''list_reminders'', ''list_reminders'', []) \<in> set catalog_signature"
  by (simp add: catalog_signature_eval)

lemma sig_write_file: "(''write_file'', ''write_file'', [''filename'', ''content'']) \<in> set catalog_signature"
  by (simp add: catalog_signature_eval)

lemma sig_read_file: "(''read_file'', ''read_file'', [''filename'']) \<in> set catalog_signature"
  by (simp add: catalog_signature_eval)

lemma sig_list_files: "(''list_files'', ''list_files'', []) \<in> set catalog_signature"
  by (simp add: catalog_signature_eval)

lemma sig_delete_file: "(''delete_file'', ''delete_file'', [''filename'']) \<in> set catalog_signature"
  by (simp add: catalog_signature_eval)

lemma sig_generate_image: "(''generate_image'', ''generate_image'', [''prompt'']) \<in> set catalog_signature"
  by (simp add: catalog_signature_eval)

lemma sig_search_youtube: "(''search_youtube'', ''search_youtube'', [''query'']) \<in> set catalog_signature"
  by (simp add: catalog_signature_eval)

lemma sig_system_cpu_usage: "(''system_cpu_usage'', ''system_cpu_usage'', []) \<in> set catalog_signature"
  by (simp add: catalog_signature_eval)

lemma sig_system_memory: "(''system_memory'', ''system_memory'', []) \<in> set catalog_signature"
  by (simp add: catalog_signature_eval)

lemma sig_system_disk: "(''system_disk'', ''system_disk'', []) \<in> set catalog_signature"
  by (simp add: catalog_signature_eval)

lemma sig_system_uptime: "(''system_uptime'', ''system_uptime'', []) \<in> set catalog_signature"
  by (simp add: catalog_signature_eval)

lemma sig_system_load: "(''system_load'', ''system_load'', []) \<in> set catalog_signature"
  by (simp add: catalog_signature_eval)

lemma sig_docker_containers: "(''docker_containers'', ''docker_containers'', []) \<in> set catalog_signature"
  by (simp add: catalog_signature_eval)

lemma sig_docker_logs: "(''docker_logs'', ''docker_logs'', [''container_id'']) \<in> set catalog_signature"
  by (simp add: catalog_signature_eval)

lemma sig_docker_stats: "(''docker_stats'', ''docker_stats'', [''container_id'']) \<in> set catalog_signature"
  by (simp add: catalog_signature_eval)

lemma sig_analyze_mood: "(''analyze_mood'', ''analyze_mood'', [''message'']) \<in> set catalog_signature"
  by (simp add: catalog_signature_eval)

lemma sig_get_mood_history: "(''get_mood_history'', ''get_mood_history'', []) \<in> set catalog_signature"
  by (simp add: catalog_signature_eval)

lemma sig_search_documents: "(''search_documents'', ''search_documents'', [''query'']) \<in> set catalog_signature"
  by (simp add: catalog_signature_eval)

lemma sig_get_documents: "(''get_documents'', ''get_documents'', []) \<in> set catalog_signature"
  by (simp add: catalog_signature_eval)

lemma sig_generate_background: "(''generate_background'', ''generate_background'', [''prompt'']) \<in> set catalog_signature"
  by (simp add: catalog_signature_eval)

lemma sig_get_backgrounds: "(''get_backgrounds'', ''get_backgrounds'', []) \<in> set catalog_signature"
  by (simp add: catalog_signature_eval)

lemma sig_create_project: "(''create_project'', ''create_project'', [''name'', ''type'']) \<in> set catalog_signature"
  by (simp add: catalog_signature_eval)

lemma sig_get_projects: "(''get_projects'', ''get_projects'', []) \<in> set catalog_signature"
  by (simp add: catalog_signature_eval)

lemma sig_analyze_image: "(''analyze_image'', ''analyze_image'', [''image_url'']) \<in> set catalog_signature"
  by (simp add: catalog_signature_eval)

section \<open>Every generator returns examples of the expected form\<close>

text \<open>
  For each generator: its patterns format without error, its loop bodies return, and
  every example it returns carries calls that its tool list matches.
\<close>

lemma research_patterns_format:
  assumes "p \<in> set research_patterns"
  obtains s where "py_format p [(''t'', x)] = Inr s"
  using assms by (auto simp: research_patterns_def py_format_def)

lemma research_body_ok:
  assumes ok: "\<And>a. set [''query''] \<subseteq> fst ` set a \<Longrightarrow> call_ok tls ''research'' a"
    and p: "pattern \<in> set research_patterns"
  shows "\<exists>new rs'. research_body tls topic pattern rs = Inr (new, rs') \<and> (\<forall>e\<in>set new. tool_form e)"
proof -
  obtain u where u: "py_format pattern [(''t'', topic)] = Inr u"
    using p by (rule research_patterns_format)
  obtain depth rs1 where d: "random_choice rs [''quick'', ''thorough''] = Inr (depth, rs1)"
    by (cases "draw rs") (simp add: random_choice_def)
  define args where "args = (if depth = ''thorough''
       then AList.update ''depth'' (JStr depth) [(''query'', JStr (topic @ '' latest developments''))]
       else [(''query'', JStr (topic @ '' latest developments''))])"
  obtain vars rs2 where v: "vary_message rs1 u = Inr (vars, rs2)"
    using vary_message_total[of rs1 u] by (elim exE)
  have "call_ok tls ''research'' args"
    by (rule ok) (simp add: args_def dom_update)
  then have "tool_form (make_example m ''research'' args tls th)" for m th
    by (rule tool_form_make_example)
  then show ?thesis
    using u d v by (simp add: research_body_def Let_def args_def)
qed

lemma gen_research_ok:
  "\<exists>exs rs'. gen_research rs = Inr (exs, rs') \<and> (\<forall>e\<in>set exs. tool_form e)"
proof -
  have "\<exists>tls. tools_list
       [''research'', ''search_knowledge''] = Inr tls"
    (is "\<exists>tls. ?T tls")
    by (rule tools_list_total) (simp add: catalog_keys_eval)
  then obtain tls where t: "?T tls" ..
  have c_research: "call_ok tls ''research'' a" if "set [''query''] \<subseteq> fst ` set a" for a
    by (rule call_ok_tools[OF t _ sig_research]) (use that in simp_all)
  have "\<exists>out rs'. for_each (\<lambda>topic rs1.
           ebind (random_sample rs1 research_patterns 4) (\<lambda>(patterns, rs2).
             for_each (research_body tls topic) patterns rs2)) research_topics rs = Inr (out, rs') \<and>
          (\<forall>e\<in>set out. tool_form e)"
    by (rule for_each_all, rule sampled_loop_all, simp add: research_patterns_def,
        rule research_body_ok[OF c_research])
  then show ?thesis
    unfolding gen_research_def t by simp
qed

lemma knowledge_patterns_format:
  assumes "p \<in> set knowledge_patterns"
  obtains s where "py_format p [(''t'', x)] = Inr s"
  using assms by (auto simp: knowledge_patterns_def py_format_def)

lemma knowledge_creates_format:
  assumes "(p, title, z, cat) \<in> set knowledge_creates"
  obtains s where "py_format p [(''c'', x)] = Inr s"
  using assms by (auto simp: knowledge_creates_def py_format_def)

lemma knowledge_search_body_ok:
  assumes ok: "\<And>a. set [''query''] \<subseteq> fst ` set a \<Longrightarrow> call_ok tls ''search_knowledge'' a"
    and p: "pattern \<in> set knowledge_patterns"
  shows "\<exists>new rs'. knowledge_search_body tls term pattern rs = Inr (new, rs') \<and> (\<forall>e\<in>set new. tool_form e)"
proof -
  obtain u where u: "py_format pattern [(''t'', term)] = Inr u"
    using p by (rule knowledge_patterns_format)
  have "call_ok tls ''search_knowledge'' [(''query'', JStr term)]"
    by (rule ok) simp
  then have "tool_form (make_example m ''search_knowledge'' [(''query'', JStr term)] tls th)" for m th
    by (rule tool_form_make_example)
  then have "\<exists>new rs'. with_variations 2
         (\<lambda>m. make_example m ''search_knowledge'' [(''query'', JStr term)] tls
                (''User wants to search knowledge for: '' @ term)) u rs = Inr (new, rs') \<and> (\<forall>e\<in>set new. tool_form e)"
    by (rule with_variations_all)
  then show ?thesis
    using u by (simp add: knowledge_search_body_def Let_def)
qed

lemma knowledge_create_body_ok:
  assumes ok: "\<And>a. set [''title'', ''content''] \<subseteq> fst ` set a \<Longrightarrow> call_ok tls ''create_knowledge'' a"
    and c: "create \<in> set knowledge_creates"
  shows "\<exists>new rs'. knowledge_create_body tls create cont rs = Inr (new, rs') \<and> (\<forall>e\<in>set new. tool_form e)"
proof -
  obtain pattern title z cat where cr: "create = (pattern, title, z, cat)" by (cases create)
  obtain u where u: "py_format pattern [(''c'', cont)] = Inr u"
    using c unfolding cr by (rule knowledge_creates_format)
  have "call_ok tls ''create_knowledge''
          [(''title'', JStr title), (''content'', JStr cont), (''category'', JStr cat)]"
    by (rule ok) simp
  then have "tool_form (make_example m ''create_knowledge''
          [(''title'', JStr title), (''content'', JStr cont), (''category'', JStr cat)] tls th)" for m th
    by (rule tool_form_make_example)
  then show ?thesis
    using u by (simp add: knowledge_create_body_def cr Let_def)
qed

lemma gen_knowledge_ok:
  "\<exists>exs rs'. gen_knowledge rs = Inr (exs, rs') \<and> (\<forall>e\<in>set exs. tool_form e)"
proof -
  have "\<exists>tls. tools_list
       [''search_knowledge'', ''create_knowledge'', ''get_user_facts''] = Inr tls"
    (is "\<exists>tls. ?T tls")
    by (rule tools_list_total) (simp add: catalog_keys_eval)
  then obtain tls where t: "?T tls" ..
  have c_search_knowledge: "call_ok tls ''search_knowledge'' a" if "set [''query''] \<subseteq> fst ` set a" for a
    by (rule call_ok_tools[OF t _ sig_search_knowledge]) (use that in simp_all)
  have c_create_knowledge: "call_ok tls ''create_knowledge'' a" if "set [''title'', ''content''] \<subseteq> fst ` set a" for a
    by (rule call_ok_tools[OF t _ sig_create_knowledge]) (use that in simp_all)
  have c_get_user_facts: "call_ok tls ''get_user_facts'' a" for a
    by (rule call_ok_tools[OF t _ sig_get_user_facts]) simp_all
  have "\<exists>out rs'. for_each (\<lambda>term rs1.
                  ebind (random_sample rs1 knowledge_patterns 3) (\<lambda>(patterns, rs2).
                    for_each (knowledge_search_body tls term) patterns rs2))
                knowledge_search_terms rs = Inr (out, rs') \<and> (\<forall>e\<in>set out. tool_form e)"
    (is "\<exists>out rs'. ?loop1 = Inr (out, rs') \<and> _")
    by (rule for_each_all, rule sampled_loop_all, simp add: knowledge_patterns_def,
        rule knowledge_search_body_ok[OF c_search_knowledge])
  then obtain searches rs3 where s: "?loop1 = Inr (searches, rs3)"
    and sf: "\<forall>e\<in>set searches. tool_form e" by (elim exE conjE)
  have "\<exists>out rs'. for_each (\<lambda>create rs4.
                    for_each (knowledge_create_body tls create) (take 5 knowledge_contents) rs4)
                  knowledge_creates rs3 = Inr (out, rs') \<and> (\<forall>e\<in>set out. tool_form e)"
    (is "\<exists>out rs'. ?loop2 = Inr (out, rs') \<and> _")
    by (rule for_each_all, rule for_each_all, rule knowledge_create_body_ok[OF c_create_knowledge])
  then obtain created rs5 where c: "?loop2 = Inr (created, rs5)"
    and cf: "\<forall>e\<in>set created. tool_form e" by (elim exE conjE)
  show ?thesis
    unfolding gen_knowledge_def t using sf cf
    by (simp add: s c ball_Un tool_form_make_example c_get_user_facts)
qed

lemma tasks_create_patterns_format:
  assumes "p \<in> set tasks_create_patterns"
  obtains s where "py_format p [(''t'', x)] = Inr s"
  using assms by (auto simp: tasks_create_patterns_def py_format_def)

lemma tasks_create_body_ok:
  assumes ok: "\<And>a. set [''title''] \<subseteq> fst ` set a \<Longrightarrow> call_ok tls ''create_task'' a"
    and p: "pattern \<in> set tasks_create_patterns"
  shows "\<exists>new rs'. tasks_create_body tls task pattern rs = Inr (new, rs') \<and> (\<forall>e\<in>set new. tool_form e)"
proof -
  obtain task_desc title desc priority where tk: "task = (task_desc, title, desc, priority)"
    by (cases task)
  obtain u where u: "py_format pattern [(''t'', task_desc)] = Inr u"
    using p by (rule tasks_create_patterns_format)
  define args where "args = (if truthy priority
       then AList.update ''priority'' (JStr (the priority))
              (if truthy desc
               then AList.update ''description'' (JStr (the desc)) [(''title'', JStr title)]
               else [(''title'', JStr title)])
       else (if truthy desc
             then AList.update ''description'' (JStr (the desc)) [(''title'', JStr title)]
             else [(''title'', JStr title)]))"
  have e: "tasks_create_body tls task pattern rs =
      with_variations 2
         (\<lambda>m. make_example m ''create_task'' args tls (''User wants to create task: '' @ title)) u rs"
    by (simp add: tasks_create_body_def tk u Let_def args_def)
  have "call_ok tls ''create_task'' args"
    by (rule ok) (simp add: args_def dom_update)
  then have "tool_form (make_example m ''create_task'' args tls th)" for m th
    by (rule tool_form_make_example)
  then show ?thesis
    unfolding e by (rule with_variations_all)
qed

lemma tasks_get_body_ok:
  assumes ok: "\<And>a. call_ok tls ''get_tasks'' a"
  shows "\<exists>new rs'. tasks_get_body tls p rs = Inr (new, rs') \<and> (\<forall>e\<in>set new. tool_form e)"
proof -
  obtain user_msg args where p: "p = (user_msg, args)" by (cases p)
  have "tool_form (make_example m ''get_tasks'' args tls th)" for m th
    by (rule tool_form_make_example, rule ok)
  then have "\<exists>new rs'. with_variations 3
         (\<lambda>m. make_example m ''get_tasks'' args tls ''User wants their tasks.'') user_msg rs
       = Inr (new, rs') \<and> (\<forall>e\<in>set new. tool_form e)"
    by (rule with_variations_all)
  then show ?thesis by (simp add: tasks_get_body_def p)
qed

lemma gen_tasks_ok:
  "\<exists>exs rs'. gen_tasks rs = Inr (exs, rs') \<and> (\<forall>e\<in>set exs. tool_form e)"
proof -
  have "\<exists>tls. tools_list
       [''create_task'', ''get_tasks'', ''complete_task'', ''delete_task''] = Inr tls"
    (is "\<exists>tls. ?T tls")
    by (rule tools_list_total) (simp add: catalog_keys_eval)
  then obtain tls where t: "?T tls" ..
  have c_create_task: "call_ok tls ''create_task'' a" if "set [''title''] \<subseteq> fst ` set a" for a
    by (rule call_ok_tools[OF t _ sig_create_task]) (use that in simp_all)
  have c_get_tasks: "call_ok tls ''get_tasks'' a" for a
    by (rule call_ok_tools[OF t _ sig_get_tasks]) simp_all
  have "\<exists>out rs'. for_each (\<lambda>task rs1.
                  ebind (random_sample rs1 tasks_create_patterns 4) (\<lambda>(patterns, rs2).
                    for_each (tasks_create_body tls task) patterns rs2))
                tasks_tasks rs = Inr (out, rs') \<and> (\<forall>e\<in>set out. tool_form e)"
    (is "\<exists>out rs'. ?loop1 = Inr (out, rs') \<and> _")
    by (rule for_each_all, rule sampled_loop_all, simp add: tasks_create_patterns_def,
        rule tasks_create_body_ok[OF c_create_task])
  then obtain created rs3 where c: "?loop1 = Inr (created, rs3)"
    and cf: "\<forall>e\<in>set created. tool_form e" by (elim exE conjE)
  have "\<exists>out rs'. for_each (tasks_get_body tls) tasks_get_patterns rs3 = Inr (out, rs') \<and>
          (\<forall>e\<in>set out. tool_form e)"
    (is "\<exists>out rs'. ?loop2 = Inr (out, rs') \<and> _")
    by (rule for_each_all, rule tasks_get_body_ok[OF c_get_tasks])
  then obtain got rs4 where g: "?loop2 = Inr (got, rs4)"
    and gf: "\<forall>e\<in>set got. tool_form e" by (elim exE conjE)
  show ?thesis
    unfolding gen_tasks_def t using cf gf by (simp add: c g ball_Un)
qed

lemma calendar_get_body_ok:
  assumes ok: "\<And>a. call_ok tls ''get_calendar_events'' a"
  shows "\<exists>new rs'. calendar_get_body tls p rs = Inr (new, rs') \<and> (\<forall>e\<in>set new. tool_form e)"
proof -
  obtain user_msg args where p: "p = (user_msg, args)" by (cases p)
  have "tool_form (make_example m ''get_calendar_events'' args tls th)" for m th
    by (rule tool_form_make_example, rule ok)
  then have "\<exists>new rs'. with_variations 3
         (\<lambda>m. make_example m ''get_calendar_events'' args tls ''User wants calendar.'') user_msg rs
       = Inr (new, rs') \<and> (\<forall>e\<in>set new. tool_form e)"
    by (rule with_variations_all)
  then show ?thesis by (simp add: calendar_get_body_def p)
qed

lemma gen_calendar_ok:
  "\<exists>exs rs'. gen_calendar rs = Inr (exs, rs') \<and> (\<forall>e\<in>set exs. tool_form e)"
proof -
  have "\<exists>tls. tools_list
       [''get_calendar_events'', ''create_calendar_event''] = Inr tls"
    (is "\<exists>tls. ?T tls")
    by (rule tools_list_total) (simp add: catalog_keys_eval)
  then obtain tls where t: "?T tls" ..
  have c_get_calendar_events: "call_ok tls ''get_calendar_events'' a" for a
    by (rule call_ok_tools[OF t _ sig_get_calendar_events]) simp_all
  have c_create_calendar_event: "call_ok tls ''create_calendar_event'' a" if "set [''title'', ''start_at'', ''end_at''] \<subseteq> fst ` set a" for a
    by (rule call_ok_tools[OF t _ sig_create_calendar_event]) (use that in simp_all)
  have "\<exists>out rs'. for_each (calendar_get_body tls) calendar_get_patterns rs = Inr (out, rs') \<and>
          (\<forall>e\<in>set out. tool_form e)"
    (is "\<exists>out rs'. ?loop = Inr (out, rs') \<and> _")
    by (rule for_each_all, rule calendar_get_body_ok[OF c_get_calendar_events])
  then obtain got rs1 where g: "?loop = Inr (got, rs1)"
    and gf: "\<forall>e\<in>set got. tool_form e" by (elim exE conjE)
  have ev: "\<forall>e\<in>set (calendar_event_examples tls event). tool_form e" for event
    by (simp add: calendar_event_examples_def Let_def tool_form_make_example c_create_calendar_event)
  show ?thesis
    unfolding gen_calendar_def t using gf ev by (simp add: g ball_Un)
qed

lemma email_get_body_ok:
  assumes ok: "\<And>a. call_ok tls ''get_emails'' a"
  shows "\<exists>new rs'. email_get_body tls p rs = Inr (new, rs') \<and> (\<forall>e\<in>set new. tool_form e)"
proof -
  obtain user_msg args where p: "p = (user_msg, args)" by (cases p)
  have "tool_form (make_example m ''get_emails'' args tls th)" for m th
    by (rule tool_form_make_example, rule ok)
  then have "\<exists>new rs'. with_variations 3
         (\<lambda>m. make_example m ''get_emails'' args tls ''User wants emails.'') user_msg rs
       = Inr (new, rs') \<and> (\<forall>e\<in>set new. tool_form e)"
    by (rule with_variations_all)
  then show ?thesis by (simp add: email_get_body_def p)
qed

lemma gen_email_ok:
  "\<exists>exs rs'. gen_email rs = Inr (exs, rs') \<and> (\<forall>e\<in>set exs. tool_form e)"
proof -
  have "\<exists>tls. tools_list
       [''get_emails'', ''search_emails'', ''send_email''] = Inr tls"
    (is "\<exists>tls. ?T tls")
    by (rule tools_list_total) (simp add: catalog_keys_eval)
  then obtain tls where t: "?T tls" ..
  have c_get_emails: "call_ok tls ''get_emails'' a" for a
    by (rule call_ok_tools[OF t _ sig_get_emails]) simp_all
  have c_search_emails: "call_ok tls ''search_emails'' a" if "set [''query''] \<subseteq> fst ` set a" for a
    by (rule call_ok_tools[OF t _ sig_search_emails]) (use that in simp_all)
  have c_send_email: "call_ok tls ''send_email'' a" if "set [''to'', ''subject'', ''body''] \<subseteq> fst ` set a" for a
    by (rule call_ok_tools[OF t _ sig_send_email]) (use that in simp_all)
  have "\<exists>out rs'. for_each (email_get_body tls) email_get_patterns rs = Inr (out, rs') \<and>
          (\<forall>e\<in>set out. tool_form e)"
    (is "\<exists>out rs'. ?loop = Inr (out, rs') \<and> _")
    by (rule for_each_all, rule email_get_body_ok[OF c_get_emails])
  then obtain got rs1 where g: "?loop = Inr (got, rs1)"
    and gf: "\<forall>e\<in>set got. tool_form e" by (elim exE conjE)
  have se: "\<forall>e\<in>set (email_search_examples tls tm). tool_form e" for tm
    by (simp add: email_search_examples_def Let_def tool_form_make_example c_search_emails)
  have sn: "tool_form (email_send_example tls send)" for send
    by (cases send) (simp add: email_send_example_def Let_def tool_form_make_example c_send_email)
  show ?thesis
    unfolding gen_email_def t using gf se sn by (simp add: g ball_Un)
qed

lemma music_patterns_format:
  assumes "p \<in> set music_patterns"
  obtains s where "py_format p [(''i'', x)] = Inr s"
  using assms by (auto simp: music_patterns_def py_format_def)

lemma music_play_body_ok:
  assumes ok: "\<And>a. set [''query''] \<subseteq> fst ` set a \<Longrightarrow> call_ok tls ''play_music'' a"
    and p: "pattern \<in> set music_patterns"
  shows "\<exists>new rs'. music_play_body tls it pattern rs = Inr (new, rs') \<and> (\<forall>e\<in>set new. tool_form e)"
proof -
  obtain item ty where it: "it = (item, ty)" by (cases it)
  obtain u where u: "py_format pattern [(''i'', item)] = Inr u"
    using p by (rule music_patterns_format)
  obtain r rs1 where r: "random_random rs = (r, rs1)" by (cases "random_random rs")
  define args where "args = (if r > float_0_8
       then AList.update ''shuffle'' (JBool True) [(''query'', JStr item), (''type'', JStr ty)]
       else [(''query'', JStr item), (''type'', JStr ty)])"
  have e: "music_play_body tls it pattern rs =
      with_variations 2 (\<lambda>m. make_example m ''play_music'' args tls (''Play music: '' @ item)) u rs1"
    by (simp add: music_play_body_def it u r Let_def args_def)
  have "call_ok tls ''play_music'' args"
    by (rule ok) (simp add: args_def dom_update)
  then have "tool_form (make_example m ''play_music'' args tls th)" for m th
    by (rule tool_form_make_example)
  then show ?thesis
    unfolding e by (rule with_variations_all)
qed

lemma gen_music_ok:
  "\<exists>exs rs'. gen_music rs = Inr (exs, rs') \<and> (\<forall>e\<in>set exs. tool_form e)"
proof -
  have "\<exists>tls. tools_list
       [''play_music'', ''pause_music'', ''skip_track'', ''previous_track'',
        ''get_currently_playing'', ''search_music'', ''set_volume''] = Inr tls"
    (is "\<exists>tls. ?T tls")
    by (rule tools_list_total) (simp add: catalog_keys_eval)
  then obtain tls where t: "?T tls" ..
  have c_play_music: "call_ok tls ''play_music'' a" if "set [''query''] \<subseteq> fst ` set a" for a
    by (rule call_ok_tools[OF t _ sig_play_music]) (use that in simp_all)
  have c_pause_music: "call_ok tls ''pause_music'' a" for a
    by (rule call_ok_tools[OF t _ sig_pause_music]) simp_all
  have c_skip_track: "call_ok tls ''skip_track'' a" for a
    by (rule call_ok_tools[OF t _ sig_skip_track]) simp_all
  have c_previous_track: "call_ok tls ''previous_track'' a" for a
    by (rule call_ok_tools[OF t _ sig_previous_track]) simp_all
  have c_get_currently_playing: "call_ok tls ''get_currently_playing'' a" for a
    by (rule call_ok_tools[OF t _ sig_get_currently_playing]) simp_all
  have c_set_volume: "call_ok tls ''set_volume'' a" if "set [''volume_percent''] \<subseteq> fst ` set a" for a
    by (rule call_ok_tools[OF t _ sig_set_volume]) (use that in simp_all)
  have "\<exists>out rs'. for_each (\<lambda>it rs1.
                  ebind (random_sample rs1 music_patterns 3) (\<lambda>(patterns, rs2).
                    for_each (music_play_body tls it) patterns rs2))
                music_items rs = Inr (out, rs') \<and> (\<forall>e\<in>set out. tool_form e)"
    (is "\<exists>out rs'. ?loop = Inr (out, rs') \<and> _")
    by (rule for_each_all, rule sampled_loop_all, simp add: music_patterns_def,
        rule music_play_body_ok[OF c_play_music])
  then obtain played rs3 where p: "?loop = Inr (played, rs3)"
    and pf: "\<forall>e\<in>set played. tool_form e" by (elim exE conjE)
  have v: "tool_form (music_volume_example tls v)" for v
    by (cases v) (simp add: music_volume_example_def Let_def tool_form_make_example c_set_volume)
  show ?thesis
    unfolding gen_music_def t using pf
    by (simp add: p ball_Un v tool_form_make_example c_pause_music c_skip_track c_previous_track
          c_get_currently_playing)
qed

lemma gen_code_ok:
  "\<exists>exs rs'. gen_code rs = Inr (exs, rs') \<and> (\<forall>e\<in>set exs. tool_form e)"
proof -
  have "\<exists>tls. tools_list
       [''execute_python'', ''execute_javascript''] = Inr tls"
    (is "\<exists>tls. ?T tls")
    by (rule tools_list_total) (simp add: catalog_keys_eval)
  then obtain tls where t: "?T tls" ..
  have c_execute_python: "call_ok tls ''execute_python'' a" if "set [''code''] \<subseteq> fst ` set a" for a
    by (rule call_ok_tools[OF t _ sig_execute_python]) (use that in simp_all)
  have c_execute_javascript: "call_ok tls ''execute_javascript'' a" if "set [''code''] \<subseteq> fst ` set a" for a
    by (rule call_ok_tools[OF t _ sig_execute_javascript]) (use that in simp_all)
  have py: "\<forall>e\<in>set (code_python_examples_for tls p). tool_form e" for p
    by (cases p) (simp add: code_python_examples_for_def Let_def tool_form_make_example c_execute_python)
  have js: "\<forall>e\<in>set (code_js_examples_for tls p). tool_form e" for p
    by (cases p) (simp add: code_js_examples_for_def Let_def tool_form_make_example c_execute_javascript)
  show ?thesis
    unfolding gen_code_def t using py js by (simp add: ball_Un)
qed

lemma reminders_patterns_format:
  assumes "p \<in> set reminders_patterns"
  obtains s where "py_format p [(''m'', x), (''t'', y)] = Inr s"
  using assms by (auto simp: reminders_patterns_def py_format_def)

lemma reminders_body_ok:
  assumes ok: "\<And>a. set [''message'', ''delay_minutes''] \<subseteq> fst ` set a \<Longrightarrow> call_ok tls ''create_reminder'' a"
    and p: "pattern \<in> set reminders_patterns"
  shows "\<exists>new rs'. reminders_body tls reminder pattern rs = Inr (new, rs') \<and> (\<forall>e\<in>set new. tool_form e)"
proof -
  obtain msg mins where rm: "reminder = (msg, mins)" by (cases reminder)
  obtain u where u: "py_format pattern [(''m'', msg), (''t'', str_of_int mins)] = Inr u"
    using p by (rule reminders_patterns_format)
  have "call_ok tls ''create_reminder'' [(''message'', JStr msg), (''delay_minutes'', JInt mins)]"
    by (rule ok) simp
  then have "tool_form (make_example m ''create_reminder''
       [(''message'', JStr msg), (''delay_minutes'', JInt mins)] tls th)" for m th
    by (rule tool_form_make_example)
  then show ?thesis
    using u by (simp add: reminders_body_def rm Let_def)
qed

lemma gen_reminders_ok:
  "\<exists>exs rs'. gen_reminders rs = Inr (exs, rs') \<and> (\<forall>e\<in>set exs. tool_form e)"
proof -
  have "\<exists>tls. tools_list
       [''create_reminder'', ''list_reminders''] = Inr tls"
    (is "\<exists>tls. ?T tls")
    by (rule tools_list_total) (simp add: catalog_keys_eval)
  then obtain tls where t: "?T tls" ..
  have c_create_reminder: "call_ok tls ''create_reminder'' a" if "set [''message'', ''delay_minutes''] \<subseteq> fst ` set a" for a
    by (rule call_ok_tools[OF t _ sig_create_reminder]) (use that in simp_all)
  have c_list_reminders: "call_ok tls ''list_reminders'' a" for a
    by (rule call_ok_tools[OF t _ sig_list_reminders]) simp_all
  have "\<exists>out rs'. for_each (\<lambda>reminder rs1.
              for_each (reminders_body tls reminder) reminders_patterns rs1)
            reminders_reminders rs = Inr (out, rs') \<and> (\<forall>e\<in>set out. tool_form e)"
    (is "\<exists>out rs'. ?loop = Inr (out, rs') \<and> _")
    by (rule for_each_all, rule for_each_all, rule reminders_body_ok[OF c_create_reminder])
  then obtain created rs2 where c: "?loop = Inr (created, rs2)"
    and cf: "\<forall>e\<in>set created. tool_form e" by (elim exE conjE)
  show ?thesis
    unfolding gen_reminders_def t using cf
    by (simp add: c ball_Un tool_form_make_example c_list_reminders)
qed

lemma gen_files_ok:
  "\<exists>exs rs'. gen_files rs = Inr (exs, rs') \<and> (\<forall>e\<in>set exs. tool_form e)"
proof -
  have "\<exists>tls. tools_list
       [''write_file'', ''read_file'', ''list_files'', ''delete_file''] = Inr tls"
    (is "\<exists>tls. ?T tls")
    by (rule tools_list_total) (simp add: catalog_keys_eval)
  then obtain tls where t: "?T tls" ..
  have c_write_file: "call_ok tls ''write_file'' a" if "set [''filename'', ''content''] \<subseteq> fst ` set a" for a
    by (rule call_ok_tools[OF t _ sig_write_file]) (use that in simp_all)
  have c_read_file: "call_ok tls ''read_file'' a" if "set [''filename''] \<subseteq> fst ` set a" for a
    by (rule call_ok_tools[OF t _ sig_read_file]) (use that in simp_all)
  have c_list_files: "call_ok tls ''list_files'' a" for a
    by (rule call_ok_tools[OF t _ sig_list_files]) simp_all
  have c_delete_file: "call_ok tls ''delete_file'' a" if "set [''filename''] \<subseteq> fst ` set a" for a
    by (rule call_ok_tools[OF t _ sig_delete_file]) (use that in simp_all)
  have w: "\<forall>e\<in>set (files_write_examples tls p). tool_form e" for p
    by (cases p) (simp add: files_write_examples_def Let_def tool_form_make_example c_write_file)
  have r: "\<forall>e\<in>set (files_read_examples tls f). tool_form e" for f
    by (simp add: files_read_examples_def Let_def tool_form_make_example c_read_file)
  show ?thesis
    unfolding gen_files_def t using w r
    by (simp add: ball_Un tool_form_make_example c_list_files c_delete_file)
qed

lemma images_patterns_format:
  assumes "p \<in> set images_patterns"
  obtains s where "py_format p [(''s'', x)] = Inr s"
  using assms by (auto simp: images_patterns_def py_format_def)

lemma images_body_ok:
  assumes ok: "\<And>a. set [''prompt''] \<subseteq> fst ` set a \<Longrightarrow> call_ok tls ''generate_image'' a"
    and p: "pattern \<in> set images_patterns"
  shows "\<exists>new rs'. images_body tls sp pattern rs = Inr (new, rs') \<and> (\<forall>e\<in>set new. tool_form e)"
proof -
  obtain subject prompt where sp: "sp = (subject, prompt)" by (cases sp)
  obtain u where u: "py_format pattern [(''s'', subject)] = Inr u"
    using p by (rule images_patterns_format)
  have "call_ok tls ''generate_image'' [(''prompt'', JStr prompt)]"
    by (rule ok) simp
  then have "tool_form (make_example m ''generate_image'' [(''prompt'', JStr prompt)] tls th)" for m th
    by (rule tool_form_make_example)
  then show ?thesis
    using u by (simp add: images_body_def sp)
qed

lemma gen_images_ok:
  "\<exists>exs rs'. gen_images rs = Inr (exs, rs') \<and> (\<forall>e\<in>set exs. tool_form e)"
proof -
  have "\<exists>tls. tools_list
       [''generate_image''] = Inr tls"
    (is "\<exists>tls. ?T tls")
    by (rule tools_list_total) (simp add: catalog_keys_eval)
  then obtain tls where t: "?T tls" ..
  have c_generate_image: "call_ok tls ''generate_image'' a" if "set [''prompt''] \<subseteq> fst ` set a" for a
    by (rule call_ok_tools[OF t _ sig_generate_image]) (use that in simp_all)
  have "\<exists>out rs'. for_each (\<lambda>p rs1. for_each (images_body tls p) images_patterns rs1)
            images_prompts rs = Inr (out, rs') \<and> (\<forall>e\<in>set out. tool_form e)"
    by (rule for_each_all, rule for_each_all, rule images_body_ok[OF c_generate_image])
  then show ?thesis
    unfolding gen_images_def t by simp
qed

lemma youtube_patterns_format:
  assumes "p \<in> set youtube_patterns"
  obtains s where "py_format p [(''s'', x)] = Inr s"
  using assms by (auto simp: youtube_patterns_def py_format_def)

lemma youtube_body_ok:
  assumes ok: "\<And>a. set [''query''] \<subseteq> fst ` set a \<Longrightarrow> call_ok tls ''search_youtube'' a"
    and p: "pattern \<in> set youtube_patterns"
  shows "\<exists>new rs'. youtube_body tls search pattern rs = Inr (new, rs') \<and> (\<forall>e\<in>set new. tool_form e)"
proof -
  obtain u where u: "py_format pattern [(''s'', search)] = Inr u"
    using p by (rule youtube_patterns_format)
  have "call_ok tls ''search_youtube'' [(''query'', JStr search)]"
    by (rule ok) simp
  then have "tool_form (make_example m ''search_youtube'' [(''query'', JStr search)] tls th)" for m th
    by (rule tool_form_make_example)
  then show ?thesis
    using u by (simp add: youtube_body_def)
qed

lemma gen_youtube_ok:
  "\<exists>exs rs'. gen_youtube rs = Inr (exs, rs') \<and> (\<forall>e\<in>set exs. tool_form e)"
proof -
  have "\<exists>tls. tools_list
       [''search_youtube''] = Inr tls"
    (is "\<exists>tls. ?T tls")
    by (rule tools_list_total) (simp add: catalog_keys_eval)
  then obtain tls where t: "?T tls" ..
  have c_search_youtube: "call_ok tls ''search_youtube'' a" if "set [''query''] \<subseteq> fst ` set a" for a
    by (rule call_ok_tools[OF t _ sig_search_youtube]) (use that in simp_all)
  have "\<exists>out rs'. for_each (\<lambda>search rs1. for_each (youtube_body tls search) youtube_patterns rs1)
            youtube_searches rs = Inr (out, rs') \<and> (\<forall>e\<in>set out. tool_form e)"
    by (rule for_each_all, rule for_each_all, rule youtube_body_ok[OF c_search_youtube])
  then show ?thesis
    unfolding gen_youtube_def t by simp
qed

lemma gen_system_ok:
  "\<exists>exs rs'. gen_system rs = Inr (exs, rs') \<and> (\<forall>e\<in>set exs. tool_form e)"
proof -
  have "\<exists>tls. tools_list
       [''system_cpu_usage'', ''system_memory'', ''system_disk'', ''system_uptime'',
        ''system_load'', ''docker_containers'', ''docker_logs'', ''docker_stats''] = Inr tls"
    (is "\<exists>tls. ?T tls")
    by (rule tools_list_total) (simp add: catalog_keys_eval)
  then obtain tls where t: "?T tls" ..
  have c_system_cpu_usage: "call_ok tls ''system_cpu_usage'' a" for a
    by (rule call_ok_tools[OF t _ sig_system_cpu_usage]) simp_all
  have c_system_memory: "call_ok tls ''system_memory'' a" for a
    by (rule call_ok_tools[OF t _ sig_system_memory]) simp_all
  have c_system_disk: "call_ok tls ''system_disk'' a" for a
    by (rule call_ok_tools[OF t _ sig_system_disk]) simp_all
  have c_system_uptime: "call_ok tls ''system_uptime'' a" for a
    by (rule call_ok_tools[OF t _ sig_system_uptime]) simp_all
  have c_system_load: "call_ok tls ''system_load'' a" for a
    by (rule call_ok_tools[OF t _ sig_system_load]) simp_all
  have c_docker_containers: "call_ok tls ''docker_containers'' a" for a
    by (rule call_ok_tools[OF t _ sig_docker_containers]) simp_all
  have c_docker_logs: "call_ok tls ''docker_logs'' a" if "set [''container_id''] \<subseteq> fst ` set a" for a
    by (rule call_ok_tools[OF t _ sig_docker_logs]) (use that in simp_all)
  have c_docker_stats: "call_ok tls ''docker_stats'' a" if "set [''container_id''] \<subseteq> fst ` set a" for a
    by (rule call_ok_tools[OF t _ sig_docker_stats]) (use that in simp_all)
  have l: "\<forall>e\<in>set (system_log_examples tls c). tool_form e" for c
    by (simp add: system_log_examples_def tool_form_make_example c_docker_logs)
  show ?thesis
    unfolding gen_system_def t using l
    by (simp add: ball_Un tool_form_make_example c_system_cpu_usage c_system_memory c_system_disk
          c_system_uptime c_system_load c_docker_containers c_docker_stats)
qed

lemma browser_patterns_format:
  assumes "p \<in> set browser_patterns"
  obtains s where "py_format p [(''s'', x)] = Inr s"
  using assms by (auto simp: browser_patterns_def py_format_def)

lemma browser_body_ok:
  assumes ok: "\<And>a. set [''url''] \<subseteq> fst ` set a \<Longrightarrow> call_ok tls ''navigate'' a"
    and p: "pattern \<in> set browser_patterns"
  shows "\<exists>new rs'. browser_body tls su pattern rs = Inr (new, rs') \<and> (\<forall>e\<in>set new. tool_form e)"
proof -
  obtain site url where su: "su = (site, url)" by (cases su)
  obtain u where u: "py_format pattern [(''s'', site)] = Inr u"
    using p by (rule browser_patterns_format)
  have "call_ok tls ''navigate'' [(''url'', JStr url)]"
    by (rule ok) simp
  then have "tool_form (make_example m ''navigate'' [(''url'', JStr url)] tls th)" for m th
    by (rule tool_form_make_example)
  then show ?thesis
    using u by (simp add: browser_body_def su)
qed

lemma gen_browser_ok:
  "\<exists>exs rs'. gen_browser rs = Inr (exs, rs') \<and> (\<forall>e\<in>set exs. tool_form e)"
proof -
  have "\<exists>tls. tools_list
       [''navigate'', ''screenshot'', ''click'', ''fill'', ''get_page_content''] = Inr tls"
    (is "\<exists>tls. ?T tls")
    by (rule tools_list_total) (simp add: catalog_keys_eval)
  then obtain tls where t: "?T tls" ..
  have c_navigate: "call_ok tls ''navigate'' a" if "set [''url''] \<subseteq> fst ` set a" for a
    by (rule call_ok_tools[OF t _ sig_navigate]) (use that in simp_all)
  have c_screenshot: "call_ok tls ''screenshot'' a" for a
    by (rule call_ok_tools[OF t _ sig_screenshot]) simp_all
  have c_click: "call_ok tls ''click'' a" if "set [''selector''] \<subseteq> fst ` set a" for a
    by (rule call_ok_tools[OF t _ sig_click]) (use that in simp_all)
  have c_fill: "call_ok tls ''fill'' a" if "set [''selector'', ''text''] \<subseteq> fst ` set a" for a
    by (rule call_ok_tools[OF t _ sig_fill]) (use that in simp_all)
  have "\<exists>out rs'. for_each (\<lambda>p rs1. for_each (browser_body tls p) browser_patterns rs1)
            browser_sites rs = Inr (out, rs') \<and> (\<forall>e\<in>set out. tool_form e)"
    (is "\<exists>out rs'. ?loop = Inr (out, rs') \<and> _")
    by (rule for_each_all, rule for_each_all, rule browser_body_ok[OF c_navigate])
  then obtain navigated rs2 where n: "?loop = Inr (navigated, rs2)"
    and nf: "\<forall>e\<in>set navigated. tool_form e" by (elim exE conjE)
  show ?thesis
    unfolding gen_browser_def t using nf
    by (simp add: n ball_Un case_prod_unfold tool_form_make_example c_screenshot c_click c_fill)
qed

lemma gen_documents_ok:
  "\<exists>exs rs'. gen_documents rs = Inr (exs, rs') \<and> (\<forall>e\<in>set exs. tool_form e)"
proof -
  have "\<exists>tls. tools_list
       [''search_documents'', ''get_documents''] = Inr tls"
    (is "\<exists>tls. ?T tls")
    by (rule tools_list_total) (simp add: catalog_keys_eval)
  then obtain tls where t: "?T tls" ..
  have c_search_documents: "call_ok tls ''search_documents'' a" if "set [''query''] \<subseteq> fst ` set a" for a
    by (rule call_ok_tools[OF t _ sig_search_documents]) (use that in simp_all)
  have c_get_documents: "call_ok tls ''get_documents'' a" for a
    by (rule call_ok_tools[OF t _ sig_get_documents]) simp_all
  have s: "\<forall>e\<in>set (documents_search_examples tls tm). tool_form e" for tm
    by (simp add: documents_search_examples_def Let_def tool_form_make_example c_search_documents)
  show ?thesis
    unfolding gen_documents_def t using s
    by (simp add: ball_Un tool_form_make_example c_get_documents)
qed

lemma gen_mood_ok:
  "\<exists>exs rs'. gen_mood rs = Inr (exs, rs') \<and> (\<forall>e\<in>set exs. tool_form e)"
proof -
  have "\<exists>tls. tools_list
       [''analyze_mood'', ''get_mood_history''] = Inr tls"
    (is "\<exists>tls. ?T tls")
    by (rule tools_list_total) (simp add: catalog_keys_eval)
  then obtain tls where t: "?T tls" ..
  have c_analyze_mood: "call_ok tls ''analyze_mood'' a" if "set [''message''] \<subseteq> fst ` set a" for a
    by (rule call_ok_tools[OF t _ sig_analyze_mood]) (use that in simp_all)
  have c_get_mood_history: "call_ok tls ''get_mood_history'' a" for a
    by (rule call_ok_tools[OF t _ sig_get_mood_history]) simp_all
  have s: "\<forall>e\<in>set (mood_examples tls tx). tool_form e" for tx
    by (simp add: mood_examples_def Let_def tool_form_make_example c_analyze_mood)
  show ?thesis
    unfolding gen_mood_def t using s
    by (simp add: ball_Un tool_form_make_example c_get_mood_history)
qed

lemma gen_background_ok:
  "\<exists>exs rs'. gen_background rs = Inr (exs, rs') \<and> (\<forall>e\<in>set exs. tool_form e)"
proof -
  have "\<exists>tls. tools_list
       [''generate_background'', ''get_backgrounds''] = Inr tls"
    (is "\<exists>tls. ?T tls")
    by (rule tools_list_total) (simp add: catalog_keys_eval)
  then obtain tls where t: "?T tls" ..
  have c_generate_background: "call_ok tls ''generate_background'' a" if "set [''prompt''] \<subseteq> fst ` set a" for a
    by (rule call_ok_tools[OF t _ sig_generate_background]) (use that in simp_all)
  have c_get_backgrounds: "call_ok tls ''get_backgrounds'' a" for a
    by (rule call_ok_tools[OF t _ sig_get_backgrounds]) simp_all
  have s: "\<forall>e\<in>set (background_examples tls bg). tool_form e" for bg
    by (cases bg) (simp add: background_examples_def Let_def tool_form_make_example c_generate_background)
  show ?thesis
    unfolding gen_background_def t using s
    by (simp add: ball_Un tool_form_make_example c_get_backgrounds)
qed

lemma gen_projects_ok:
  "\<exists>exs rs'. gen_projects rs = Inr (exs, rs') \<and> (\<forall>e\<in>set exs. tool_form e)"
proof -
  have "\<exists>tls. tools_list
       [''create_project'', ''get_projects''] = Inr tls"
    (is "\<exists>tls. ?T tls")
    by (rule tools_list_total) (simp add: catalog_keys_eval)
  then obtain tls where t: "?T tls" ..
  have c_create_project: "call_ok tls ''create_project'' a" if "set [''name'', ''type''] \<subseteq> fst ` set a" for a
    by (rule call_ok_tools[OF t _ sig_create_project]) (use that in simp_all)
  have c_get_projects: "call_ok tls ''get_projects'' a" for a
    by (rule call_ok_tools[OF t _ sig_get_projects]) simp_all
  have s: "\<forall>e\<in>set (projects_examples tls pj). tool_form e" for pj
    by (cases pj) (simp add: projects_examples_def Let_def tool_form_make_example c_create_project)
  show ?thesis
    unfolding gen_projects_def t using s
    by (simp add: ball_Un tool_form_make_example c_get_projects)
qed

subsection \<open>gen\_negative and gen\_multi\_tool\<close>

lemma negative_body_ok:
  assumes p: "p \<in> set negative_no_tool"
  shows "\<exists>new rs'. negative_body all_tools p rs = Inr (new, rs') \<and> (\<forall>e\<in>set new. plain_form e)"
proof -
  obtain user_msg response where pr: "p = (user_msg, response)" by (cases p)
  have "min 5 (length all_tools) \<le> length all_tools" by simp
  from random_sample_Inr[OF this, of rs] obtain tls rs1 where
    s: "random_sample rs all_tools (min 5 (length all_tools)) = Inr (tls, rs1)" by blast
  have "response \<in> snd ` set negative_no_tool" using p pr by force
  then have "plain_form (make_no_tool m response tls)" for m
    unfolding plain_form_def by blast
  then have "\<exists>new rs'. with_variations 2 (\<lambda>m. make_no_tool m response tls) user_msg rs1 = Inr (new, rs') \<and>
      (\<forall>e\<in>set new. plain_form e)"
    by (rule with_variations_all)
  then show ?thesis
    using s by (simp add: negative_body_def pr)
qed

lemma gen_negative_ok:
  "\<exists>exs rs'. gen_negative rs = Inr (exs, rs') \<and> (\<forall>e\<in>set exs. plain_form e)"
  unfolding gen_negative_def Let_def
  by (rule for_each_all, rule negative_body_ok)

text \<open>
  The entries of \<open>multi\<close>: with \<open>sg\<close> a part of the catalog's signature that covers the
  keys of every entry, each entry resolves to a tool list that matches its calls when
  every call names one of the entry's keys and carries what \<open>sg\<close> requires of it.
\<close>

lemma multi_tool_resolve_ok:
  assumes sg: "set sg \<subseteq> set catalog_signature"
  shows "list_all (\<lambda>(u, calls, keys, th). calls \<noteq> [] \<and> set keys \<subseteq> fst ` set sg \<and>
            list_all (\<lambda>(n, a). n \<in> set keys \<and> (\<exists>(k, n', r)\<in>set sg. k = n \<and> set r \<subseteq> fst ` set a)) calls)
           entries \<Longrightarrow>
         \<exists>multi. multi_tool_resolve entries = Inr multi \<and>
           list_all (\<lambda>(u, calls, tls, th). calls \<noteq> [] \<and> (\<forall>(n, a)\<in>set calls. call_ok tls n a)) multi"
proof (induction entries)
  case Nil
  show ?case by simp
next
  case (Cons entry entries)
  obtain u calls keys th where en: "entry = (u, calls, keys, th)" by (cases entry)
  from Cons.prems en have ne: "calls \<noteq> []" and ks: "set keys \<subseteq> fst ` set sg"
    and cs: "\<forall>(n, a)\<in>set calls. n \<in> set keys \<and> (\<exists>(k, n', r)\<in>set sg. k = n \<and> set r \<subseteq> fst ` set a)"
    and rest: "list_all (\<lambda>(u, calls, keys, th). calls \<noteq> [] \<and> set keys \<subseteq> fst ` set sg \<and>
            list_all (\<lambda>(n, a). n \<in> set keys \<and> (\<exists>(k, n', r)\<in>set sg. k = n \<and> set r \<subseteq> fst ` set a)) calls)
           entries"
    by (auto simp: list_all_iff)
  have "set keys \<subseteq> set (map fst catalog_signature)" using ks sg by auto
  from tools_list_total[OF this] obtain tls where t: "tools_list keys = Inr tls" ..
  have ok: "call_ok tls n a" if "(n, a) \<in> set calls" for n a
  proof -
    from cs that obtain n' r where "n \<in> set keys" "(n, n', r) \<in> set sg" "set r \<subseteq> fst ` set a"
      by fastforce
    with sg show ?thesis by (intro call_ok_tools[OF t]) auto
  qed
  from Cons.IH[OF rest] obtain multi where m: "multi_tool_resolve entries = Inr multi"
    "list_all (\<lambda>(u, calls, tls, th). calls \<noteq> [] \<and> (\<forall>(n, a)\<in>set calls. call_ok tls n a)) multi"
    by blast
  have "multi_tool_resolve (entry # entries) = Inr ((u, calls, tls, th) # multi)"
    by (simp add: en t m(1))
  moreover have "list_all (\<lambda>(u, calls, tls, th). calls \<noteq> [] \<and> (\<forall>(n, a)\<in>set calls. call_ok tls n a))
      ((u, calls, tls, th) # multi)"
    using ne ok m(2) by auto
  ultimately show ?case by blast
qed

lemma multi_tool_multi_resolves:
  "\<exists>multi. multi_tool_resolve multi_tool_multi = Inr multi \<and>
     list_all (\<lambda>(u, calls, tls, th). calls \<noteq> [] \<and> (\<forall>(n, a)\<in>set calls. call_ok tls n a)) multi"
proof -
  let ?sg = "[(''play_music'', ''play_music'', [''query'']), (''get_tasks'', ''get_tasks'', []),
             (''get_emails'', ''get_emails'', []), (''get_calendar_events'', ''get_calendar_events'', []),
             (''system_cpu_usage'', ''system_cpu_usage'', []), (''system_memory'', ''system_memory'', []),
             (''system_disk'', ''system_disk'', []), (''search_knowledge'', ''search_knowledge'', [''query'']),
             (''search_documents'', ''search_documents'', [''query'']), (''list_files'', ''list_files'', []),
             (''list_reminders'', ''list_reminders'', []), (''docker_logs'', ''docker_logs'', [''container_id'']),
             (''docker_stats'', ''docker_stats'', [''container_id'']),
             (''get_backgrounds'', ''get_backgrounds'', []), (''get_projects'', ''get_projects'', [])]"
  have sub: "set ?sg \<subseteq> set catalog_signature"
    by (simp add: sig_play_music sig_get_tasks sig_get_emails sig_get_calendar_events
          sig_system_cpu_usage sig_system_memory sig_system_disk sig_search_knowledge
          sig_search_documents sig_list_files sig_list_reminders sig_docker_logs sig_docker_stats
          sig_get_backgrounds sig_get_projects)
  have chk: "list_all (\<lambda>(u, calls, keys, th). calls \<noteq> [] \<and> set keys \<subseteq> fst ` set ?sg \<and>
            list_all (\<lambda>(n, a). n \<in> set keys \<and> (\<exists>(k, n', r)\<in>set ?sg. k = n \<and> set r \<subseteq> fst ` set a)) calls)
           multi_tool_multi"
    by code_simp
  show ?thesis
    by (rule multi_tool_resolve_ok[where sg = ?sg, OF sub chk])
qed

lemma multi_tool_body_ok:
  assumes "case entry of (u, calls, tls, th) \<Rightarrow> calls \<noteq> [] \<and> (\<forall>(n, a)\<in>set calls. call_ok tls n a)"
  shows "\<exists>new rs'. multi_tool_body entry rs = Inr (new, rs') \<and> (\<forall>e\<in>set new. tool_form e)"
proof -
  obtain u calls tls th where en: "entry = (u, calls, tls, th)" by (cases entry)
  from assms en have "calls \<noteq> []" "\<forall>(n, a)\<in>set calls. call_ok tls n a" by auto
  then have "tool_form (make_multi_tool m calls tls th)" for m
    unfolding tool_form_def by blast
  then have "\<exists>new rs'. with_variations 2 (\<lambda>m. make_multi_tool m calls tls th) u rs = Inr (new, rs') \<and>
      (\<forall>e\<in>set new. tool_form e)"
    by (rule with_variations_all)
  then show ?thesis by (simp add: multi_tool_body_def en)
qed

lemma gen_multi_tool_ok:
  "\<exists>exs rs'. gen_multi_tool rs = Inr (exs, rs') \<and> (\<forall>e\<in>set exs. tool_form e)"
proof -
  from multi_tool_multi_resolves obtain multi where m: "multi_tool_resolve multi_tool_multi = Inr multi"
    and ok: "list_all (\<lambda>(u, calls, tls, th). calls \<noteq> [] \<and> (\<forall>(n, a)\<in>set calls. call_ok tls n a)) multi"
    by (elim exE conjE)
  have b: "\<exists>new rs'. multi_tool_body entry rs0 = Inr (new, rs') \<and> (\<forall>e\<in>set new. tool_form e)"
    if "entry \<in> set multi" for entry rs0
  proof (rule multi_tool_body_ok)
    show "case entry of (u, calls, tls, th) \<Rightarrow> calls \<noteq> [] \<and> (\<forall>(n, a)\<in>set calls. call_ok tls n a)"
      using ok[unfolded list_all_iff] that by (rule bspec)
  qed
  have "\<exists>out rs'. for_each multi_tool_body multi rs = Inr (out, rs') \<and> (\<forall>e\<in>set out. tool_form e)"
    by (rule for_each_all) (rule b)
  then show ?thesis
    unfolding gen_multi_tool_def m by simp
qed

end
